theory Spec2Isabelle
  imports Main "HOL-Library.Word"
begin

section \<open>Device-object archive: writer registry, layout, reader\<close>

text \<open>
  A shallow embedding of the archiver (\<^verbatim>\<open>ArchiverImpl.cpp\<close>) and of the de-archiver
  (\<^verbatim>\<open>DeviceObjectArchiveBase.cpp\<close>). Objects that C++ reaches through pointers carry
  their address in a field, so that pointer comparison is comparison of addresses. The
  unordered maps of the writer are association lists with unique keys: iteration follows
  the list, \<^verbatim>\<open>emplace\<close> appends when the key is new and changes nothing otherwise.
\<close>

subsection \<open>Bytes and serialized memory\<close>

type_synonym byte = "8 word"
type_synonym Uint32 = "32 word"

text \<open>
  \<^verbatim>\<open>SerializedMemory\<close>: an owned byte block; \<^verbatim>\<open>None\<close> is the default-constructed block,
  whose \<^verbatim>\<open>Size()\<close> is 0.
\<close>

type_synonym SerializedMemory = "byte list option"

definition Mem_Size :: "SerializedMemory \<Rightarrow> nat" where
  "Mem_Size m = (case m of None \<Rightarrow> 0 | Some bs \<Rightarrow> length bs)"

definition Mem_Bytes :: "SerializedMemory \<Rightarrow> byte list" where
  "Mem_Bytes m = (case m of None \<Rightarrow> [] | Some bs \<Rightarrow> bs)"

text \<open>\<^verbatim>\<open>operator bool\<close> of a block is false exactly when the block holds no bytes.\<close>

definition Mem_IsNull :: "SerializedMemory \<Rightarrow> bool" where
  "Mem_IsNull m = (Mem_Size m = 0)"

text \<open>
  The six archive back-ends, in the order in which the per-device arrays are indexed
  (the order of the \<^verbatim>\<open>switch\<close> in \<^verbatim>\<open>GetBlockOffsetType\<close>).
\<close>

datatype DeviceType = OpenGL | Direct3D11 | Direct3D12 | Vulkan | Metal_iOS | Metal_MacOS

definition AllDeviceTypes :: "DeviceType list" where
  "AllDeviceTypes = [OpenGL, Direct3D11, Direct3D12, Vulkan, Metal_iOS, Metal_MacOS]"

subsection \<open>Emplace on an association list\<close>

definition emplace :: "'k \<Rightarrow> 'v \<Rightarrow> ('k \<times> 'v) list \<Rightarrow> ('k \<times> 'v) list \<times> bool" where
  "emplace k v m = (case map_of m k of None \<Rightarrow> (m @ [(k, v)], True) | Some _ \<Rightarrow> (m, False))"

subsection \<open>Writer registry\<close>

record SerializableResourceSignatureImpl =
  prs_addr :: nat
  prs_Name :: string
  prs_BindingIndex :: nat
  prs_SharedSerializedMemory :: SerializedMemory
  prs_SerializedMemory :: "DeviceType \<Rightarrow> SerializedMemory option"

record PRSData =
  pPRS :: SerializableResourceSignatureImpl

record SerializableRenderPassImpl =
  rp_addr :: nat
  rp_Name :: string
  rp_SharedSerializedMemory :: SerializedMemory

record RPData =
  pRP :: SerializableRenderPassImpl

record TPSOData =
  SharedData :: SerializedMemory
  PerDeviceData :: "DeviceType \<Rightarrow> SerializedMemory"

record ShadersRec =
  Shaders_Map :: "(byte list \<times> nat) list"
  Shaders_List :: "byte list list"

record ArchiverImpl =
  m_PRSMap :: "(string \<times> PRSData) list"
  m_PRSCache :: "SerializableResourceSignatureImpl list"
  m_RPMap :: "(string \<times> RPData) list"
  m_GraphicsPSOMap :: "(string \<times> TPSOData) list"
  m_ComputePSOMap :: "(string \<times> TPSOData) list"
  m_TilePSOMap :: "(string \<times> TPSOData) list"
  m_RayTracingPSOMap :: "(string \<times> TPSOData) list"
  m_Shaders :: "DeviceType \<Rightarrow> ShadersRec"

text \<open>
  \<^verbatim>\<open>m_PRSCache\<close> is a set of signatures whose hash and equality come from the signature
  class; the equality is the parameter \<open>PRSEqual\<close>. An insertion keeps the set when an
  equal signature is already in it.
\<close>

definition PRSCache_insert ::
  "(SerializableResourceSignatureImpl \<Rightarrow> SerializableResourceSignatureImpl \<Rightarrow> bool) \<Rightarrow>
   SerializableResourceSignatureImpl \<Rightarrow> SerializableResourceSignatureImpl list \<Rightarrow>
   SerializableResourceSignatureImpl list" where
  "PRSCache_insert PRSEqual p c = (if list_ex (\<lambda>q. PRSEqual q p) c then c else c @ [p])"

text \<open>\<^verbatim>\<open>ArchiverImpl::AddPipelineResourceSignature(IPipelineResourceSignature*)\<close>.\<close>

definition AddPipelineResourceSignature ::
  "(SerializableResourceSignatureImpl \<Rightarrow> SerializableResourceSignatureImpl \<Rightarrow> bool) \<Rightarrow>
   SerializableResourceSignatureImpl option \<Rightarrow> ArchiverImpl \<Rightarrow> bool \<times> ArchiverImpl" where
  "AddPipelineResourceSignature PRSEqual pPRS_arg w =
     (case pPRS_arg of
        None \<Rightarrow> (False, w)
      | Some pPRSImpl \<Rightarrow>
          (let Name = prs_Name pPRSImpl;
               IterAndInserted = emplace Name \<lparr>pPRS = pPRSImpl\<rparr> (m_PRSMap w)
           in if \<not> snd IterAndInserted then
                (case map_of (m_PRSMap w) Name of
                   Some found \<Rightarrow>
                     (if prs_addr (pPRS found) \<noteq> prs_addr pPRSImpl then (False, w) else (True, w))
                 | None \<Rightarrow> (True, w))
              else
                (True, w\<lparr>m_PRSMap := fst IterAndInserted,
                         m_PRSCache := PRSCache_insert PRSEqual pPRSImpl (m_PRSCache w)\<rparr>)))"

text \<open>\<^verbatim>\<open>ArchiverImpl::AddRenderPass\<close>.\<close>

definition AddRenderPass :: "SerializableRenderPassImpl option \<Rightarrow> ArchiverImpl \<Rightarrow> bool \<times> ArchiverImpl" where
  "AddRenderPass pRP_arg w =
     (case pRP_arg of
        None \<Rightarrow> (False, w)
      | Some pRPImpl \<Rightarrow>
          (let IterAndInserted = emplace (rp_Name pRPImpl) \<lparr>pRP = pRPImpl\<rparr> (m_RPMap w)
           in if \<not> snd IterAndInserted then
                (case map_of (m_RPMap w) (rp_Name pRPImpl) of
                   Some found \<Rightarrow>
                     (if rp_addr (pRP found) \<noteq> rp_addr pRPImpl then (False, w) else (True, w))
                 | None \<Rightarrow> (True, w))
              else (True, w\<lparr>m_RPMap := fst IterAndInserted\<rparr>)))"

subsection \<open>Tri-mode serializer\<close>

text \<open>
  Modelled from the spec: the serializer (\<^verbatim>\<open>Serializer.hpp\<close>, \<^verbatim>\<open>PSOSerializer.hpp\<close>) is
  not among the sources; only its callers and its tests are. The spec (4.A) describes it:
  one schema per type, run in three modes; Measure counts the bytes a field occupies,
  Write emits them at a cursor, Read extracts the field at a cursor and signals a corrupt
  archive when it would pass the end of the buffer. Integers and enums are stored in their
  width, strings as a 32-bit length that includes the terminator followed by the raw
  bytes, variable arrays as a 32-bit count followed by the elements, fixed arrays and
  structures as their elements in order; a null string pointer is stored as the empty
  string. The format is byte-packed and little-endian.
\<close>

datatype val =
    VInt nat nat
  | VStr "string option"
  | VArr "val list"
  | VSeq "val list"

datatype schema =
    SInt nat
  | SStr
  | SArr schema
  | SSeq "schema list"

fun le_bytes :: "nat \<Rightarrow> nat \<Rightarrow> byte list" where
  "le_bytes 0 n = []"
| "le_bytes (Suc w) n = of_nat (n mod 256) # le_bytes w (n div 256)"

fun le_nat :: "byte list \<Rightarrow> nat" where
  "le_nat [] = 0"
| "le_nat (b # bs) = unat b + 256 * le_nat bs"

definition byte_of_char :: "char \<Rightarrow> byte" where
  "byte_of_char c = of_nat (of_char c)"

definition char_of_byte :: "byte \<Rightarrow> char" where
  "char_of_byte b = char_of (unat b)"

definition c_str :: "string option \<Rightarrow> string" where
  "c_str s = (case s of None \<Rightarrow> [] | Some t \<Rightarrow> t)"

fun Serializer_Measure :: "val \<Rightarrow> nat" where
  "Serializer_Measure (VInt w n) = w"
| "Serializer_Measure (VStr s) = 4 + (length (c_str s) + 1)"
| "Serializer_Measure (VArr vs) = 4 + sum_list (map Serializer_Measure vs)"
| "Serializer_Measure (VSeq vs) = sum_list (map Serializer_Measure vs)"

fun Serializer_Write :: "val \<Rightarrow> byte list" where
  "Serializer_Write (VInt w n) = le_bytes w n"
| "Serializer_Write (VStr s) =
     le_bytes 4 (length (c_str s) + 1) @ map byte_of_char (c_str s) @ [0]"
| "Serializer_Write (VArr vs) = le_bytes 4 (length vs) @ concat (map Serializer_Write vs)"
| "Serializer_Write (VSeq vs) = concat (map Serializer_Write vs)"

function Serializer_Read :: "schema \<Rightarrow> byte list \<Rightarrow> (val \<times> byte list) option"
  and Read_many :: "nat \<Rightarrow> schema \<Rightarrow> byte list \<Rightarrow> (val list \<times> byte list) option"
  and Read_seq :: "schema list \<Rightarrow> byte list \<Rightarrow> (val list \<times> byte list) option" where
  "Serializer_Read (SInt w) bs =
     (if length bs < w then None else Some (VInt w (le_nat (take w bs)), drop w bs))"
| "Serializer_Read SStr bs =
     (if length bs < 4 then None
      else let n = le_nat (take 4 bs); r = drop 4 bs
           in if n = 0 \<or> length r < n then None
              else if r ! (n - 1) \<noteq> 0 then None
              else Some (VStr (Some (map char_of_byte (take (n - 1) r))), drop n r))"
| "Serializer_Read (SArr s) bs =
     (if length bs < 4 then None
      else (case Read_many (le_nat (take 4 bs)) s (drop 4 bs) of
              None \<Rightarrow> None
            | Some (vs, r) \<Rightarrow> Some (VArr vs, r)))"
| "Serializer_Read (SSeq ss) bs =
     (case Read_seq ss bs of None \<Rightarrow> None | Some (vs, r) \<Rightarrow> Some (VSeq vs, r))"
| "Read_many 0 s bs = Some ([], bs)"
| "Read_many (Suc n) s bs =
     (case Serializer_Read s bs of
        None \<Rightarrow> None
      | Some (v, r) \<Rightarrow>
          (case Read_many n s r of None \<Rightarrow> None | Some (vs, r') \<Rightarrow> Some (v # vs, r')))"
| "Read_seq [] bs = Some ([], bs)"
| "Read_seq (s # ss) bs =
     (case Serializer_Read s bs of
        None \<Rightarrow> None
      | Some (v, r) \<Rightarrow>
          (case Read_seq ss r of None \<Rightarrow> None | Some (vs, r') \<Rightarrow> Some (v # vs, r')))"
  by pat_completeness auto
termination
  by (relation "measures [(\<lambda>x. case x of Inl (s, _) \<Rightarrow> 2 * size s
                                   | Inr (Inl (n, s, _)) \<Rightarrow> 2 * size s + 1
                                   | Inr (Inr (ss, _)) \<Rightarrow> 2 * size_list size ss + 1),
                       (\<lambda>x. case x of Inl _ \<Rightarrow> 0 | Inr (Inl (n, _, _)) \<Rightarrow> n | Inr (Inr _) \<Rightarrow> 0)]") auto

text \<open>
  A value fits a schema when the widths agree and every stored number, length and count
  fits its field; a string holds no terminator of its own.
\<close>

fun fits :: "schema \<Rightarrow> val \<Rightarrow> bool" where
  "fits (SInt w) (VInt w' n) = (w' = w \<and> n < 256 ^ w)"
| "fits SStr (VStr s) = (length (c_str s) + 1 < 2 ^ 32 \<and> list_all (\<lambda>c. byte_of_char c \<noteq> 0) (c_str s))"
| "fits (SArr s) (VArr vs) = (length vs < 2 ^ 32 \<and> list_all (fits s) vs)"
| "fits (SSeq ss) (VSeq vs) = list_all2 fits ss vs"
| "fits _ _ = False"

text \<open>What the format keeps of a value: a null string comes back as the empty string.\<close>

fun preserved :: "val \<Rightarrow> val" where
  "preserved (VInt w n) = VInt w n"
| "preserved (VStr s) = VStr (Some (c_str s))"
| "preserved (VArr vs) = VArr (map preserved vs)"
| "preserved (VSeq vs) = VSeq (map preserved vs)"

subsection \<open>Shader deduplication\<close>

record 'm ShaderCreateInfo =
  Desc_ShaderType :: Uint32
  EntryPoint :: "string option"
  SourceLanguage :: Uint32
  ShaderCompiler :: Uint32
  UseCombinedTextureSamplers :: bool
  CombinedSamplerSuffix :: "string option"
  Source :: "byte list"
  Macros :: "'m option"

definition SHADER_SOURCE_LANGUAGE_DEFAULT :: Uint32 where
  "SHADER_SOURCE_LANGUAGE_DEFAULT = 0"

definition SHADER_COMPILER_DEFAULT :: Uint32 where
  "SHADER_COMPILER_DEFAULT = 0"

text \<open>
  The statements that end both \<^verbatim>\<open>SerializeShaderBytecode\<close> and \<^verbatim>\<open>SerializeShaderSource\<close>:
  \<^verbatim>\<open>Shaders.Map.emplace(Key, Shaders.List.size())\<close>, a \<^verbatim>\<open>push_back\<close> on the list when the
  key was inserted, and the index found in the map as the result.
\<close>

definition EmplaceShaderKey :: "byte list \<Rightarrow> ShadersRec \<Rightarrow> nat \<times> ShadersRec" where
  "EmplaceShaderKey Key Shaders =
     (let IterAndInserted = emplace Key (length (Shaders_List Shaders)) (Shaders_Map Shaders)
      in if snd IterAndInserted then
           (length (Shaders_List Shaders),
            Shaders\<lparr>Shaders_Map := fst IterAndInserted,
                    Shaders_List := Shaders_List Shaders @ [Key]\<rparr>)
         else
           (case map_of (Shaders_Map Shaders) Key of
              Some i \<Rightarrow> (i, Shaders)
            | None \<Rightarrow> (length (Shaders_List Shaders), Shaders)))"

text \<open>The key of a compiled shader: the serialized prefix followed by the bytecode.\<close>

definition BytecodeKey :: "'m ShaderCreateInfo \<Rightarrow> byte list \<Rightarrow> byte list" where
  "BytecodeKey CI Bytecode =
     Serializer_Write (VSeq [VInt 4 (unat (Desc_ShaderType CI)), VStr (EntryPoint CI),
                             VInt 4 (unat SHADER_SOURCE_LANGUAGE_DEFAULT),
                             VInt 4 (unat SHADER_COMPILER_DEFAULT)]) @ Bytecode"

definition SerializeShaderBytecode ::
  "nat list \<Rightarrow> DeviceType \<Rightarrow> 'm ShaderCreateInfo \<Rightarrow> byte list \<Rightarrow> ArchiverImpl \<Rightarrow>
   nat list \<times> ArchiverImpl" where
  "SerializeShaderBytecode ShaderIndices DevType CI Bytecode w =
     (let Key = BytecodeKey CI Bytecode;
          r = EmplaceShaderKey Key (m_Shaders w DevType)
      in (ShaderIndices @ [fst r], w\<lparr>m_Shaders := (m_Shaders w)(DevType := snd r)\<rparr>))"

text \<open>
  The key of a source shader: the serialized prefix followed by the source text, the macros
  appended to it by \<^verbatim>\<open>AppendShaderMacros\<close> (a parameter: it is defined elsewhere), and the
  terminating zero.
\<close>

definition SourceKey :: "(byte list \<Rightarrow> 'm \<Rightarrow> byte list) \<Rightarrow> 'm ShaderCreateInfo \<Rightarrow> byte list" where
  "SourceKey AppendShaderMacros CI =
     (let Source0 = (case Macros CI of None \<Rightarrow> Source CI
                     | Some ms \<Rightarrow> AppendShaderMacros (Source CI) ms)
      in Serializer_Write (VSeq [VInt 4 (unat (Desc_ShaderType CI)), VStr (EntryPoint CI),
                                 VInt 4 (unat (SourceLanguage CI)),
                                 VInt 4 (unat (ShaderCompiler CI)),
                                 VInt 1 (if UseCombinedTextureSamplers CI then 1 else 0),
                                 VStr (CombinedSamplerSuffix CI)])
         @ Source0 @ [0])"

definition SerializeShaderSource ::
  "(byte list \<Rightarrow> 'm \<Rightarrow> byte list) \<Rightarrow> nat list \<Rightarrow> DeviceType \<Rightarrow> 'm ShaderCreateInfo \<Rightarrow>
   ArchiverImpl \<Rightarrow> nat list \<times> ArchiverImpl" where
  "SerializeShaderSource AppendShaderMacros ShaderIndices DevType CI w =
     (let Key = SourceKey AppendShaderMacros CI;
          r = EmplaceShaderKey Key (m_Shaders w DevType)
      in (ShaderIndices @ [fst r], w\<lparr>m_Shaders := (m_Shaders w)(DevType := snd r)\<rparr>))"

text \<open>
  What ties the map of a back-end to its list: the map sends exactly the keys of the list
  to their positions. It holds of the empty writer and every call keeps it.
\<close>

definition ShadersConsistent :: "ShadersRec \<Rightarrow> bool" where
  "ShadersConsistent S =
     (distinct (Shaders_List S) \<and>
      list_all (\<lambda>i. map_of (Shaders_Map S) (Shaders_List S ! i) = Some i) [0..<length (Shaders_List S)] \<and>
      list_all (\<lambda>(k, i). i < length (Shaders_List S) \<and> Shaders_List S ! i = k) (Shaders_Map S))"

text \<open>\<^verbatim>\<open>ArchiverImpl::SerializeShadersForPSO\<close>: the index array, written by the serializer.\<close>

definition SerializeShadersForPSO :: "nat list \<Rightarrow> SerializedMemory" where
  "SerializeShadersForPSO ShaderIndices =
     Some (Serializer_Write (VArr (map (VInt 4) ShaderIndices)))"

subsection \<open>Pipelines\<close>

record PipelineStateCreateInfo =
  PSODesc_Name :: "string option"
  PSODesc_ResourceLayout :: nat
  ResourceSignaturesCount :: nat
  ppResourceSignatures :: "(nat \<Rightarrow> SerializableResourceSignatureImpl option) option"

record GraphicsPipelineStateCreateInfo = PipelineStateCreateInfo +
  pRenderPass :: "SerializableRenderPassImpl option"

record PipelineStateArchiveInfo =
  DeviceFlags :: Uint32

record DefaultPRSInfo =
  DefPRS_DeviceFlags :: Uint32
  DefPRS_UniqueName :: string
  DefPRS_pPRS :: "SerializableResourceSignatureImpl option"

text \<open>
  The parts of \<^verbatim>\<open>SerializePSO\<close> that are defined elsewhere: the device's valid flags and its
  validation of a create-info, the shader patcher of each back-end (\<^verbatim>\<open>None\<close> when the
  back-end is compiled out), the serialization of the patched create-info, and the
  equality of the signature cache. A patcher receives the create-info, the pipeline's data
  and the default-signature record by reference and works on the archiver; it returns
  them with its verdict.
\<close>

type_synonym 'ci Patcher =
  "'ci \<Rightarrow> TPSOData \<Rightarrow> DefaultPRSInfo \<Rightarrow> ArchiverImpl \<Rightarrow>
   bool \<times> 'ci \<times> TPSOData \<times> DefaultPRSInfo \<times> ArchiverImpl"

record 'ci SerializationDevice =
  ValidDeviceFlags :: Uint32
  ValidatePSOCreateInfo :: "'ci \<Rightarrow> bool"
  PatchShadersD3D11 :: "'ci Patcher option"
  PatchShadersD3D12 :: "'ci Patcher option"
  PatchShadersGL :: "'ci Patcher option"
  PatchShadersVk :: "'ci Patcher option"
  PatchShadersMtl :: "'ci Patcher option"
  SerializerPSOImpl :: "'ci \<Rightarrow> string list \<Rightarrow> byte list"
  PRSEqual :: "SerializableResourceSignatureImpl \<Rightarrow> SerializableResourceSignatureImpl \<Rightarrow> bool"

text \<open>\<^verbatim>\<open>std::to_string\<close> on an unsigned index.\<close>

function to_string :: "nat \<Rightarrow> string" where
  "to_string n =
     (if n < 10 then [char_of (48 + n)]
      else to_string (n div 10) @ [char_of (48 + n mod 10)])"
  by pat_completeness auto
termination
  by (relation "measure id") auto

text \<open>
  \<^verbatim>\<open>ArchiverImpl::GetDefaultPRSName\<close>: the first of the names
  \<^verbatim>\<open>Default Signature of PSO '<name>'\<close>, then the same with 1, 2, ... appended, that is
  not a key of the signature map. The map has \<open>length\<close> keys, so at most that many
  candidates are taken: the search is bounded by it.
\<close>

definition DefaultPRSNameAt :: "string \<Rightarrow> nat \<Rightarrow> string" where
  "DefaultPRSNameAt PSOName Index =
     (let PRSName0 = ''Default Signature of PSO '' @ [CHR 0x27] @ PSOName @ [CHR 0x27]
      in if Index = 0 then PRSName0 else PRSName0 @ to_string Index)"

fun GetDefaultPRSName_from :: "nat \<Rightarrow> nat \<Rightarrow> (string \<times> PRSData) list \<Rightarrow> string \<Rightarrow> string" where
  "GetDefaultPRSName_from 0 Index m PSOName = DefaultPRSNameAt PSOName Index"
| "GetDefaultPRSName_from (Suc fuel) Index m PSOName =
     (if map_of m (DefaultPRSNameAt PSOName Index) = None then DefaultPRSNameAt PSOName Index
      else GetDefaultPRSName_from fuel (Suc Index) m PSOName)"

definition GetDefaultPRSName :: "ArchiverImpl \<Rightarrow> string \<Rightarrow> string" where
  "GetDefaultPRSName w PSOName = GetDefaultPRSName_from (length (m_PRSMap w)) 0 (m_PRSMap w) PSOName"

text \<open>
  \<^verbatim>\<open>ValidatePipelineStateArchiveInfo\<close>: \<^verbatim>\<open>True\<close> when it does not throw. The loop checks each
  signature pointer and that no binding index was seen before.
\<close>

fun ValidateSignatures ::
  "(nat \<Rightarrow> SerializableResourceSignatureImpl option) \<Rightarrow> nat list \<Rightarrow> nat list \<Rightarrow> bool" where
  "ValidateSignatures pp [] PRSExists = True"
| "ValidateSignatures pp (i # is) PRSExists =
     (case pp i of
        None \<Rightarrow> False
      | Some sig \<Rightarrow>
          (if prs_BindingIndex sig \<in> set PRSExists then False
           else ValidateSignatures pp is (prs_BindingIndex sig # PRSExists)))"

definition ValidatePipelineStateArchiveInfo ::
  "'a PipelineStateCreateInfo_scheme \<Rightarrow> PipelineStateArchiveInfo \<Rightarrow> Uint32 \<Rightarrow> bool" where
  "ValidatePipelineStateArchiveInfo PSOCreateInfo ArchiveInfo ValidFlags =
     (if DeviceFlags ArchiveInfo = 0 then False
      else if and (DeviceFlags ArchiveInfo) ValidFlags \<noteq> DeviceFlags ArchiveInfo then False
      else if PSODesc_Name PSOCreateInfo = None then False
      else if (ResourceSignaturesCount PSOCreateInfo \<noteq> 0) \<noteq> (ppResourceSignatures PSOCreateInfo \<noteq> None)
        then False
      else (case ppResourceSignatures PSOCreateInfo of
              None \<Rightarrow> True
            | Some pp \<Rightarrow> ValidateSignatures pp [0..<ResourceSignaturesCount PSOCreateInfo] []))"

text \<open>
  The \<^verbatim>\<open>switch\<close> on the render device type of a flag bit: bit 1 is Direct3D11, 2 Direct3D12,
  3 and 4 OpenGL and GLES, 5 Vulkan, 6 Metal; every other bit reaches \<^verbatim>\<open>default\<close>, which
  logs an error and goes on.
\<close>

definition PatcherOf :: "'ci SerializationDevice \<Rightarrow> nat \<Rightarrow> 'ci Patcher option" where
  "PatcherOf dev Type =
     (if Type = 1 then PatchShadersD3D11 dev
      else if Type = 2 then PatchShadersD3D12 dev
      else if Type = 3 \<or> Type = 4 then PatchShadersGL dev
      else if Type = 5 then PatchShadersVk dev
      else if Type = 6 then PatchShadersMtl dev
      else None)"

definition DeviceBitsOf :: "Uint32 \<Rightarrow> nat list" where
  "DeviceBitsOf flags = filter (bit flags) [0..<32]"

definition ResetForDefaultPRS ::
  "bool \<Rightarrow> 'a PipelineStateCreateInfo_scheme \<Rightarrow> 'a PipelineStateCreateInfo_scheme \<Rightarrow>
   'a PipelineStateCreateInfo_scheme" where
  "ResetForDefaultPRS UseDefaultPRS InPSOCreateInfo PSOCreateInfo =
     (if UseDefaultPRS then
        PSOCreateInfo\<lparr>ResourceSignaturesCount := 0, ppResourceSignatures := None,
                      PSODesc_ResourceLayout := PSODesc_ResourceLayout InPSOCreateInfo\<rparr>
      else PSOCreateInfo)"

text \<open>
  The loop over the bits of \<^verbatim>\<open>DeviceFlags\<close>, lowest first. A patcher that fails ends the call:
  the result is \<^verbatim>\<open>False\<close> with what the patchers have done so far.
\<close>

fun PatchAll ::
  "('a PipelineStateCreateInfo_scheme) SerializationDevice \<Rightarrow> bool \<Rightarrow>
   'a PipelineStateCreateInfo_scheme \<Rightarrow> nat list \<Rightarrow>
   'a PipelineStateCreateInfo_scheme \<Rightarrow> TPSOData \<Rightarrow> DefaultPRSInfo \<Rightarrow> ArchiverImpl \<Rightarrow>
   bool \<times> 'a PipelineStateCreateInfo_scheme \<times> TPSOData \<times> DefaultPRSInfo \<times> ArchiverImpl" where
  "PatchAll dev UseDefaultPRS InCI [] CI Data DefPRS w = (True, CI, Data, DefPRS, w)"
| "PatchAll dev UseDefaultPRS InCI (Type # rest) CI Data DefPRS w =
     (case PatcherOf dev Type of
        None \<Rightarrow> PatchAll dev UseDefaultPRS InCI rest (ResetForDefaultPRS UseDefaultPRS InCI CI) Data DefPRS w
      | Some patch \<Rightarrow>
          (case patch CI Data DefPRS w of
             (ok, CI', Data', DefPRS', w') \<Rightarrow>
               if \<not> ok then (False, CI', Data', DefPRS', w')
               else PatchAll dev UseDefaultPRS InCI rest
                      (ResetForDefaultPRS UseDefaultPRS InCI CI') Data' DefPRS' w'))"

text \<open>
  The loop that adds the pipeline's signatures to the archive and collects their names.
\<close>

fun AddSignatures ::
  "(SerializableResourceSignatureImpl \<Rightarrow> SerializableResourceSignatureImpl \<Rightarrow> bool) \<Rightarrow>
   (nat \<Rightarrow> SerializableResourceSignatureImpl option) \<Rightarrow> nat list \<Rightarrow> string list \<Rightarrow> ArchiverImpl \<Rightarrow>
   bool \<times> string list \<times> ArchiverImpl" where
  "AddSignatures eq pp [] PRSNames w = (True, PRSNames, w)"
| "AddSignatures eq pp (i # is) PRSNames w =
     (case AddPipelineResourceSignature eq (pp i) w of
        (ok, w') \<Rightarrow>
          if \<not> ok then (False, PRSNames, w')
          else (case pp i of
                  None \<Rightarrow> (False, PRSNames, w')
                | Some sig \<Rightarrow> AddSignatures eq pp is (PRSNames @ [prs_Name sig]) w'))"

text \<open>
  The signature array of a create-info. The C++ reads through the pointer; behind a null
  pointer the model finds null entries, on which \<^verbatim>\<open>AddPipelineResourceSignature\<close> fails.
\<close>

definition SignatureArray ::
  "'a PipelineStateCreateInfo_scheme \<Rightarrow> nat \<Rightarrow> SerializableResourceSignatureImpl option" where
  "SignatureArray CI = (case ppResourceSignatures CI of None \<Rightarrow> (\<lambda>_. None) | Some pp \<Rightarrow> pp)"

definition update_entry :: "'k \<Rightarrow> 'v \<Rightarrow> ('k \<times> 'v) list \<Rightarrow> ('k \<times> 'v) list" where
  "update_entry k v m = map (\<lambda>(k', v'). if k' = k then (k', v) else (k', v')) m"

text \<open>
  \<^verbatim>\<open>ArchiverImpl::SerializePSO\<close>. \<open>Data\<close> is a reference to the entry that \<^verbatim>\<open>emplace\<close> put in
  the map: what the patchers and the last block store in it is stored in the map, on
  every path out of the function. \<open>PatchRequested\<close> is the loop over the requested
  back-ends, started on the fresh entry and the default-signature record.
\<close>

definition TPSOData_empty :: TPSOData where
  "TPSOData_empty = \<lparr>SharedData = None, PerDeviceData = (\<lambda>_. None)\<rparr>"

definition InitDefaultPRSInfo :: "bool \<Rightarrow> PipelineStateArchiveInfo \<Rightarrow> ArchiverImpl \<Rightarrow> string \<Rightarrow> DefaultPRSInfo" where
  "InitDefaultPRSInfo UseDefaultPRS ArchiveInfo w Name =
     (if UseDefaultPRS
      then \<lparr>DefPRS_DeviceFlags = DeviceFlags ArchiveInfo,
            DefPRS_UniqueName = GetDefaultPRSName w Name,
            DefPRS_pPRS = None\<rparr>
      else \<lparr>DefPRS_DeviceFlags = 0, DefPRS_UniqueName = [], DefPRS_pPRS = None\<rparr>)"

definition PatchRequested ::
  "('a PipelineStateCreateInfo_scheme) SerializationDevice \<Rightarrow> 'a PipelineStateCreateInfo_scheme \<Rightarrow>
   PipelineStateArchiveInfo \<Rightarrow> string \<Rightarrow> ArchiverImpl \<Rightarrow>
   bool \<times> 'a PipelineStateCreateInfo_scheme \<times> TPSOData \<times> DefaultPRSInfo \<times> ArchiverImpl" where
  "PatchRequested dev InPSOCreateInfo ArchiveInfo Name w =
     PatchAll dev (ResourceSignaturesCount InPSOCreateInfo = 0) InPSOCreateInfo
       (DeviceBitsOf (DeviceFlags ArchiveInfo)) InPSOCreateInfo TPSOData_empty
       (InitDefaultPRSInfo (ResourceSignaturesCount InPSOCreateInfo = 0) ArchiveInfo w Name) w"

definition SerializePSO ::
  "('a PipelineStateCreateInfo_scheme) SerializationDevice \<Rightarrow> (string \<times> TPSOData) list \<Rightarrow>
   'a PipelineStateCreateInfo_scheme \<Rightarrow> PipelineStateArchiveInfo \<Rightarrow> ArchiverImpl \<Rightarrow>
   bool \<times> (string \<times> TPSOData) list \<times> ArchiverImpl" where
  "SerializePSO dev PSOMap InPSOCreateInfo ArchiveInfo w =
     (if \<not> (ValidatePipelineStateArchiveInfo InPSOCreateInfo ArchiveInfo (ValidDeviceFlags dev) \<and>
             ValidatePSOCreateInfo dev InPSOCreateInfo)
      then (False, PSOMap, w)
      else
        (case PSODesc_Name InPSOCreateInfo of
           None \<Rightarrow> (False, PSOMap, w)
         | Some Name \<Rightarrow>
             (let IterAndInserted = emplace Name TPSOData_empty PSOMap
              in if \<not> snd IterAndInserted then (False, PSOMap, w)
                 else
                   (let UseDefaultPRS = (ResourceSignaturesCount InPSOCreateInfo = 0)
                    in (case PatchRequested dev InPSOCreateInfo ArchiveInfo Name w of
                          (ok, CI, Data, DefPRS, w') \<Rightarrow>
                            if \<not> ok then (False, update_entry Name Data (fst IterAndInserted), w')
                            else if \<not> Mem_IsNull (SharedData Data)
                              then (True, update_entry Name Data (fst IterAndInserted), w')
                            else
                              (let CI2 = (if UseDefaultPRS
                                          then CI\<lparr>ResourceSignaturesCount := 1,
                                                  ppResourceSignatures :=
                                                    Some (\<lambda>i. if i = 0 then DefPRS_pPRS DefPRS else None)\<rparr>
                                          else CI)
                               in (case AddSignatures (PRSEqual dev) (SignatureArray CI2)
                                          [0..<ResourceSignaturesCount CI2] [] w' of
                                     (ok2, PRSNames, w'') \<Rightarrow>
                                       if \<not> ok2
                                       then (False, update_entry Name Data (fst IterAndInserted), w'')
                                       else (True,
                                             update_entry Name
                                               (Data\<lparr>SharedData := Some (SerializerPSOImpl dev CI2 PRSNames)\<rparr>)
                                               (fst IterAndInserted),
                                             w''))))))))"

text \<open>The four public operations.\<close>

definition AddRenderPassOf :: "GraphicsPipelineStateCreateInfo \<Rightarrow> ArchiverImpl \<Rightarrow> bool \<times> ArchiverImpl" where
  "AddRenderPassOf PSOCreateInfo w =
     (if pRenderPass PSOCreateInfo \<noteq> None then AddRenderPass (pRenderPass PSOCreateInfo) w
      else (True, w))"

definition AddGraphicsPipelineState ::
  "GraphicsPipelineStateCreateInfo SerializationDevice \<Rightarrow> GraphicsPipelineStateCreateInfo \<Rightarrow>
   PipelineStateArchiveInfo \<Rightarrow> ArchiverImpl \<Rightarrow> bool \<times> ArchiverImpl" where
  "AddGraphicsPipelineState dev PSOCreateInfo ArchiveInfo w =
     (case AddRenderPassOf PSOCreateInfo w of
        (ok, w1) \<Rightarrow>
          if \<not> ok then (False, w1)
          else (case SerializePSO dev (m_GraphicsPSOMap w1) PSOCreateInfo ArchiveInfo w1 of
                  (r, PSOMap, w2) \<Rightarrow> (r, w2\<lparr>m_GraphicsPSOMap := PSOMap\<rparr>)))"

definition AddComputePipelineState ::
  "('a PipelineStateCreateInfo_scheme) SerializationDevice \<Rightarrow> 'a PipelineStateCreateInfo_scheme \<Rightarrow>
   PipelineStateArchiveInfo \<Rightarrow> ArchiverImpl \<Rightarrow> bool \<times> ArchiverImpl" where
  "AddComputePipelineState dev PSOCreateInfo ArchiveInfo w =
     (case SerializePSO dev (m_ComputePSOMap w) PSOCreateInfo ArchiveInfo w of
        (r, PSOMap, w2) \<Rightarrow> (r, w2\<lparr>m_ComputePSOMap := PSOMap\<rparr>))"

definition AddRayTracingPipelineState ::
  "('a PipelineStateCreateInfo_scheme) SerializationDevice \<Rightarrow> 'a PipelineStateCreateInfo_scheme \<Rightarrow>
   PipelineStateArchiveInfo \<Rightarrow> ArchiverImpl \<Rightarrow> bool \<times> ArchiverImpl" where
  "AddRayTracingPipelineState dev PSOCreateInfo ArchiveInfo w =
     (case SerializePSO dev (m_RayTracingPSOMap w) PSOCreateInfo ArchiveInfo w of
        (r, PSOMap, w2) \<Rightarrow> (r, w2\<lparr>m_RayTracingPSOMap := PSOMap\<rparr>))"

definition AddTilePipelineState ::
  "('a PipelineStateCreateInfo_scheme) SerializationDevice \<Rightarrow> 'a PipelineStateCreateInfo_scheme \<Rightarrow>
   PipelineStateArchiveInfo \<Rightarrow> ArchiverImpl \<Rightarrow> bool \<times> ArchiverImpl" where
  "AddTilePipelineState dev PSOCreateInfo ArchiveInfo w =
     (case SerializePSO dev (m_TilePSOMap w) PSOCreateInfo ArchiveInfo w of
        (r, PSOMap, w2) \<Rightarrow> (r, w2\<lparr>m_TilePSOMap := PSOMap\<rparr>))"

text \<open>
  \<^verbatim>\<open>ArchiverImpl::PatchShadersGL\<close> (\<^verbatim>\<open>Archiver_GL.cpp\<close>): every stage's shader source goes to
  the OpenGL shader list, and the pipeline's OpenGL data is the array of their indices. The
  stages of a create-info are found by \<^verbatim>\<open>ExtractShaders\<close>, a parameter.
\<close>

fun SerializeStagesGL ::
  "(byte list \<Rightarrow> 'm \<Rightarrow> byte list) \<Rightarrow> 'm ShaderCreateInfo list \<Rightarrow> nat list \<Rightarrow> ArchiverImpl \<Rightarrow>
   nat list \<times> ArchiverImpl" where
  "SerializeStagesGL app [] ShaderIndices w = (ShaderIndices, w)"
| "SerializeStagesGL app (CI # rest) ShaderIndices w =
     (case SerializeShaderSource app ShaderIndices OpenGL CI w of
        (ShaderIndices', w') \<Rightarrow> SerializeStagesGL app rest ShaderIndices' w')"

definition PatchShadersGL_impl ::
  "(byte list \<Rightarrow> 'm \<Rightarrow> byte list) \<Rightarrow> ('ci \<Rightarrow> 'm ShaderCreateInfo list) \<Rightarrow> 'ci Patcher" where
  "PatchShadersGL_impl app ExtractShaders CreateInfo Data DefPRS w =
     (case SerializeStagesGL app (ExtractShaders CreateInfo) [] w of
        (ShaderIndices, w') \<Rightarrow>
          (True, CreateInfo,
           Data\<lparr>PerDeviceData := (PerDeviceData Data)(OpenGL := SerializeShadersForPSO ShaderIndices)\<rparr>,
           DefPRS, w'))"

subsection \<open>One name for the two shader calls\<close>

datatype 'm ShaderPayload =
    FromBytecode "'m ShaderCreateInfo" "byte list"
  | FromSource "'m ShaderCreateInfo"

definition content_key :: "(byte list \<Rightarrow> 'm \<Rightarrow> byte list) \<Rightarrow> 'm ShaderPayload \<Rightarrow> byte list" where
  "content_key app p =
     (case p of FromBytecode CI Bytecode \<Rightarrow> BytecodeKey CI Bytecode
              | FromSource CI \<Rightarrow> SourceKey app CI)"

definition serialize_shader ::
  "(byte list \<Rightarrow> 'm \<Rightarrow> byte list) \<Rightarrow> nat list \<Rightarrow> DeviceType \<Rightarrow> 'm ShaderPayload \<Rightarrow>
   ArchiverImpl \<Rightarrow> nat list \<times> ArchiverImpl" where
  "serialize_shader app ShaderIndices DevType p w =
     (case p of FromBytecode CI Bytecode \<Rightarrow> SerializeShaderBytecode ShaderIndices DevType CI Bytecode w
              | FromSource CI \<Rightarrow> SerializeShaderSource app ShaderIndices DevType CI w)"

text \<open>A run of shader calls, each on a back-end of its own, the index lists dropped.\<close>

fun serialize_shaders ::
  "(byte list \<Rightarrow> 'm \<Rightarrow> byte list) \<Rightarrow> (DeviceType \<times> 'm ShaderPayload) list \<Rightarrow> ArchiverImpl \<Rightarrow>
   ArchiverImpl" where
  "serialize_shaders app [] w = w"
| "serialize_shaders app ((d, p) # rest) w =
     serialize_shaders app rest (snd (serialize_shader app [] d p w))"

definition EmptyArchiver :: ArchiverImpl where
  "EmptyArchiver =
     \<lparr>m_PRSMap = [], m_PRSCache = [], m_RPMap = [], m_GraphicsPSOMap = [], m_ComputePSOMap = [],
      m_TilePSOMap = [], m_RayTracingPSOMap = [],
      m_Shaders = (\<lambda>_. \<lparr>Shaders_Map = [], Shaders_List = []\<rparr>)\<rparr>"

subsection \<open>Writer layout: reserved space and written blocks\<close>

text \<open>
  The nine chunk kinds; \<open>ChunkUndefined\<close> is the reserved kind that no chunk carries.
\<close>

datatype ChunkType =
    ChunkUndefined
  | ArchiveDebugInfo
  | ResourceSignature
  | GraphicsPipelineStates
  | ComputePipelineStates
  | RayTracingPipelineStates
  | TilePipelineStates
  | RenderPass
  | Shaders

definition InvalidOffset :: Uint32 where
  "InvalidOffset = 0xFFFFFFFF"

record FileOffsetAndSize =
  Offset :: Uint32
  Size :: Uint32

text \<open>
  Modelled from the spec: the layout records are declared in
  \<^verbatim>\<open>DeviceObjectArchiveBase.hpp\<close>, which is not among the sources. By the spec (4.B) a
  data header is a kind tag followed by six sizes and six offsets, 32 bits each (52 bytes);
  a header starts with every size 0 and every offset the sentinel (4.D: an absent blob
  records the sentinel offset and zero size).
\<close>

record DataHeader =
  Header_Type :: ChunkType
  DeviceSpecificDataSize :: "DeviceType \<Rightarrow> Uint32"
  DeviceSpecificDataOffset :: "DeviceType \<Rightarrow> Uint32"

definition NewDataHeader :: "ChunkType \<Rightarrow> DataHeader" where
  "NewDataHeader Type =
     \<lparr>Header_Type = Type, DeviceSpecificDataSize = (\<lambda>_. 0),
      DeviceSpecificDataOffset = (\<lambda>_. InvalidOffset)\<rparr>"

definition sizeof_DataHeader :: nat where
  "sizeof_DataHeader = 52"

definition sizeof_FileOffsetAndSize :: nat where
  "sizeof_FileOffsetAndSize = 8"

definition SetSize :: "DeviceType \<Rightarrow> Uint32 \<Rightarrow> DataHeader \<Rightarrow> DataHeader" where
  "SetSize Type sz h = h\<lparr>DeviceSpecificDataSize := (DeviceSpecificDataSize h)(Type := sz)\<rparr>"

definition SetOffset :: "DeviceType \<Rightarrow> Uint32 \<Rightarrow> DataHeader \<Rightarrow> DataHeader" where
  "SetOffset Type off h = h\<lparr>DeviceSpecificDataOffset := (DeviceSpecificDataOffset h)(Type := off)\<rparr>"

text \<open>
  Modelled from the spec: \<^verbatim>\<open>TDataElement\<close> is a linear allocator
  (\<^verbatim>\<open>FixedLinearAllocator.hpp\<close>, not among the sources). Space is first added up, then
  reserved, then handed out front to back; the format is byte-packed (spec 4.B, 9), so a
  block starts where the one before it ends. What has been handed out is kept as a list of
  blocks: raw bytes that were copied in, and records that were constructed in place and are
  filled in later. A request of size 0 adds nothing.
\<close>

datatype Block =
    RawBytes "byte list"
  | DataHeaderBlock DataHeader
  | OffsetAndSizeArray "FileOffsetAndSize list"

fun Block_size :: "Block \<Rightarrow> nat" where
  "Block_size (RawBytes bs) = length bs"
| "Block_size (DataHeaderBlock h) = sizeof_DataHeader"
| "Block_size (OffsetAndSizeArray a) = sizeof_FileOffsetAndSize * length a"

record TDataElement =
  ReservedSize :: nat
  Blocks :: "Block list"

definition NewDataElement :: TDataElement where
  "NewDataElement = \<lparr>ReservedSize = 0, Blocks = []\<rparr>"

definition AddSpace :: "nat \<Rightarrow> TDataElement \<Rightarrow> TDataElement" where
  "AddSpace n e = e\<lparr>ReservedSize := ReservedSize e + n\<rparr>"

definition GetCurrentSize :: "TDataElement \<Rightarrow> nat" where
  "GetCurrentSize e = sum_list (map Block_size (Blocks e))"

definition IsEmpty :: "TDataElement \<Rightarrow> bool" where
  "IsEmpty e = (ReservedSize e = 0)"

text \<open>\<^verbatim>\<open>Copy\<close>: the offset of the copy and the element after it.\<close>

definition Copy :: "byte list \<Rightarrow> TDataElement \<Rightarrow> nat \<times> TDataElement" where
  "Copy bs e =
     (GetCurrentSize e, if bs = [] then e else e\<lparr>Blocks := Blocks e @ [RawBytes bs]\<rparr>)"

text \<open>What a \<^verbatim>\<open>Copy\<close> of a memory block adds to the blocks of an element.\<close>

definition CopiedBlocks :: "SerializedMemory \<Rightarrow> Block list" where
  "CopiedBlocks m = (if Mem_IsNull m then [] else [RawBytes (Mem_Bytes m)])"

text \<open>
  \<^verbatim>\<open>Construct<HeaderType>\<close>: the position of the new header in the block list (the
  pointer), its offset, and the element after it.
\<close>

definition ConstructHeader :: "ChunkType \<Rightarrow> TDataElement \<Rightarrow> nat \<times> nat \<times> TDataElement" where
  "ConstructHeader Type e =
     (length (Blocks e), GetCurrentSize e,
      e\<lparr>Blocks := Blocks e @ [DataHeaderBlock (NewDataHeader Type)]\<rparr>)"

definition UpdateHeader :: "nat \<Rightarrow> (DataHeader \<Rightarrow> DataHeader) \<Rightarrow> TDataElement \<Rightarrow> TDataElement" where
  "UpdateHeader pHeader f e =
     (if pHeader < length (Blocks e) then
        (case Blocks e ! pHeader of
           DataHeaderBlock h \<Rightarrow> e\<lparr>Blocks := (Blocks e)[pHeader := DataHeaderBlock (f h)]\<rparr>
         | _ \<Rightarrow> e)
      else e)"

definition HeaderAt :: "nat \<Rightarrow> TDataElement \<Rightarrow> DataHeader option" where
  "HeaderAt pHeader e =
     (if pHeader < length (Blocks e) then
        (case Blocks e ! pHeader of DataHeaderBlock h \<Rightarrow> Some h | _ \<Rightarrow> None)
      else None)"

text \<open>A named-resource chunk: the count and the parallel arrays, and the names.\<close>

record NamedResourceArray =
  Count :: Uint32
  NameLengthArray :: "Uint32 list"
  DataSizeArray :: "Uint32 list"
  DataOffsetArray :: "Uint32 list"
  Names :: "string list"

record PendingData =
  Pending_SharedData :: TDataElement
  Pending_PerDeviceData :: "DeviceType \<Rightarrow> TDataElement"
  Pending_ChunkData :: "ChunkType \<Rightarrow> NamedResourceArray option"
  Pending_ShadersHeader :: "DataHeader option"

definition NewPendingData :: PendingData where
  "NewPendingData =
     \<lparr>Pending_SharedData = NewDataElement, Pending_PerDeviceData = (\<lambda>_. NewDataElement),
      Pending_ChunkData = (\<lambda>_. None), Pending_ShadersHeader = None\<rparr>"

text \<open>\<^verbatim>\<open>PRSData::GetSharedData\<close>, \<^verbatim>\<open>PRSData::GetDeviceData\<close>, \<^verbatim>\<open>RPData::GetSharedData\<close>.\<close>

definition PRS_GetSharedData :: "PRSData \<Rightarrow> SerializedMemory" where
  "PRS_GetSharedData d = prs_SharedSerializedMemory (pPRS d)"

definition PRS_GetDeviceData :: "PRSData \<Rightarrow> DeviceType \<Rightarrow> SerializedMemory" where
  "PRS_GetDeviceData d Type =
     (case prs_SerializedMemory (pPRS d) Type of None \<Rightarrow> None | Some pMem \<Rightarrow> pMem)"

definition RP_GetSharedData :: "RPData \<Rightarrow> SerializedMemory" where
  "RP_GetSharedData d = rp_SharedSerializedMemory (pRP d)"

text \<open>\<^verbatim>\<open>ArchiverImpl::ReserveSpace\<close>, loop by loop.\<close>

definition ReserveShaders :: "ArchiverImpl \<Rightarrow> DeviceType \<Rightarrow> TDataElement \<Rightarrow> TDataElement" where
  "ReserveShaders w type DeviceData =
     (let L = Shaders_List (m_Shaders w type)
      in if L = [] then DeviceData
         else fold (\<lambda>Sh. AddSpace (length Sh)) L
                (AddSpace (sizeof_FileOffsetAndSize * length L) DeviceData))"

definition PRSDeviceTypeFor :: "DeviceType \<Rightarrow> DeviceType" where
  "PRSDeviceTypeFor Type = (if Type = Metal_MacOS then Metal_iOS else Type)"

definition ReservePRS :: "PRSData \<Rightarrow> PendingData \<Rightarrow> PendingData" where
  "ReservePRS PRS P =
     P\<lparr>Pending_SharedData :=
         AddSpace (Mem_Size (PRS_GetSharedData PRS)) (AddSpace sizeof_DataHeader (Pending_SharedData P)),
       Pending_PerDeviceData :=
         (\<lambda>type. AddSpace (Mem_Size (PRS_GetDeviceData PRS (PRSDeviceTypeFor type)))
                   (Pending_PerDeviceData P type))\<rparr>"

definition ReserveRP :: "RPData \<Rightarrow> PendingData \<Rightarrow> PendingData" where
  "ReserveRP RP P =
     P\<lparr>Pending_SharedData :=
         AddSpace (Mem_Size (RP_GetSharedData RP)) (AddSpace sizeof_DataHeader (Pending_SharedData P))\<rparr>"

definition ReserveSpaceForPSO :: "TPSOData \<Rightarrow> PendingData \<Rightarrow> PendingData" where
  "ReserveSpaceForPSO PSO P =
     P\<lparr>Pending_SharedData :=
         AddSpace (Mem_Size (SharedData PSO)) (AddSpace sizeof_DataHeader (Pending_SharedData P)),
       Pending_PerDeviceData :=
         (\<lambda>type. AddSpace (Mem_Size (PerDeviceData PSO type)) (Pending_PerDeviceData P type))\<rparr>"

definition ReserveSpace :: "ArchiverImpl \<Rightarrow> PendingData \<Rightarrow> PendingData" where
  "ReserveSpace w Pending =
     (let P0 = Pending\<lparr>Pending_SharedData := NewDataElement,
                       Pending_PerDeviceData := (\<lambda>type. ReserveShaders w type NewDataElement)\<rparr>;
          P1 = fold (\<lambda>PRS. ReservePRS (snd PRS)) (m_PRSMap w) P0;
          P2 = fold (\<lambda>RP. ReserveRP (snd RP)) (m_RPMap w) P1;
          P3 = fold (\<lambda>PSO. ReserveSpaceForPSO (snd PSO)) (m_GraphicsPSOMap w) P2;
          P4 = fold (\<lambda>PSO. ReserveSpaceForPSO (snd PSO)) (m_ComputePSOMap w) P3;
          P5 = fold (\<lambda>PSO. ReserveSpaceForPSO (snd PSO)) (m_TilePSOMap w) P4
      in fold (\<lambda>PSO. ReserveSpaceForPSO (snd PSO)) (m_RayTracingPSOMap w) P5)"

text \<open>
  \<^verbatim>\<open>WriteShaderData\<close>, the part that fills a back-end's block: the array of offsets and
  sizes first, then the shaders, each recorded in the array.
\<close>

definition WriteShaderBlock :: "byte list list \<Rightarrow> TDataElement \<Rightarrow> TDataElement" where
  "WriteShaderBlock L Dst =
     (if L = [] then Dst
      else
        (let start = GetCurrentSize Dst + sizeof_FileOffsetAndSize * length L;
             offs = map (\<lambda>i. start + sum_list (map length (take i L))) [0..<length L];
             arr = map (\<lambda>i. \<lparr>Offset = of_nat (offs ! i), Size = of_nat (length (L ! i))\<rparr>) [0..<length L]
         in Dst\<lparr>Blocks := Blocks Dst @ [OffsetAndSizeArray arr] @
                             map RawBytes (filter (\<lambda>Sh. Sh \<noteq> []) L)\<rparr>))"

definition WriteShaderData :: "ArchiverImpl \<Rightarrow> PendingData \<Rightarrow> PendingData" where
  "WriteShaderData w Pending =
     (if list_all (\<lambda>type. Shaders_List (m_Shaders w type) = []) AllDeviceTypes then Pending
      else
        Pending\<lparr>Pending_ShadersHeader :=
                  Some (fold (\<lambda>dev h.
                          if Shaders_List (m_Shaders w dev) = [] then h
                          else SetSize dev (of_nat (sizeof_FileOffsetAndSize * length (Shaders_List (m_Shaders w dev))))
                                 (SetOffset dev (of_nat (GetCurrentSize (Pending_PerDeviceData Pending dev))) h))
                        AllDeviceTypes (NewDataHeader Shaders)),
                Pending_PerDeviceData :=
                  (\<lambda>dev. WriteShaderBlock (Shaders_List (m_Shaders w dev)) (Pending_PerDeviceData Pending dev))\<rparr>)"

text \<open>\<^verbatim>\<open>InitNamedResourceArrayHeader\<close>: the chunk of a map, the offsets still to be set.\<close>

definition InitNamedResourceArrayHeader ::
  "('v \<Rightarrow> SerializedMemory) \<Rightarrow> (string \<times> 'v) list \<Rightarrow> NamedResourceArray" where
  "InitNamedResourceArrayHeader GetSharedData Map =
     \<lparr>Count = of_nat (length Map),
      NameLengthArray = map (\<lambda>NameAndData. of_nat (length (fst NameAndData) + 1)) Map,
      DataSizeArray = map (\<lambda>NameAndData. of_nat (Mem_Size (GetSharedData (snd NameAndData)))) Map,
      DataOffsetArray = replicate (length Map) 0,
      Names = map fst Map\<rparr>"

text \<open>
  \<^verbatim>\<open>WriteHeader\<close>: a header is constructed in the shared data, the shared bytes of the object
  follow it, the header's offset goes to the offset array and the header's size is added
  to the size array. The result carries the pointer to the header.
\<close>

definition WriteHeader ::
  "ChunkType \<Rightarrow> SerializedMemory \<Rightarrow> nat \<Rightarrow> NamedResourceArray \<Rightarrow> TDataElement \<Rightarrow>
   nat \<times> NamedResourceArray \<times> TDataElement" where
  "WriteHeader Type SrcMem j Chunk DstChunk =
     (case ConstructHeader Type DstChunk of
        (pHeader, off, D1) \<Rightarrow>
          (pHeader,
           Chunk\<lparr>DataOffsetArray := (DataOffsetArray Chunk)[j := of_nat off],
                 DataSizeArray := (DataSizeArray Chunk)[j := DataSizeArray Chunk ! j + of_nat sizeof_DataHeader]\<rparr>,
           snd (Copy (Mem_Bytes SrcMem) D1)))"

text \<open>
  \<^verbatim>\<open>WritePerDeviceData\<close>: nothing for a null block; otherwise the bytes are copied to the
  back-end's block and their size and offset are set in the header, in the slot of \<open>Type\<close>.
\<close>

definition WritePerDeviceData ::
  "nat \<Rightarrow> DeviceType \<Rightarrow> SerializedMemory \<Rightarrow> DeviceType \<Rightarrow> PendingData \<Rightarrow> PendingData" where
  "WritePerDeviceData pHeader Type SrcMem DstType Pending =
     (if Mem_IsNull SrcMem then Pending
      else
        (case Copy (Mem_Bytes SrcMem) (Pending_PerDeviceData Pending DstType) of
           (DstOffset, Dst) \<Rightarrow>
             Pending\<lparr>Pending_PerDeviceData := (Pending_PerDeviceData Pending)(DstType := Dst),
                     Pending_SharedData :=
                       UpdateHeader pHeader
                         (\<lambda>h. SetOffset Type (of_nat DstOffset) (SetSize Type (of_nat (Mem_Size SrcMem)) h))
                         (Pending_SharedData Pending)\<rparr>))"

text \<open>The three per-device writers that \<^verbatim>\<open>SerializeToStream\<close> passes.\<close>

definition WritePRSPerDeviceData :: "nat \<Rightarrow> DeviceType \<Rightarrow> PRSData \<Rightarrow> PendingData \<Rightarrow> PendingData" where
  "WritePRSPerDeviceData pHeader Type Src Pending =
     (let PRSDevType = (if Type = Metal_MacOS then Metal_iOS else Type)
      in WritePerDeviceData pHeader Type (PRS_GetDeviceData Src PRSDevType) Type Pending)"

definition WriteRPPerDeviceData :: "nat \<Rightarrow> DeviceType \<Rightarrow> RPData \<Rightarrow> PendingData \<Rightarrow> PendingData" where
  "WriteRPPerDeviceData pHeader Type Src Pending = Pending"

definition WritePSOPerDeviceData :: "nat \<Rightarrow> DeviceType \<Rightarrow> TPSOData \<Rightarrow> PendingData \<Rightarrow> PendingData" where
  "WritePSOPerDeviceData pHeader Type Src Pending =
     WritePerDeviceData pHeader Type (PerDeviceData Src Type) Type Pending"

text \<open>\<^verbatim>\<open>WriteDeviceObjectData\<close>: the loop over the objects of a map, then over the back-ends.\<close>

definition WriteObject ::
  "ChunkType \<Rightarrow> ('v \<Rightarrow> SerializedMemory) \<Rightarrow> (nat \<Rightarrow> DeviceType \<Rightarrow> 'v \<Rightarrow> PendingData \<Rightarrow> PendingData) \<Rightarrow>
   'v \<Rightarrow> nat \<Rightarrow> NamedResourceArray \<times> PendingData \<Rightarrow> NamedResourceArray \<times> PendingData" where
  "WriteObject Type GetSharedData WriteDeviceData Obj j CP =
     (case WriteHeader Type (GetSharedData Obj) j (fst CP) (Pending_SharedData (snd CP)) of
        (pHeader, Chunk', Shared') \<Rightarrow>
          (Chunk',
           fold (\<lambda>type. WriteDeviceData pHeader type Obj) AllDeviceTypes
             ((snd CP)\<lparr>Pending_SharedData := Shared'\<rparr>)))"

fun WriteObjects ::
  "ChunkType \<Rightarrow> ('v \<Rightarrow> SerializedMemory) \<Rightarrow> (nat \<Rightarrow> DeviceType \<Rightarrow> 'v \<Rightarrow> PendingData \<Rightarrow> PendingData) \<Rightarrow>
   (string \<times> 'v) list \<Rightarrow> nat \<Rightarrow> NamedResourceArray \<times> PendingData \<Rightarrow> NamedResourceArray \<times> PendingData" where
  "WriteObjects Type GetSharedData WriteDeviceData [] j CP = CP"
| "WriteObjects Type GetSharedData WriteDeviceData (Obj # rest) j CP =
     WriteObjects Type GetSharedData WriteDeviceData rest (Suc j)
       (WriteObject Type GetSharedData WriteDeviceData (snd Obj) j CP)"

definition WriteDeviceObjectData ::
  "ChunkType \<Rightarrow> ('v \<Rightarrow> SerializedMemory) \<Rightarrow> (nat \<Rightarrow> DeviceType \<Rightarrow> 'v \<Rightarrow> PendingData \<Rightarrow> PendingData) \<Rightarrow>
   (string \<times> 'v) list \<Rightarrow> PendingData \<Rightarrow> PendingData" where
  "WriteDeviceObjectData Type GetSharedData WriteDeviceData ObjectMap Pending =
     (if ObjectMap = [] then Pending
      else
        (case WriteObjects Type GetSharedData WriteDeviceData ObjectMap 0
                (InitNamedResourceArrayHeader GetSharedData ObjectMap, Pending) of
           (Chunk, P) \<Rightarrow> P\<lparr>Pending_ChunkData := (Pending_ChunkData P)(Type := Some Chunk)\<rparr>))"

text \<open>
  \<^verbatim>\<open>SerializeToStream\<close> up to the call of \<^verbatim>\<open>UpdateOffsetsInArchive\<close>: the pending data
  with every block written, offsets still relative to their blocks. (The debug-info chunk
  touches none of the blocks and is left out.)
\<close>

definition WritePending :: "ArchiverImpl \<Rightarrow> PendingData" where
  "WritePending w =
     (let P0 = ReserveSpace w NewPendingData;
          P1 = WriteShaderData w P0;
          P2 = WriteDeviceObjectData ResourceSignature PRS_GetSharedData WritePRSPerDeviceData (m_PRSMap w) P1;
          P3 = WriteDeviceObjectData RenderPass RP_GetSharedData WriteRPPerDeviceData (m_RPMap w) P2;
          P4 = WriteDeviceObjectData GraphicsPipelineStates SharedData WritePSOPerDeviceData (m_GraphicsPSOMap w) P3;
          P5 = WriteDeviceObjectData ComputePipelineStates SharedData WritePSOPerDeviceData (m_ComputePSOMap w) P4;
          P6 = WriteDeviceObjectData TilePipelineStates SharedData WritePSOPerDeviceData (m_TilePSOMap w) P5
      in WriteDeviceObjectData RayTracingPipelineStates SharedData WritePSOPerDeviceData (m_RayTracingPSOMap w) P6)"

subsection \<open>Reader: the archive as bytes\<close>

text \<open>
  Modelled from the spec: the byte source (\<^verbatim>\<open>IArchive\<close>) is an external collaborator, a
  random-access source with a size and a read at an offset (spec 1). A read succeeds when
  the requested range lies inside the source.
\<close>

definition Archive_Read :: "byte list \<Rightarrow> nat \<Rightarrow> nat \<Rightarrow> byte list option" where
  "Archive_Read bs off n = (if off + n \<le> length bs then Some (take n (drop off bs)) else None)"

definition u32_at :: "byte list \<Rightarrow> nat \<Rightarrow> Uint32" where
  "u32_at bs off = of_nat (le_nat (take 4 (drop off bs)))"

text \<open>
  A 32-bit read inside a buffer that the code does not check first: outside the buffer the
  C++ reads foreign memory, which the model reports as \<^verbatim>\<open>None\<close>.
\<close>

definition u32_opt :: "byte list \<Rightarrow> nat \<Rightarrow> Uint32 option" where
  "u32_opt bs off = (if off + 4 \<le> length bs then Some (u32_at bs off) else None)"

text \<open>
  Modelled from the spec: the records of the file (\<^verbatim>\<open>DeviceObjectArchiveBase.hpp\<close>, not
  among the sources), laid out as spec 4.B gives them, packed, 32 bits a field:
  the archive header is magic, version, chunk count and six base offsets (36 bytes); a chunk
  header is kind, size and offset (12 bytes); a data header is kind, six sizes and six
  offsets (52 bytes). The constants of the format (magic number, version, the numbering of
  the chunk kinds) are parameters, collected in \<open>ArchiveFormat\<close>.
\<close>

record ArchiveFormat =
  HeaderMagicNumber :: Uint32
  HeaderVersion :: Uint32
  ChunkTypeOf :: "Uint32 \<Rightarrow> ChunkType option"

fun DeviceIndex :: "DeviceType \<Rightarrow> nat" where
  "DeviceIndex OpenGL = 0"
| "DeviceIndex Direct3D11 = 1"
| "DeviceIndex Direct3D12 = 2"
| "DeviceIndex Vulkan = 3"
| "DeviceIndex Metal_iOS = 4"
| "DeviceIndex Metal_MacOS = 5"

record ArchiveHeader =
  MagicNumber :: Uint32
  Version :: Uint32
  NumChunks :: Uint32
  BlockBaseOffsets :: "DeviceType \<Rightarrow> Uint32"

definition sizeof_ArchiveHeader :: nat where
  "sizeof_ArchiveHeader = 36"

definition decode_ArchiveHeader :: "byte list \<Rightarrow> ArchiveHeader" where
  "decode_ArchiveHeader hb =
     \<lparr>MagicNumber = u32_at hb 0, Version = u32_at hb 4, NumChunks = u32_at hb 8,
      BlockBaseOffsets = (\<lambda>d. u32_at hb (12 + 4 * DeviceIndex d))\<rparr>"

record ChunkHeader =
  Chunk_Type :: Uint32
  Chunk_Size :: Uint32
  Chunk_Offset :: Uint32

definition sizeof_ChunkHeader :: nat where
  "sizeof_ChunkHeader = 12"

definition decode_ChunkHeaders :: "byte list \<Rightarrow> nat \<Rightarrow> ChunkHeader list" where
  "decode_ChunkHeaders cb n =
     map (\<lambda>i. \<lparr>Chunk_Type = u32_at cb (12 * i), Chunk_Size = u32_at cb (12 * i + 4),
               Chunk_Offset = u32_at cb (12 * i + 8)\<rparr>) [0..<n]"

record StoredDataHeader =
  Stored_Type :: Uint32
  Stored_Size :: "DeviceType \<Rightarrow> Uint32"
  Stored_Offset :: "DeviceType \<Rightarrow> Uint32"

definition decode_DataHeader :: "byte list \<Rightarrow> StoredDataHeader" where
  "decode_DataHeader hb =
     \<lparr>Stored_Type = u32_at hb 0,
      Stored_Size = (\<lambda>d. u32_at hb (4 + 4 * DeviceIndex d)),
      Stored_Offset = (\<lambda>d. u32_at hb (28 + 4 * DeviceIndex d))\<rparr>"

definition GetSize :: "StoredDataHeader \<Rightarrow> DeviceType \<Rightarrow> Uint32" where
  "GetSize h d = Stored_Size h d"

definition GetOffset :: "StoredDataHeader \<Rightarrow> DeviceType \<Rightarrow> Uint32" where
  "GetOffset h d = Stored_Offset h d"

definition GetEndOffset :: "StoredDataHeader \<Rightarrow> DeviceType \<Rightarrow> Uint32" where
  "GetEndOffset h d = Stored_Offset h d + Stored_Size h d"

subsection \<open>Reader: state\<close>

text \<open>
  An entry of a named-resource directory: the offset and size of the resource's data, and
  the weak reference to the live object made from it (the object's address; \<^verbatim>\<open>None\<close> when
  the reference was never set). An entry of the shader table holds a strong reference.
  The fields of the reader keep their names; those that the archiver has too carry a prime.
\<close>

record ResourceEntry =
  Res_Offset :: Uint32
  Res_Size :: Uint32
  Cache :: "nat option"

record ShaderEntry =
  Shader_Offset :: Uint32
  Shader_Size :: Uint32
  Shader_Cache :: "nat option"

record ArchiveDebugInfoRec =
  APIVersion :: Uint32
  GitHash :: string

record DeviceObjectArchiveBase =
  m_pArchive :: "byte list"
  m_DevType :: DeviceType
  m_BaseOffsets :: "DeviceType \<Rightarrow> Uint32"
  m_DebugInfo :: ArchiveDebugInfoRec
  m_PRSMap' :: "(string \<times> ResourceEntry) list"
  m_RenderPassMap :: "(string \<times> ResourceEntry) list"
  m_GraphicsPSOMap' :: "(string \<times> ResourceEntry) list"
  m_ComputePSOMap' :: "(string \<times> ResourceEntry) list"
  m_TilePSOMap' :: "(string \<times> ResourceEntry) list"
  m_RayTracingPSOMap' :: "(string \<times> ResourceEntry) list"
  m_Shaders' :: "ShaderEntry list"

text \<open>
  What stops the construction, by the message of the \<^verbatim>\<open>throw\<close>. \<open>InvalidMemoryAccess\<close> is
  not thrown by the code: it stands for a read outside a buffer or through a null pointer.
\<close>

datatype ArchiveError =
    NullArchive
  | ReadHeaderFailed
  | BadMagic
  | UnsupportedVersion
  | ReadChunksFailed
  | DuplicateChunk
  | UnknownChunk
  | ReadDebugInfoFailed
  | ReadResourceListFailed
  | CorruptArchive
  | ReadShadersFailed
  | InvalidMemoryAccess

subsection \<open>Reader: named-resource chunks\<close>

text \<open>
  The name of an entry is read as a C string from the position the in-place allocator
  hands out: up to the first zero byte. A name of length 0 gets a null pointer from the
  allocator; without a zero byte in the rest of the buffer the read leaves the buffer.
\<close>

definition CStringAt :: "byte list \<Rightarrow> nat \<Rightarrow> nat \<Rightarrow> string option" where
  "CStringAt Data cur len =
     (if len = 0 then None
      else if 0 \<in> set (drop cur Data)
        then Some (map char_of_byte (takeWhile (\<lambda>b. b \<noteq> 0) (drop cur Data)))
      else None)"

text \<open>
  The loop of \<^verbatim>\<open>ReadNamedResources\<close> over the entries. \<open>cur\<close> is the current size of the
  in-place allocator. The sum of offset and size is a sum of two \<^verbatim>\<open>Uint32\<close>: it wraps.
\<close>

fun ReadNames ::
  "byte list \<Rightarrow> nat \<Rightarrow> nat \<Rightarrow> nat list \<Rightarrow> nat \<Rightarrow> (string \<times> ResourceEntry) list \<Rightarrow>
   ArchiveError + (string \<times> ResourceEntry) list" where
  "ReadNames Data ArchiveSize n [] cur NameAndOffset = Inr NameAndOffset"
| "ReadNames Data ArchiveSize n (i # is) cur NameAndOffset =
     (case u32_opt Data (4 + 4 * i) of
        None \<Rightarrow> Inl InvalidMemoryAccess
      | Some NameLength \<Rightarrow>
          if cur + unat NameLength > length Data then Inl CorruptArchive
          else
            (case u32_opt Data (4 + 8 * n + 4 * i) of
               None \<Rightarrow> Inl InvalidMemoryAccess
             | Some DataOffset \<Rightarrow>
                 (case u32_opt Data (4 + 4 * n + 4 * i) of
                    None \<Rightarrow> Inl InvalidMemoryAccess
                  | Some DataSize \<Rightarrow>
                      if unat (DataOffset + DataSize) > ArchiveSize then Inl CorruptArchive
                      else
                        (case CStringAt Data cur (unat NameLength) of
                           None \<Rightarrow> Inl InvalidMemoryAccess
                         | Some Name \<Rightarrow>
                             ReadNames Data ArchiveSize n is (cur + unat NameLength)
                               (fst (emplace Name
                                       \<lparr>Res_Offset = DataOffset, Res_Size = DataSize, Cache = None\<rparr>
                                       NameAndOffset))))))"

definition ReadNamedResources ::
  "byte list \<Rightarrow> ChunkHeader \<Rightarrow> (string \<times> ResourceEntry) list \<Rightarrow>
   ArchiveError + (string \<times> ResourceEntry) list" where
  "ReadNamedResources pArchive Chunk NameAndOffset =
     (case Archive_Read pArchive (unat (Chunk_Offset Chunk)) (unat (Chunk_Size Chunk)) of
        None \<Rightarrow> Inl ReadResourceListFailed
      | Some Data \<Rightarrow>
          (case u32_opt Data 0 of
             None \<Rightarrow> Inl InvalidMemoryAccess
           | Some HeaderCount \<Rightarrow>
               ReadNames Data (length pArchive) (unat HeaderCount) [0..<unat HeaderCount]
                 (4 + 12 * unat HeaderCount) NameAndOffset))"

subsection \<open>Reader: debug info and shader table\<close>

text \<open>
  \<^verbatim>\<open>ReadArchiveDebugInfo\<close>. The function throws on a failed read of the chunk only. The API
  version and the commit hash are then taken from the bytes by the serializer, and nothing
  is checked afterwards (an assertion apart): on bytes that do not hold the two fields the
  C++ reads outside the chunk, which the model reports as \<open>InvalidMemoryAccess\<close>.
\<close>

definition DecodeDebugInfo :: "byte list \<Rightarrow> ArchiveDebugInfoRec option" where
  "DecodeDebugInfo Data =
     (case Serializer_Read (SSeq [SInt 4, SStr]) Data of
        Some (VSeq [VInt w v, VStr s], rest) \<Rightarrow> Some \<lparr>APIVersion = of_nat v, GitHash = c_str s\<rparr>
      | _ \<Rightarrow> None)"

definition ReadArchiveDebugInfo ::
  "ChunkHeader \<Rightarrow> DeviceObjectArchiveBase \<Rightarrow> ArchiveError + DeviceObjectArchiveBase" where
  "ReadArchiveDebugInfo Chunk r =
     (case Archive_Read (m_pArchive r) (unat (Chunk_Offset Chunk)) (unat (Chunk_Size Chunk)) of
        None \<Rightarrow> Inl ReadDebugInfoFailed
      | Some Data \<Rightarrow>
          (case DecodeDebugInfo Data of
             Some Info \<Rightarrow> Inr (r\<lparr>m_DebugInfo := Info\<rparr>)
           | None \<Rightarrow> Inl InvalidMemoryAccess))"

text \<open>
  \<^verbatim>\<open>LoadDeviceSpecificData\<close>, up to the call of its continuation: the bytes it hands to the
  continuation, or \<^verbatim>\<open>None\<close> where it logs an error and returns. The base offset and the
  offsets of the header are \<^verbatim>\<open>Uint32\<close>; their sums wrap.
\<close>

definition LoadDeviceSpecificData ::
  "StoredDataHeader \<Rightarrow> DeviceObjectArchiveBase \<Rightarrow> byte list option" where
  "LoadDeviceSpecificData Header r =
     (let BaseOffset = m_BaseOffsets r (m_DevType r);
          ArchiveSize = length (m_pArchive r)
      in if unat BaseOffset > ArchiveSize then None
         else if GetSize Header (m_DevType r) = 0 then None
         else if unat (BaseOffset + GetEndOffset Header (m_DevType r)) > ArchiveSize then None
         else Archive_Read (m_pArchive r) (unat (BaseOffset + GetOffset Header (m_DevType r)))
                (unat (GetSize Header (m_DevType r))))"

definition ReadIndexedResources ::
  "ChunkHeader \<Rightarrow> DeviceObjectArchiveBase \<Rightarrow> ArchiveError + DeviceObjectArchiveBase" where
  "ReadIndexedResources Chunk r =
     (case Archive_Read (m_pArchive r) (unat (Chunk_Offset Chunk)) sizeof_DataHeader of
        None \<Rightarrow> Inl ReadShadersFailed
      | Some hb \<Rightarrow>
          (case LoadDeviceSpecificData (decode_DataHeader hb) r of
             None \<Rightarrow> Inr r
           | Some pData \<Rightarrow>
               Inr (r\<lparr>m_Shaders' :=
                        map (\<lambda>i. \<lparr>Shader_Offset = u32_at pData (8 * i),
                                  Shader_Size = u32_at pData (8 * i + 4),
                                  Shader_Cache = None\<rparr>)
                          [0..<length pData div sizeof_FileOffsetAndSize]\<rparr>)))"

subsection \<open>Reader: construction\<close>

text \<open>
  The loop over the chunk headers. \<open>ProcessedBits\<close> holds the kinds seen so far. A kind
  that the \<^verbatim>\<open>switch\<close> does not name (the reserved kind, or a number that is no kind) reaches
  \<^verbatim>\<open>default\<close> and throws.
\<close>

definition with_map ::
  "ArchiveError + (string \<times> ResourceEntry) list \<Rightarrow>
   ((string \<times> ResourceEntry) list \<Rightarrow> DeviceObjectArchiveBase) \<Rightarrow>
   ArchiveError + DeviceObjectArchiveBase" where
  "with_map res store = (case res of Inl e \<Rightarrow> Inl e | Inr m \<Rightarrow> Inr (store m))"

definition ReadChunk ::
  "ArchiveFormat \<Rightarrow> ChunkHeader \<Rightarrow> DeviceObjectArchiveBase \<Rightarrow> ArchiveError + DeviceObjectArchiveBase" where
  "ReadChunk fmt Chunk r =
     (case ChunkTypeOf fmt (Chunk_Type Chunk) of
        Some ArchiveDebugInfo \<Rightarrow> ReadArchiveDebugInfo Chunk r
      | Some ResourceSignature \<Rightarrow>
          with_map (ReadNamedResources (m_pArchive r) Chunk (m_PRSMap' r)) (\<lambda>m. r\<lparr>m_PRSMap' := m\<rparr>)
      | Some GraphicsPipelineStates \<Rightarrow>
          with_map (ReadNamedResources (m_pArchive r) Chunk (m_GraphicsPSOMap' r)) (\<lambda>m. r\<lparr>m_GraphicsPSOMap' := m\<rparr>)
      | Some ComputePipelineStates \<Rightarrow>
          with_map (ReadNamedResources (m_pArchive r) Chunk (m_ComputePSOMap' r)) (\<lambda>m. r\<lparr>m_ComputePSOMap' := m\<rparr>)
      | Some RayTracingPipelineStates \<Rightarrow>
          with_map (ReadNamedResources (m_pArchive r) Chunk (m_RayTracingPSOMap' r)) (\<lambda>m. r\<lparr>m_RayTracingPSOMap' := m\<rparr>)
      | Some TilePipelineStates \<Rightarrow>
          with_map (ReadNamedResources (m_pArchive r) Chunk (m_TilePSOMap' r)) (\<lambda>m. r\<lparr>m_TilePSOMap' := m\<rparr>)
      | Some RenderPass \<Rightarrow>
          with_map (ReadNamedResources (m_pArchive r) Chunk (m_RenderPassMap r)) (\<lambda>m. r\<lparr>m_RenderPassMap := m\<rparr>)
      | Some Shaders \<Rightarrow> ReadIndexedResources Chunk r
      | Some ChunkUndefined \<Rightarrow> Inl UnknownChunk
      | None \<Rightarrow> Inl UnknownChunk)"

fun ReadChunks ::
  "ArchiveFormat \<Rightarrow> ChunkHeader list \<Rightarrow> Uint32 list \<Rightarrow> DeviceObjectArchiveBase \<Rightarrow>
   ArchiveError + DeviceObjectArchiveBase" where
  "ReadChunks fmt [] ProcessedBits r = Inr r"
| "ReadChunks fmt (Chunk # Chunks) ProcessedBits r =
     (if Chunk_Type Chunk \<in> set ProcessedBits then Inl DuplicateChunk
      else (case ReadChunk fmt Chunk r of
              Inl e \<Rightarrow> Inl e
            | Inr r' \<Rightarrow> ReadChunks fmt Chunks (Chunk_Type Chunk # ProcessedBits) r'))"

text \<open>The header and the chunk headers of a byte source, as the constructor decodes them.\<close>

definition HeaderOf :: "byte list \<Rightarrow> ArchiveHeader" where
  "HeaderOf bs = decode_ArchiveHeader (take sizeof_ArchiveHeader bs)"

definition ChunksOf :: "byte list \<Rightarrow> ChunkHeader list" where
  "ChunksOf bs =
     decode_ChunkHeaders
       (take (sizeof_ChunkHeader * unat (NumChunks (HeaderOf bs))) (drop sizeof_ArchiveHeader bs))
       (unat (NumChunks (HeaderOf bs)))"

text \<open>\<^verbatim>\<open>DeviceObjectArchiveBase::DeviceObjectArchiveBase\<close>.\<close>

definition NewArchiveBase ::
  "ArchiveFormat \<Rightarrow> byte list option \<Rightarrow> DeviceType \<Rightarrow> ArchiveError + DeviceObjectArchiveBase" where
  "NewArchiveBase fmt pArchive DevType =
     (case pArchive of
        None \<Rightarrow> Inl NullArchive
      | Some bs \<Rightarrow>
          (case Archive_Read bs 0 sizeof_ArchiveHeader of
             None \<Rightarrow> Inl ReadHeaderFailed
           | Some hb \<Rightarrow>
               (let Header = decode_ArchiveHeader hb
                in if MagicNumber Header \<noteq> HeaderMagicNumber fmt then Inl BadMagic
                   else if Version Header \<noteq> HeaderVersion fmt then Inl UnsupportedVersion
                   else
                     (case Archive_Read bs sizeof_ArchiveHeader
                             (sizeof_ChunkHeader * unat (NumChunks Header)) of
                        None \<Rightarrow> Inl ReadChunksFailed
                      | Some cb \<Rightarrow>
                          ReadChunks fmt (decode_ChunkHeaders cb (unat (NumChunks Header))) []
                            \<lparr>m_pArchive = bs, m_DevType = DevType,
                             m_BaseOffsets = BlockBaseOffsets Header,
                             m_DebugInfo = \<lparr>APIVersion = 0, GitHash = []\<rparr>,
                             m_PRSMap' = [], m_RenderPassMap = [], m_GraphicsPSOMap' = [],
                             m_ComputePSOMap' = [], m_TilePSOMap' = [], m_RayTracingPSOMap' = [],
                             m_Shaders' = []\<rparr>))))"

text \<open>\<^verbatim>\<open>DeviceObjectArchiveBase::ClearResourceCache\<close>.\<close>

definition ClearResourceCache :: "DeviceObjectArchiveBase \<Rightarrow> DeviceObjectArchiveBase" where
  "ClearResourceCache r = r\<lparr>m_Shaders' := map (\<lambda>Shader. Shader\<lparr>Shader_Cache := None\<rparr>) (m_Shaders' r)\<rparr>"


definition HasBadMagic :: "ArchiveFormat \<Rightarrow> byte list \<Rightarrow> bool" where
  "HasBadMagic fmt bs = (MagicNumber (HeaderOf bs) \<noteq> HeaderMagicNumber fmt)"

definition HasUnsupportedVersion :: "ArchiveFormat \<Rightarrow> byte list \<Rightarrow> bool" where
  "HasUnsupportedVersion fmt bs = (Version (HeaderOf bs) \<noteq> HeaderVersion fmt)"







subsection \<open>Reader: live objects and the weak cache\<close>

text \<open>
  Live objects are made by the render device, an external collaborator: its factories, the
  deserializers of the descriptions (\<^verbatim>\<open>PSOSerializer\<close>, not among the sources) and the
  question whether an object is still alive are the fields of \<open>RenderDevice\<close>. The state of
  the device and of the objects is \<open>'w\<close>; a factory returns the address of the new object
  (\<^verbatim>\<open>None\<close> for a null pointer) and the new state. Locking a weak reference yields the object
  when it is alive. Reference counts are not modelled: which objects are alive is part of
  the state of the device.
\<close>

datatype SHADER_TYPE =
    SHADER_TYPE_VERTEX
  | SHADER_TYPE_PIXEL
  | SHADER_TYPE_GEOMETRY
  | SHADER_TYPE_HULL
  | SHADER_TYPE_DOMAIN
  | SHADER_TYPE_AMPLIFICATION
  | SHADER_TYPE_MESH
  | SHADER_TYPE_COMPUTE
  | SHADER_TYPE_TILE
  | SHADER_TYPE_OTHER

record GraphicsPipelineDesc =
  BlendDesc :: nat
  SampleMask :: nat
  RasterizerDesc :: nat
  DepthStencilDesc :: nat
  InputLayout :: nat
  PrimitiveTopology :: nat
  NumViewports :: nat
  NumRenderTargets :: nat
  SubpassIndex :: nat
  ShadingRateFlags :: nat
  RTVFormats :: "nat list"
  DSVFormat :: nat
  SmplDesc :: nat
  gp_pRenderPass :: "nat option"

record TilePipelineDesc =
  tp_SampleCount :: nat
  tp_NumRenderTargets :: nat
  tp_RTVFormats :: "nat list"

record UnpackedCreateInfo =
  ci_Name :: string
  ci_SRBAllocationGranularity :: nat
  ci_ImmediateContextMask :: nat
  ci_Flags :: Uint32
  ci_ResourceSignaturesCount :: nat
  ci_ppResourceSignatures :: "nat list"

record GraphicsCreateInfo = UnpackedCreateInfo +
  ci_GraphicsPipeline :: GraphicsPipelineDesc
  pVS :: "nat option"
  pPS :: "nat option"
  pDS :: "nat option"
  pHS :: "nat option"
  pGS :: "nat option"
  pAS :: "nat option"
  pMS :: "nat option"

record TileCreateInfo = UnpackedCreateInfo +
  ci_TilePipeline :: TilePipelineDesc
  pTS :: "nat option"

record RenderPassAttachmentDesc =
  att_Format :: nat
  att_SampleCount :: nat
  att_LoadOp :: nat
  att_StoreOp :: nat
  att_StencilLoadOp :: nat
  att_StencilStoreOp :: nat
  att_InitialState :: nat
  att_FinalState :: nat

record RenderPassDesc =
  rpd_Name :: string
  rpd_Attachments :: "RenderPassAttachmentDesc list"
  rpd_Rest :: nat

record SignatureDesc =
  sd_Name :: string
  sd_SRBAllocationGranularity :: nat
  sd_Rest :: nat

record 'w RenderDevice =
  IsAlive :: "'w \<Rightarrow> nat \<Rightarrow> bool"
  ShaderTypeOf :: "'w \<Rightarrow> nat \<Rightarrow> SHADER_TYPE"
  DeserializeGraphicsPSO :: "byte list \<Rightarrow> GraphicsCreateInfo \<times> string list \<times> string"
  DeserializeTilePSO :: "byte list \<Rightarrow> TileCreateInfo \<times> string list"
  DeserializeRenderPass :: "byte list \<Rightarrow> RenderPassDesc"
  DeserializeSignature :: "byte list \<Rightarrow> SignatureDesc"
  DeserializeShaderIndices :: "byte list \<Rightarrow> nat list"
  CreateGraphicsPipelineState :: "GraphicsCreateInfo \<Rightarrow> 'w \<Rightarrow> nat option \<times> 'w"
  CreateTilePipelineState :: "TileCreateInfo \<Rightarrow> 'w \<Rightarrow> nat option \<times> 'w"
  CreateRenderPass :: "RenderPassDesc \<Rightarrow> 'w \<Rightarrow> nat option \<times> 'w"
  CreateSignature :: "SignatureDesc \<Rightarrow> byte list \<Rightarrow> 'w \<Rightarrow> nat option \<times> 'w"
  CreateShader :: "byte list \<Rightarrow> 'w \<Rightarrow> nat option \<times> 'w"

text \<open>\<^verbatim>\<open>GetCachedResource\<close> and \<^verbatim>\<open>CacheResource\<close>.\<close>

definition GetCachedResource ::
  "'w RenderDevice \<Rightarrow> string \<Rightarrow> (string \<times> ResourceEntry) list \<Rightarrow> 'w \<Rightarrow> nat option" where
  "GetCachedResource dev Name CacheMap w =
     (case map_of CacheMap Name of
        None \<Rightarrow> None
      | Some e \<Rightarrow>
          (case Cache e of
             None \<Rightarrow> None
           | Some p \<Rightarrow> if IsAlive dev w p then Some p else None))"

definition CacheResource ::
  "'w RenderDevice \<Rightarrow> string \<Rightarrow> (string \<times> ResourceEntry) list \<Rightarrow> nat option \<Rightarrow> 'w \<Rightarrow>
   (string \<times> ResourceEntry) list" where
  "CacheResource dev Name CacheMap pResource w =
     (case map_of CacheMap Name of
        None \<Rightarrow> CacheMap
      | Some e \<Rightarrow>
          (case GetCachedResource dev Name CacheMap w of
             Some Ptr \<Rightarrow> CacheMap
           | None \<Rightarrow> update_entry Name (e\<lparr>Cache := pResource\<rparr>) CacheMap))"

subsection \<open>Reader: loading the data of a resource\<close>

text \<open>
  \<^verbatim>\<open>LoadResourceData\<close> up to its continuation: the bytes of the named resource, \<^verbatim>\<open>None\<close> when
  the name is not in the directory or the source cannot be read.
\<close>

definition LoadResourceData ::
  "(string \<times> ResourceEntry) list \<Rightarrow> string \<Rightarrow> DeviceObjectArchiveBase \<Rightarrow> byte list option" where
  "LoadResourceData NameAndOffset ResourceName r =
     (case map_of NameAndOffset ResourceName of
        None \<Rightarrow> None
      | Some OffsetAndSize \<Rightarrow>
          Archive_Read (m_pArchive r) (unat (Res_Offset OffsetAndSize)) (unat (Res_Size OffsetAndSize)))"

text \<open>
  The continuations of \<^verbatim>\<open>ReadPRSData\<close>, \<^verbatim>\<open>ReadRPData\<close> and \<^verbatim>\<open>ReadPSOData\<close> start alike: the
  data header is taken from the front of the bytes and its kind is compared with the kind
  of the directory. (Fewer bytes than a header: the C++ reads past them; the model ends the
  call without a result.) The result is the header and the bytes behind it.
\<close>

definition ReadHeaderOfKind ::
  "ArchiveFormat \<Rightarrow> ChunkType \<Rightarrow> byte list \<Rightarrow> (StoredDataHeader \<times> byte list) option" where
  "ReadHeaderOfKind fmt Type pData =
     (if length pData < sizeof_DataHeader then None
      else if ChunkTypeOf fmt (Stored_Type (decode_DataHeader pData)) \<noteq> Some Type then None
      else Some (decode_DataHeader pData, drop sizeof_DataHeader pData))"

unbundle bit_operations_syntax

definition PSO_CREATE_FLAG_DONT_REMAP_SHADER_RESOURCES :: Uint32 where
  "PSO_CREATE_FLAG_DONT_REMAP_SHADER_RESOURCES = 4"

subsection \<open>Reader: shaders\<close>

text \<open>
  \<^verbatim>\<open>LoadShaders\<close>. Every index of the array is served from the cache of the shader table, or
  read from the source, created and cached. The loop ends at the first index that cannot
  be served; the shaders cached before stay cached.
\<close>

fun LoadShaderList ::
  "'w RenderDevice \<Rightarrow> Uint32 \<Rightarrow> nat list \<Rightarrow> nat list \<Rightarrow> DeviceObjectArchiveBase \<Rightarrow> 'w \<Rightarrow>
   nat list option \<times> DeviceObjectArchiveBase \<times> 'w" where
  "LoadShaderList dev BaseOffset [] Loaded r w = (Some Loaded, r, w)"
| "LoadShaderList dev BaseOffset (Idx # rest) Loaded r w =
     (if Idx \<ge> length (m_Shaders' r) then (None, r, w)
      else
        (case Shader_Cache (m_Shaders' r ! Idx) of
           Some pShader \<Rightarrow> LoadShaderList dev BaseOffset rest (Loaded @ [pShader]) r w
         | None \<Rightarrow>
             (case Archive_Read (m_pArchive r)
                     (unat (BaseOffset + Shader_Offset (m_Shaders' r ! Idx)))
                     (unat (Shader_Size (m_Shaders' r ! Idx))) of
                None \<Rightarrow> (None, r, w)
              | Some pData \<Rightarrow>
                  (case CreateShader dev pData w of
                     (None, w') \<Rightarrow> (None, r, w')
                   | (Some pShader, w') \<Rightarrow>
                       LoadShaderList dev BaseOffset rest (Loaded @ [pShader])
                         (r\<lparr>m_Shaders' := (m_Shaders' r)[Idx := (m_Shaders' r ! Idx)\<lparr>Shader_Cache := Some pShader\<rparr>]\<rparr>)
                         w'))))"

definition LoadShaders ::
  "'w RenderDevice \<Rightarrow> byte list \<Rightarrow> DeviceObjectArchiveBase \<Rightarrow> 'w \<Rightarrow>
   nat list option \<times> DeviceObjectArchiveBase \<times> 'w" where
  "LoadShaders dev Ser r w =
     (let BaseOffset = m_BaseOffsets r (m_DevType r)
      in if unat BaseOffset > length (m_pArchive r) then (None, r, w)
         else LoadShaderList dev BaseOffset (DeserializeShaderIndices dev Ser) [] r w)"

subsection \<open>Reader: resource signatures and render passes\<close>

record ResourceSignatureUnpackInfo =
  rsu_Name :: string
  rsu_SRBAllocationGranularity :: nat

text \<open>\<^verbatim>\<open>UnpackResourceSignatureImpl\<close>.\<close>

definition UnpackResourceSignatureImpl ::
  "ArchiveFormat \<Rightarrow> 'w RenderDevice \<Rightarrow> ResourceSignatureUnpackInfo \<Rightarrow> DeviceObjectArchiveBase \<Rightarrow> 'w \<Rightarrow>
   nat option \<times> DeviceObjectArchiveBase \<times> 'w" where
  "UnpackResourceSignatureImpl fmt dev DeArchiveInfo r w =
     (case GetCachedResource dev (rsu_Name DeArchiveInfo) (m_PRSMap' r) w of
        Some pSignature \<Rightarrow> (Some pSignature, r, w)
      | None \<Rightarrow>
          (case LoadResourceData (m_PRSMap' r) (rsu_Name DeArchiveInfo) r of
             None \<Rightarrow> (None, r, w)
           | Some pData \<Rightarrow>
               (case ReadHeaderOfKind fmt ResourceSignature pData of
                  None \<Rightarrow> (None, r, w)
                | Some (pHeader, Ser) \<Rightarrow>
                    (let Desc = (DeserializeSignature dev Ser)
                                  \<lparr>sd_Name := rsu_Name DeArchiveInfo,
                                   sd_SRBAllocationGranularity := rsu_SRBAllocationGranularity DeArchiveInfo\<rparr>
                     in (case LoadDeviceSpecificData pHeader r of
                           None \<Rightarrow> (None, r, w)
                         | Some pDevData \<Rightarrow>
                             (case CreateSignature dev Desc pDevData w of
                                (pSignature, w') \<Rightarrow>
                                  (pSignature,
                                   r\<lparr>m_PRSMap' := CacheResource dev (rsu_Name DeArchiveInfo) (m_PRSMap' r) pSignature w'\<rparr>,
                                   w')))))))"

record AttachmentOverride =
  ovr_AttachmentIndex :: nat
  ovr_OverrideFlags :: Uint32
  ovr_AttachmentDesc :: RenderPassAttachmentDesc

record RenderPassUnpackInfo =
  rpu_Name :: string
  rpu_AttachmentCount :: nat
  rpu_pAttachments :: "AttachmentOverride list"

text \<open>
  The loop \<^verbatim>\<open>for (Flags = ...; Flags != 0;) { Flag = ExtractLSB(Flags); ... }\<close> visits the set
  bits from the lowest up.
\<close>

definition OverrideBitsOf :: "Uint32 \<Rightarrow> nat list" where
  "OverrideBitsOf flags = filter (bit flags) [0..<32]"

text \<open>
  The \<^verbatim>\<open>switch\<close> on one flag of an attachment override. The flags are the bits 0 to 7, in the
  order of the \<^verbatim>\<open>case\<close> labels (the last is bit 7, as the \<^verbatim>\<open>static_assert\<close> says). Any other
  bit is unexpected and changes nothing.
\<close>

definition ApplyAttachmentFlag ::
  "RenderPassAttachmentDesc \<Rightarrow> nat \<Rightarrow> RenderPassAttachmentDesc \<Rightarrow> RenderPassAttachmentDesc" where
  "ApplyAttachmentFlag Src OverrideFlag Dst =
     (if OverrideFlag = 0 then Dst\<lparr>att_Format := att_Format Src\<rparr>
      else if OverrideFlag = 1 then Dst\<lparr>att_SampleCount := att_SampleCount Src\<rparr>
      else if OverrideFlag = 2 then Dst\<lparr>att_LoadOp := att_LoadOp Src\<rparr>
      else if OverrideFlag = 3 then Dst\<lparr>att_StoreOp := att_StoreOp Src\<rparr>
      else if OverrideFlag = 4 then Dst\<lparr>att_StencilLoadOp := att_StencilLoadOp Src\<rparr>
      else if OverrideFlag = 5 then Dst\<lparr>att_StencilStoreOp := att_StencilStoreOp Src\<rparr>
      else if OverrideFlag = 6 then Dst\<lparr>att_InitialState := att_InitialState Src\<rparr>
      else if OverrideFlag = 7 then Dst\<lparr>att_FinalState := att_FinalState Src\<rparr>
      else Dst)"

text \<open>
  The loop over the overrides of a render pass. An override whose attachment index is past
  the copied array writes outside it in the C++; the model ends the call there
  (\<^verbatim>\<open>None\<close>).
\<close>

fun ApplyAttachmentOverrides ::
  "AttachmentOverride list \<Rightarrow> RenderPassAttachmentDesc list \<Rightarrow> RenderPassAttachmentDesc list option" where
  "ApplyAttachmentOverrides [] pAttachments = Some pAttachments"
| "ApplyAttachmentOverrides (Override # rest) pAttachments =
     (if ovr_AttachmentIndex Override \<ge> length pAttachments then None
      else ApplyAttachmentOverrides rest
             (pAttachments[ovr_AttachmentIndex Override :=
                fold (ApplyAttachmentFlag (ovr_AttachmentDesc Override))
                  (OverrideBitsOf (ovr_OverrideFlags Override))
                  (pAttachments ! ovr_AttachmentIndex Override)]))"

text \<open>
  \<^verbatim>\<open>UnpackRenderPass\<close>. \<open>pRP0\<close> is what the caller's pointer holds at the call: the pointer is
  passed by reference, and only \<^verbatim>\<open>GetCachedResource\<close> and the factory store into it. An
  override array shorter than \<open>AttachmentCount\<close> is read past its end in the C++; the model
  ends the call there.
\<close>

definition UnpackRenderPass ::
  "ArchiveFormat \<Rightarrow> 'w RenderDevice \<Rightarrow> RenderPassUnpackInfo \<Rightarrow> nat option \<Rightarrow>
   DeviceObjectArchiveBase \<Rightarrow> 'w \<Rightarrow> nat option \<times> DeviceObjectArchiveBase \<times> 'w" where
  "UnpackRenderPass fmt dev DeArchiveInfo pRP0 r w =
     (let OverrideAttachments = (rpu_AttachmentCount DeArchiveInfo \<noteq> 0);
          Cached = (if OverrideAttachments then None
                    else GetCachedResource dev (rpu_Name DeArchiveInfo) (m_RenderPassMap r) w);
          pRP1 = (if OverrideAttachments then pRP0 else None)
      in (case Cached of
            Some pRPObj \<Rightarrow> (Some pRPObj, r, w)
          | None \<Rightarrow>
              (case LoadResourceData (m_RenderPassMap r) (rpu_Name DeArchiveInfo) r of
                 None \<Rightarrow> (pRP1, r, w)
               | Some pData \<Rightarrow>
                   (case ReadHeaderOfKind fmt RenderPass pData of
                      None \<Rightarrow> (pRP1, r, w)
                    | Some (pHeader, Ser) \<Rightarrow>
                        (let Desc0 = (DeserializeRenderPass dev Ser)\<lparr>rpd_Name := rpu_Name DeArchiveInfo\<rparr>
                         in (case (if OverrideAttachments
                                   then (if length (rpu_pAttachments DeArchiveInfo) < rpu_AttachmentCount DeArchiveInfo
                                         then None
                                         else ApplyAttachmentOverrides
                                                (take (rpu_AttachmentCount DeArchiveInfo) (rpu_pAttachments DeArchiveInfo))
                                                (rpd_Attachments Desc0))
                                   else Some (rpd_Attachments Desc0)) of
                               None \<Rightarrow> (pRP1, r, w)
                             | Some pAttachments \<Rightarrow>
                                 (case CreateRenderPass dev (Desc0\<lparr>rpd_Attachments := pAttachments\<rparr>) w of
                                    (pRPObj, w') \<Rightarrow>
                                      if OverrideAttachments then (pRPObj, r, w')
                                      else (pRPObj,
                                            r\<lparr>m_RenderPassMap :=
                                                CacheResource dev (rpu_Name DeArchiveInfo) (m_RenderPassMap r) pRPObj w'\<rparr>,
                                            w'))))))))"

subsection \<open>Reader: pipelines\<close>

record PipelineStateUnpackInfo =
  psu_Name :: string
  psu_OverrideFlags :: Uint32
  psu_pGraphicsPipelineDesc :: "GraphicsPipelineDesc option"
  psu_pTilePipelineDesc :: "TilePipelineDesc option"
  psu_SRBAllocationGranularity :: nat
  psu_ImmediateContextMask :: nat

definition DefaultSRBAllocationGranularity :: nat where
  "DefaultSRBAllocationGranularity = 1"

text \<open>
  \<^verbatim>\<open>CreateResourceSignatures\<close>: the signatures named by the pipeline are unpacked in order; the
  first that yields no object ends the loop. Without signatures the create info is left
  as it was read. (Fewer names than signatures: the C++ reads a name that was never
  stored; the model ends the call there.)
\<close>

fun UnpackSignatures ::
  "ArchiveFormat \<Rightarrow> 'w RenderDevice \<Rightarrow> string list \<Rightarrow> nat list \<Rightarrow> DeviceObjectArchiveBase \<Rightarrow> 'w \<Rightarrow>
   bool \<times> nat list \<times> DeviceObjectArchiveBase \<times> 'w" where
  "UnpackSignatures fmt dev [] Sigs r w = (True, Sigs, r, w)"
| "UnpackSignatures fmt dev (Name # rest) Sigs r w =
     (case UnpackResourceSignatureImpl fmt dev
             \<lparr>rsu_Name = Name, rsu_SRBAllocationGranularity = DefaultSRBAllocationGranularity\<rparr> r w of
        (None, r', w') \<Rightarrow> (False, Sigs, r', w')
      | (Some pSignature, r', w') \<Rightarrow> UnpackSignatures fmt dev rest (Sigs @ [pSignature]) r' w')"

definition CreateResourceSignatures ::
  "ArchiveFormat \<Rightarrow> 'w RenderDevice \<Rightarrow> 'a UnpackedCreateInfo_scheme \<Rightarrow> string list \<Rightarrow>
   DeviceObjectArchiveBase \<Rightarrow> 'w \<Rightarrow>
   bool \<times> 'a UnpackedCreateInfo_scheme \<times> DeviceObjectArchiveBase \<times> 'w" where
  "CreateResourceSignatures fmt dev CI PRSNames r w =
     (if ci_ResourceSignaturesCount CI = 0 then (True, CI, r, w)
      else if length PRSNames < ci_ResourceSignaturesCount CI then (False, CI, r, w)
      else
        (case UnpackSignatures fmt dev (take (ci_ResourceSignaturesCount CI) PRSNames) [] r w of
           (ok, Sigs, r', w') \<Rightarrow> (ok, CI\<lparr>ci_ppResourceSignatures := Sigs\<rparr>, r', w')))"

text \<open>
  \<^verbatim>\<open>CreateRenderPass\<close> for a graphics pipeline: without a render pass name there is nothing
  to do; otherwise the render pass is unpacked, without overrides.
\<close>

definition CreateRenderPassOf ::
  "ArchiveFormat \<Rightarrow> 'w RenderDevice \<Rightarrow> GraphicsCreateInfo \<Rightarrow> string \<Rightarrow> DeviceObjectArchiveBase \<Rightarrow> 'w \<Rightarrow>
   bool \<times> GraphicsCreateInfo \<times> DeviceObjectArchiveBase \<times> 'w" where
  "CreateRenderPassOf fmt dev CI RenderPassName r w =
     (if RenderPassName = [] then (True, CI, r, w)
      else
        (case UnpackRenderPass fmt dev
                \<lparr>rpu_Name = RenderPassName, rpu_AttachmentCount = 0, rpu_pAttachments = []\<rparr> None r w of
           (None, r', w') \<Rightarrow> (False, CI, r', w')
         | (Some pRPObj, r', w') \<Rightarrow>
             (True, CI\<lparr>ci_GraphicsPipeline := (ci_GraphicsPipeline CI)\<lparr>gp_pRenderPass := Some pRPObj\<rparr>\<rparr>, r', w')))"

text \<open>\<^verbatim>\<open>ReadPSOData\<close> for graphics and for tile pipelines.\<close>

definition ReadGraphicsPSOData ::
  "ArchiveFormat \<Rightarrow> 'w RenderDevice \<Rightarrow> string \<Rightarrow> DeviceObjectArchiveBase \<Rightarrow>
   (StoredDataHeader \<times> GraphicsCreateInfo \<times> string list \<times> string) option" where
  "ReadGraphicsPSOData fmt dev Name r =
     (case LoadResourceData (m_GraphicsPSOMap' r) Name r of
        None \<Rightarrow> None
      | Some pData \<Rightarrow>
          (case ReadHeaderOfKind fmt GraphicsPipelineStates pData of
             None \<Rightarrow> None
           | Some (pHeader, Ser) \<Rightarrow>
               (case DeserializeGraphicsPSO dev Ser of
                  (CI, PRSNames, RenderPassName) \<Rightarrow>
                    Some (pHeader,
                          CI\<lparr>ci_Name := Name,
                             ci_Flags := ci_Flags CI OR PSO_CREATE_FLAG_DONT_REMAP_SHADER_RESOURCES\<rparr>,
                          PRSNames, RenderPassName))))"

definition ReadTilePSOData ::
  "ArchiveFormat \<Rightarrow> 'w RenderDevice \<Rightarrow> string \<Rightarrow> DeviceObjectArchiveBase \<Rightarrow>
   (StoredDataHeader \<times> TileCreateInfo \<times> string list) option" where
  "ReadTilePSOData fmt dev Name r =
     (case LoadResourceData (m_TilePSOMap' r) Name r of
        None \<Rightarrow> None
      | Some pData \<Rightarrow>
          (case ReadHeaderOfKind fmt TilePipelineStates pData of
             None \<Rightarrow> None
           | Some (pHeader, Ser) \<Rightarrow>
               (case DeserializeTilePSO dev Ser of
                  (CI, PRSNames) \<Rightarrow>
                    Some (pHeader,
                          CI\<lparr>ci_Name := Name,
                             ci_Flags := ci_Flags CI OR PSO_CREATE_FLAG_DONT_REMAP_SHADER_RESOURCES\<rparr>,
                          PRSNames))))"

text \<open>The loop that hands the loaded shaders to the stages of a graphics pipeline.\<close>

fun AssignGraphicsShaders ::
  "'w RenderDevice \<Rightarrow> 'w \<Rightarrow> nat list \<Rightarrow> GraphicsCreateInfo \<Rightarrow> GraphicsCreateInfo option" where
  "AssignGraphicsShaders dev w [] CI = Some CI"
| "AssignGraphicsShaders dev w (Shader # rest) CI =
     (case ShaderTypeOf dev w Shader of
        SHADER_TYPE_VERTEX \<Rightarrow> AssignGraphicsShaders dev w rest (CI\<lparr>pVS := Some Shader\<rparr>)
      | SHADER_TYPE_PIXEL \<Rightarrow> AssignGraphicsShaders dev w rest (CI\<lparr>pPS := Some Shader\<rparr>)
      | SHADER_TYPE_GEOMETRY \<Rightarrow> AssignGraphicsShaders dev w rest (CI\<lparr>pGS := Some Shader\<rparr>)
      | SHADER_TYPE_HULL \<Rightarrow> AssignGraphicsShaders dev w rest (CI\<lparr>pHS := Some Shader\<rparr>)
      | SHADER_TYPE_DOMAIN \<Rightarrow> AssignGraphicsShaders dev w rest (CI\<lparr>pDS := Some Shader\<rparr>)
      | SHADER_TYPE_AMPLIFICATION \<Rightarrow> AssignGraphicsShaders dev w rest (CI\<lparr>pAS := Some Shader\<rparr>)
      | SHADER_TYPE_MESH \<Rightarrow> AssignGraphicsShaders dev w rest (CI\<lparr>pMS := Some Shader\<rparr>)
      | _ \<Rightarrow> None)"

text \<open>
  The \<^verbatim>\<open>switch\<close> on one override flag of a pipeline. The flags are the bits 0 to 12, in the
  order of the \<^verbatim>\<open>case\<close> labels of the graphics pipeline (the last is bit 12, as the
  \<^verbatim>\<open>static_assert\<close> says). Every flag but the name reads the caller's description; without one
  the C++ reads through a null pointer, and the model ends the call there (\<^verbatim>\<open>None\<close>).
\<close>

definition ApplyGraphicsOverride ::
  "GraphicsPipelineDesc option \<Rightarrow> nat \<Rightarrow> GraphicsCreateInfo \<Rightarrow> GraphicsCreateInfo option" where
  "ApplyGraphicsOverride pDesc OverrideFlag CI =
     (if OverrideFlag = 0 then Some (CI\<lparr>ci_Name := ''AZ TODO''\<rparr>)
      else if OverrideFlag > 12 then Some CI
      else
        (case pDesc of
           None \<Rightarrow> None
         | Some d \<Rightarrow>
             (let gp = ci_GraphicsPipeline CI
              in Some (CI\<lparr>ci_GraphicsPipeline :=
                   (if OverrideFlag = 1 then gp\<lparr>RasterizerDesc := RasterizerDesc d\<rparr>
                    else if OverrideFlag = 2 then gp\<lparr>BlendDesc := BlendDesc d\<rparr>
                    else if OverrideFlag = 3 then gp\<lparr>SampleMask := SampleMask d\<rparr>
                    else if OverrideFlag = 4 then gp\<lparr>DepthStencilDesc := DepthStencilDesc d\<rparr>
                    else if OverrideFlag = 5 then gp\<lparr>InputLayout := InputLayout d\<rparr>
                    else if OverrideFlag = 6 then gp\<lparr>PrimitiveTopology := PrimitiveTopology d\<rparr>
                    else if OverrideFlag = 7 then gp\<lparr>NumViewports := NumViewports d\<rparr>
                    else if OverrideFlag = 8 then
                      gp\<lparr>NumRenderTargets := NumRenderTargets d, RTVFormats := RTVFormats d\<rparr>
                    else if OverrideFlag = 9 then
                      gp\<lparr>gp_pRenderPass := gp_pRenderPass d, SubpassIndex := SubpassIndex d\<rparr>
                    else if OverrideFlag = 10 then gp\<lparr>ShadingRateFlags := ShadingRateFlags d\<rparr>
                    else if OverrideFlag = 11 then gp\<lparr>DSVFormat := DSVFormat d\<rparr>
                    else gp\<lparr>SmplDesc := SmplDesc d\<rparr>)\<rparr>))))"

definition ApplyTileOverride ::
  "TilePipelineDesc option \<Rightarrow> nat \<Rightarrow> TileCreateInfo \<Rightarrow> TileCreateInfo option" where
  "ApplyTileOverride pDesc OverrideFlag CI =
     (if OverrideFlag = 0 then Some (CI\<lparr>ci_Name := ''AZ TODO''\<rparr>)
      else if OverrideFlag = 1 \<or> OverrideFlag = 8 then
        (case pDesc of
           None \<Rightarrow> None
         | Some d \<Rightarrow>
             (let tp = ci_TilePipeline CI
              in Some (CI\<lparr>ci_TilePipeline :=
                   (if OverrideFlag = 1 then tp\<lparr>tp_SampleCount := tp_SampleCount d\<rparr>
                    else tp\<lparr>tp_NumRenderTargets := tp_NumRenderTargets d,
                            tp_RTVFormats := tp_RTVFormats d\<rparr>)\<rparr>)))
      else Some CI)"

fun ApplyOverrides :: "(nat \<Rightarrow> 'a \<Rightarrow> 'a option) \<Rightarrow> nat list \<Rightarrow> 'a \<Rightarrow> 'a option" where
  "ApplyOverrides f [] CI = Some CI"
| "ApplyOverrides f (OverrideFlag # rest) CI =
     (case f OverrideFlag CI of
        None \<Rightarrow> None
      | Some CI' \<Rightarrow> ApplyOverrides f rest CI')"

text \<open>
  \<^verbatim>\<open>UnpackGraphicsPSO\<close>. \<open>pPSO0\<close> is what the caller's pointer holds at the call.
\<close>

definition UnpackGraphicsPSO ::
  "ArchiveFormat \<Rightarrow> 'w RenderDevice \<Rightarrow> PipelineStateUnpackInfo \<Rightarrow> nat option \<Rightarrow>
   DeviceObjectArchiveBase \<Rightarrow> 'w \<Rightarrow> nat option \<times> DeviceObjectArchiveBase \<times> 'w" where
  "UnpackGraphicsPSO fmt dev DeArchiveInfo pPSO0 r w =
     (let HasOverrideFlags = (psu_OverrideFlags DeArchiveInfo \<noteq> 0);
          Cached = (if HasOverrideFlags then None
                    else GetCachedResource dev (psu_Name DeArchiveInfo) (m_GraphicsPSOMap' r) w);
          pPSO1 = (if HasOverrideFlags then pPSO0 else None)
      in (case Cached of
            Some pPSO \<Rightarrow> (Some pPSO, r, w)
          | None \<Rightarrow>
        (case ReadGraphicsPSOData fmt dev (psu_Name DeArchiveInfo) r of
           None \<Rightarrow> (pPSO1, r, w)
         | Some (pHeader, CI, PRSNames, RenderPassName) \<Rightarrow>
        (case CreateRenderPassOf fmt dev CI RenderPassName r w of
           (False, CI1, r1, w1) \<Rightarrow> (pPSO1, r1, w1)
         | (True, CI1, r1, w1) \<Rightarrow>
        (case CreateResourceSignatures fmt dev CI1 PRSNames r1 w1 of
           (False, CI2, r2, w2) \<Rightarrow> (pPSO1, r2, w2)
         | (True, CI2, r2, w2) \<Rightarrow>
        (let CI3 = CI2\<lparr>ci_SRBAllocationGranularity := psu_SRBAllocationGranularity DeArchiveInfo,
                       ci_ImmediateContextMask := psu_ImmediateContextMask DeArchiveInfo\<rparr>
         in
        (case LoadDeviceSpecificData pHeader r2 of
           None \<Rightarrow> (pPSO1, r2, w2)
         | Some pData \<Rightarrow>
        (case LoadShaders dev pData r2 w2 of
           (None, r3, w3) \<Rightarrow> (pPSO1, r3, w3)
         | (Some LoadedShaders, r3, w3) \<Rightarrow>
        (case AssignGraphicsShaders dev w3 LoadedShaders CI3 of
           None \<Rightarrow> (pPSO1, r3, w3)
         | Some CI4 \<Rightarrow>
        (case ApplyOverrides (ApplyGraphicsOverride (psu_pGraphicsPipelineDesc DeArchiveInfo))
                (OverrideBitsOf (psu_OverrideFlags DeArchiveInfo)) CI4 of
           None \<Rightarrow> (pPSO1, r3, w3)
         | Some CI5 \<Rightarrow>
        (case CreateGraphicsPipelineState dev CI5 w3 of
           (pPSO, w4) \<Rightarrow>
             if HasOverrideFlags then (pPSO, r3, w4)
             else (pPSO,
                   r3\<lparr>m_GraphicsPSOMap' :=
                        CacheResource dev (psu_Name DeArchiveInfo) (m_GraphicsPSOMap' r3) pPSO w4\<rparr>,
                   w4))))))))))))"

text \<open>\<^verbatim>\<open>UnpackTilePSO\<close>: a tile pipeline has exactly one shader, a tile shader.\<close>

definition UnpackTilePSO ::
  "ArchiveFormat \<Rightarrow> 'w RenderDevice \<Rightarrow> PipelineStateUnpackInfo \<Rightarrow> nat option \<Rightarrow>
   DeviceObjectArchiveBase \<Rightarrow> 'w \<Rightarrow> nat option \<times> DeviceObjectArchiveBase \<times> 'w" where
  "UnpackTilePSO fmt dev DeArchiveInfo pPSO0 r w =
     (let HasOverrideFlags = (psu_OverrideFlags DeArchiveInfo \<noteq> 0);
          Cached = (if HasOverrideFlags then None
                    else GetCachedResource dev (psu_Name DeArchiveInfo) (m_TilePSOMap' r) w);
          pPSO1 = (if HasOverrideFlags then pPSO0 else None)
      in (case Cached of
            Some pPSO \<Rightarrow> (Some pPSO, r, w)
          | None \<Rightarrow>
        (case ReadTilePSOData fmt dev (psu_Name DeArchiveInfo) r of
           None \<Rightarrow> (pPSO1, r, w)
         | Some (pHeader, CI, PRSNames) \<Rightarrow>
        (case CreateResourceSignatures fmt dev CI PRSNames r w of
           (False, CI2, r2, w2) \<Rightarrow> (pPSO1, r2, w2)
         | (True, CI2, r2, w2) \<Rightarrow>
        (let CI3 = CI2\<lparr>ci_SRBAllocationGranularity := psu_SRBAllocationGranularity DeArchiveInfo,
                       ci_ImmediateContextMask := psu_ImmediateContextMask DeArchiveInfo\<rparr>
         in
        (case LoadDeviceSpecificData pHeader r2 of
           None \<Rightarrow> (pPSO1, r2, w2)
         | Some pData \<Rightarrow>
        (case LoadShaders dev pData r2 w2 of
           (None, r3, w3) \<Rightarrow> (pPSO1, r3, w3)
         | (Some LoadedShaders, r3, w3) \<Rightarrow>
             if length LoadedShaders = 1 \<and> ShaderTypeOf dev w3 (hd LoadedShaders) = SHADER_TYPE_TILE
             then
        (case ApplyOverrides (ApplyTileOverride (psu_pTilePipelineDesc DeArchiveInfo))
                (OverrideBitsOf (psu_OverrideFlags DeArchiveInfo)) (CI3\<lparr>pTS := Some (hd LoadedShaders)\<rparr>) of
           None \<Rightarrow> (pPSO1, r3, w3)
         | Some CI5 \<Rightarrow>
        (case CreateTilePipelineState dev CI5 w3 of
           (pPSO, w4) \<Rightarrow>
             if HasOverrideFlags then (pPSO, r3, w4)
             else (pPSO,
                   r3\<lparr>m_TilePSOMap' :=
                        CacheResource dev (psu_Name DeArchiveInfo) (m_TilePSOMap' r3) pPSO w4\<rparr>,
                   w4)))
             else (pPSO1, r3, w3))))))))"

text \<open>
  What the maps of the reader would be with other weak references: every entry keeps its
  place in the source and gets the reference that \<open>c\<close> gives its name.
\<close>

definition WithCaches ::
  "(string \<Rightarrow> nat option) \<Rightarrow> (string \<times> ResourceEntry) list \<Rightarrow> (string \<times> ResourceEntry) list" where
  "WithCaches c CacheMap = map (\<lambda>(Name, e). (Name, e\<lparr>Cache := c Name\<rparr>)) CacheMap"

subsection \<open>Concrete inputs\<close>

text \<open>
  A signature object at address 1 named \<^verbatim>\<open>A\<close>, another object of the same name at
  address 2, and an object named \<^verbatim>\<open>B\<close>; an archiver that holds the first.
\<close>

definition sigA :: SerializableResourceSignatureImpl where
  "sigA = \<lparr>prs_addr = 1, prs_Name = ''A'', prs_BindingIndex = 0,
           prs_SharedSerializedMemory = Some [1, 2], prs_SerializedMemory = (\<lambda>_. None)\<rparr>"

definition sigA2 :: SerializableResourceSignatureImpl where
  "sigA2 = \<lparr>prs_addr = 2, prs_Name = ''A'', prs_BindingIndex = 0,
            prs_SharedSerializedMemory = Some [1, 2], prs_SerializedMemory = (\<lambda>_. None)\<rparr>"

definition sigB :: SerializableResourceSignatureImpl where
  "sigB = \<lparr>prs_addr = 3, prs_Name = ''B'', prs_BindingIndex = 1,
           prs_SharedSerializedMemory = Some [3], prs_SerializedMemory = (\<lambda>_. None)\<rparr>"

definition addr_eq :: "SerializableResourceSignatureImpl \<Rightarrow> SerializableResourceSignatureImpl \<Rightarrow> bool" where
  "addr_eq a b = (prs_addr a = prs_addr b)"

definition ArchiverWithA :: ArchiverImpl where
  "ArchiverWithA = EmptyArchiver\<lparr>m_PRSMap := [(''A'', \<lparr>pPRS = sigA\<rparr>)], m_PRSCache := [sigA]\<rparr>"

text \<open>
  A compute pipeline \<^verbatim>\<open>P\<close> without signatures and a graphics pipeline \<^verbatim>\<open>P\<close> without render
  pass, requested for OpenGL and Vulkan (flag bits 3 and 5).
\<close>

definition FailingPatcher :: "'ci Patcher" where
  "FailingPatcher CI Data DefPRS w = (False, CI, Data, DefPRS, w)"

definition PipelineP :: PipelineStateCreateInfo where
  "PipelineP = \<lparr>PSODesc_Name = Some ''P'', PSODesc_ResourceLayout = 0, ResourceSignaturesCount = 0,
                ppResourceSignatures = None\<rparr>"

definition GraphicsPipelineP :: GraphicsPipelineStateCreateInfo where
  "GraphicsPipelineP = \<lparr>PSODesc_Name = Some ''P'', PSODesc_ResourceLayout = 0, ResourceSignaturesCount = 0,
                        ppResourceSignatures = None, pRenderPass = None\<rparr>"

definition ForOpenGLAndVulkan :: PipelineStateArchiveInfo where
  "ForOpenGLAndVulkan = \<lparr>DeviceFlags = 40\<rparr>"

text \<open>The vertex shader source \<^verbatim>\<open>void main(){}\<close> with entry point \<^verbatim>\<open>main\<close>, without macros.\<close>

definition VoidMainShader :: "unit ShaderCreateInfo" where
  "VoidMainShader =
     \<lparr>Desc_ShaderType = 1, EntryPoint = Some ''main'', SourceLanguage = 0, ShaderCompiler = 0,
      UseCombinedTextureSamplers = False, CombinedSamplerSuffix = Some ''_sampler'',
      Source = map byte_of_char ''void main(){}'', Macros = None\<rparr>"

definition NoMacros :: "byte list \<Rightarrow> unit \<Rightarrow> byte list" where
  "NoMacros src ms = src"

text \<open>
  A serialization device with the OpenGL and the Vulkan back-end: the OpenGL patcher is the
  one of \<^verbatim>\<open>Archiver_GL.cpp\<close>, on pipelines whose one stage is the shader above, and the
  Vulkan patcher fails. A writer that holds a pipeline \<^verbatim>\<open>Q\<close> of every kind.
\<close>

definition FailingVkDevice :: "'ci SerializationDevice" where
  "FailingVkDevice =
     \<lparr>ValidDeviceFlags = 40, ValidatePSOCreateInfo = (\<lambda>_. True),
      PatchShadersD3D11 = None, PatchShadersD3D12 = None,
      PatchShadersGL = Some (PatchShadersGL_impl NoMacros (\<lambda>_. [VoidMainShader])),
      PatchShadersVk = Some FailingPatcher, PatchShadersMtl = None,
      SerializerPSOImpl = (\<lambda>_ _. []), PRSEqual = addr_eq\<rparr>"

definition PipelineDataQ :: TPSOData where
  "PipelineDataQ = \<lparr>SharedData = Some [1], PerDeviceData = (\<lambda>_. None)\<rparr>"

definition ArchiverWithQ :: ArchiverImpl where
  "ArchiverWithQ =
     EmptyArchiver\<lparr>m_GraphicsPSOMap := [(''Q'', PipelineDataQ)], m_ComputePSOMap := [(''Q'', PipelineDataQ)],
                   m_TilePSOMap := [(''Q'', PipelineDataQ)], m_RayTracingPSOMap := [(''Q'', PipelineDataQ)]\<rparr>"

text \<open>
  What the OpenGL patcher leaves when it has run on that writer for \<^verbatim>\<open>P\<close>: the index array
  with index 0 in the pipeline's OpenGL data, and the shader in the OpenGL shader list.
\<close>

definition DataAfterGL :: TPSOData where
  "DataAfterGL =
     TPSOData_empty\<lparr>PerDeviceData := (PerDeviceData TPSOData_empty)(OpenGL := SerializeShadersForPSO [0])\<rparr>"

definition WriterAfterGL :: ArchiverImpl where
  "WriterAfterGL =
     ArchiverWithQ\<lparr>m_Shaders := (m_Shaders ArchiverWithQ)
       (OpenGL := \<lparr>Shaders_Map = [(SourceKey NoMacros VoidMainShader, 0)],
                   Shaders_List = [SourceKey NoMacros VoidMainShader]\<rparr>)\<rparr>"

text \<open>
  A resource-signature description as a schema: the resources (shader stages, name, array
  size, resource type), the immutable samplers (shader stages, name) and the binding index;
  and the description of the seed scenario.
\<close>

definition ResourceSchema :: schema where
  "ResourceSchema = SSeq [SInt 4, SStr, SInt 4, SInt 1]"

definition SamplerSchema :: schema where
  "SamplerSchema = SSeq [SInt 4, SStr]"

definition PRSDescSchema :: schema where
  "PRSDescSchema = SSeq [SArr ResourceSchema, SArr SamplerSchema, SInt 1]"

definition SeedPRSDesc :: val where
  "SeedPRSDesc =
     VSeq [VArr [VSeq [VInt 4 1, VStr (Some ''R1''), VInt 4 1, VInt 1 3],
                 VSeq [VInt 4 2, VStr (Some ''R2''), VInt 4 3, VInt 1 8]],
           VArr [VSeq [VInt 4 3, VStr (Some ''S1'')]],
           VInt 1 2]"

text \<open>
  A writer with two signatures, a pipeline and a macOS shader. Signature \<open>R\<close> has iOS bytes
  4, 4 and no macOS bytes; signature \<open>S\<close> has iOS bytes 7, 8, 9 and macOS bytes 1.
\<close>

definition sigR :: SerializableResourceSignatureImpl where
  "sigR = \<lparr>prs_addr = 3, prs_Name = ''R'', prs_BindingIndex = 0,
           prs_SharedSerializedMemory = Some [2],
           prs_SerializedMemory = (\<lambda>t. if t = Metal_iOS then Some (Some [4, 4]) else None)\<rparr>"

definition sigS :: SerializableResourceSignatureImpl where
  "sigS = \<lparr>prs_addr = 4, prs_Name = ''S'', prs_BindingIndex = 0,
           prs_SharedSerializedMemory = Some [5],
           prs_SerializedMemory =
             (\<lambda>t. if t = Metal_iOS then Some (Some [7, 8, 9])
                  else if t = Metal_MacOS then Some (Some [1]) else None)\<rparr>"

definition PipelineDataM :: TPSOData where
  "PipelineDataM =
     \<lparr>SharedData = Some [3], PerDeviceData = (\<lambda>t. if t = Metal_MacOS then Some [6] else None)\<rparr>"

definition ArchiverWithRS :: ArchiverImpl where
  "ArchiverWithRS =
     \<lparr>m_PRSMap = [(''R'', \<lparr>pPRS = sigR\<rparr>), (''S'', \<lparr>pPRS = sigS\<rparr>)], m_PRSCache = [sigR, sigS],
      m_RPMap = [], m_GraphicsPSOMap = [(''M'', PipelineDataM)], m_ComputePSOMap = [],
      m_TilePSOMap = [], m_RayTracingPSOMap = [],
      m_Shaders = (\<lambda>t. if t = Metal_MacOS then \<lparr>Shaders_Map = [([9, 9], 0)], Shaders_List = [[9, 9]]\<rparr>
                        else \<lparr>Shaders_Map = [], Shaders_List = []\<rparr>)\<rparr>"

text \<open>
  A format for the examples: magic \<^verbatim>\<open>CRAT\<close>, version 1, the chunk kinds numbered in the
  order in which the constructor's \<^verbatim>\<open>switch\<close> lists them, the reserved kind first.
\<close>

definition ChunkTypeInSwitchOrder :: "Uint32 \<Rightarrow> ChunkType option" where
  "ChunkTypeInSwitchOrder t =
     (if t = 0 then Some ChunkUndefined
      else if t = 1 then Some ArchiveDebugInfo
      else if t = 2 then Some ResourceSignature
      else if t = 3 then Some GraphicsPipelineStates
      else if t = 4 then Some ComputePipelineStates
      else if t = 5 then Some RayTracingPipelineStates
      else if t = 6 then Some TilePipelineStates
      else if t = 7 then Some RenderPass
      else if t = 8 then Some Shaders
      else None)"

definition ExampleFormat :: ArchiveFormat where
  "ExampleFormat =
     \<lparr>HeaderMagicNumber = 0x54415243, HeaderVersion = 1, ChunkTypeOf = ChunkTypeInSwitchOrder\<rparr>"


text \<open>
  A header with the right magic and version and one chunk, the six base offsets absent;
  then a chunk header of kind 2 (resource signatures), size 100 at offset 48, which is past
  the end of the 48 bytes.
\<close>

definition HeaderOneChunk :: "byte list" where
  "HeaderOneChunk =
     [0x43, 0x52, 0x41, 0x54,  1, 0, 0, 0,  1, 0, 0, 0,
      0xFF, 0xFF, 0xFF, 0xFF,  0xFF, 0xFF, 0xFF, 0xFF,  0xFF, 0xFF, 0xFF, 0xFF,
      0xFF, 0xFF, 0xFF, 0xFF,  0xFF, 0xFF, 0xFF, 0xFF,  0xFF, 0xFF, 0xFF, 0xFF]"


text \<open>
  The same header; a resource-signature chunk of 18 bytes at offset 48 with one entry: name
  length 2, data size 1, data offset \<^verbatim>\<open>0xFFFFFFFF\<close>, name \<^verbatim>\<open>A\<close>. The archive has 66 bytes.
\<close>

definition OverflowArchive :: "byte list" where
  "OverflowArchive =
     HeaderOneChunk @ [2, 0, 0, 0,  18, 0, 0, 0,  48, 0, 0, 0] @
     [1, 0, 0, 0,  2, 0, 0, 0,  1, 0, 0, 0,  0xFF, 0xFF, 0xFF, 0xFF,  0x41, 0]"

text \<open>The same chunk with the name \<^verbatim>\<open>AB\<close> and no terminating zero: the chunk ends the archive.\<close>

definition UnterminatedArchive :: "byte list" where
  "UnterminatedArchive =
     HeaderOneChunk @ [2, 0, 0, 0,  18, 0, 0, 0,  48, 0, 0, 0] @
     [1, 0, 0, 0,  2, 0, 0, 0,  1, 0, 0, 0,  0, 0, 0, 0,  0x41, 0x42]"







text \<open>
  An example for unpacking. The state of the device is the number of objects made so far;
  the objects are numbered from 1 and all alive. Object 1 is a tile shader, every other
  shader a vertex shader. The descriptions read from an archive have no resource signature
  and no render pass; a render pass has one attachment. The shader indices of a pipeline are
  the bytes of its device-specific data.
\<close>

definition ExampleGraphicsCI :: GraphicsCreateInfo where
  "ExampleGraphicsCI =
     \<lparr>ci_Name = [], ci_SRBAllocationGranularity = 1, ci_ImmediateContextMask = 1, ci_Flags = 0,
      ci_ResourceSignaturesCount = 0, ci_ppResourceSignatures = [],
      ci_GraphicsPipeline =
        \<lparr>BlendDesc = 0, SampleMask = 0, RasterizerDesc = 0, DepthStencilDesc = 0, InputLayout = 0,
         PrimitiveTopology = 0, NumViewports = 1, NumRenderTargets = 0, SubpassIndex = 0,
         ShadingRateFlags = 0, RTVFormats = [], DSVFormat = 0, SmplDesc = 0, gp_pRenderPass = None\<rparr>,
      pVS = None, pPS = None, pDS = None, pHS = None, pGS = None, pAS = None, pMS = None\<rparr>"

definition ExampleTileCI :: TileCreateInfo where
  "ExampleTileCI =
     \<lparr>ci_Name = [], ci_SRBAllocationGranularity = 1, ci_ImmediateContextMask = 1, ci_Flags = 0,
      ci_ResourceSignaturesCount = 0, ci_ppResourceSignatures = [],
      ci_TilePipeline = \<lparr>tp_SampleCount = 1, tp_NumRenderTargets = 0, tp_RTVFormats = []\<rparr>,
      pTS = None\<rparr>"

definition ExampleRenderPassDesc :: RenderPassDesc where
  "ExampleRenderPassDesc =
     \<lparr>rpd_Name = [],
      rpd_Attachments =
        [\<lparr>att_Format = 0, att_SampleCount = 1, att_LoadOp = 0, att_StoreOp = 0, att_StencilLoadOp = 0,
          att_StencilStoreOp = 0, att_InitialState = 0, att_FinalState = 0\<rparr>],
      rpd_Rest = 0\<rparr>"

definition ExampleDevice :: "nat RenderDevice" where
  "ExampleDevice =
     \<lparr>IsAlive = (\<lambda>w p. 0 < p \<and> p \<le> w),
      ShaderTypeOf = (\<lambda>w p. if p = 1 then SHADER_TYPE_TILE else SHADER_TYPE_VERTEX),
      DeserializeGraphicsPSO = (\<lambda>bs. (ExampleGraphicsCI, [], [])),
      DeserializeTilePSO = (\<lambda>bs. (ExampleTileCI, [])),
      DeserializeRenderPass = (\<lambda>bs. ExampleRenderPassDesc),
      DeserializeSignature = (\<lambda>bs. \<lparr>sd_Name = [], sd_SRBAllocationGranularity = 1, sd_Rest = 0\<rparr>),
      DeserializeShaderIndices = map unat,
      CreateGraphicsPipelineState = (\<lambda>CI w. (Some (Suc w), Suc w)),
      CreateTilePipelineState = (\<lambda>CI w. (Some (Suc w), Suc w)),
      CreateRenderPass = (\<lambda>Desc w. (Some (Suc w), Suc w)),
      CreateSignature = (\<lambda>Desc bs w. (Some (Suc w), Suc w)),
      CreateShader = (\<lambda>bs w. (Some (Suc w), Suc w))\<rparr>"

text \<open>
  The data headers of a graphics pipeline (kind 3), a tile pipeline (kind 6) and a render pass
  (kind 7): for OpenGL the pipelines have one byte of device-specific data each, at offsets
  0 and 1 of the block. The reader holds the three headers and the block of two bytes behind
  them; the pipeline \<^verbatim>\<open>P\<close>, the tile pipeline \<^verbatim>\<open>T\<close> and the render pass \<^verbatim>\<open>R\<close> are cached as
  the objects 3, 4 and 5, the two shaders as the objects 1 and 2.
\<close>

definition GraphicsHeaderBytes :: "byte list" where
  "GraphicsHeaderBytes =
     [3, 0, 0, 0,
      1, 0, 0, 0,  0, 0, 0, 0,  0, 0, 0, 0,  0, 0, 0, 0,  0, 0, 0, 0,  0, 0, 0, 0,
      0, 0, 0, 0,  0, 0, 0, 0,  0, 0, 0, 0,  0, 0, 0, 0,  0, 0, 0, 0,  0, 0, 0, 0]"

definition TileHeaderBytes :: "byte list" where
  "TileHeaderBytes =
     [6, 0, 0, 0,
      1, 0, 0, 0,  0, 0, 0, 0,  0, 0, 0, 0,  0, 0, 0, 0,  0, 0, 0, 0,  0, 0, 0, 0,
      1, 0, 0, 0,  0, 0, 0, 0,  0, 0, 0, 0,  0, 0, 0, 0,  0, 0, 0, 0,  0, 0, 0, 0]"

definition RenderPassHeaderBytes :: "byte list" where
  "RenderPassHeaderBytes =
     [7, 0, 0, 0,
      0, 0, 0, 0,  0, 0, 0, 0,  0, 0, 0, 0,  0, 0, 0, 0,  0, 0, 0, 0,  0, 0, 0, 0,
      0, 0, 0, 0,  0, 0, 0, 0,  0, 0, 0, 0,  0, 0, 0, 0,  0, 0, 0, 0,  0, 0, 0, 0]"

definition CachedReader :: DeviceObjectArchiveBase where
  "CachedReader =
     \<lparr>m_pArchive = GraphicsHeaderBytes @ TileHeaderBytes @ RenderPassHeaderBytes @ [1, 0],
      m_DevType = OpenGL,
      m_BaseOffsets = (\<lambda>d. 156),
      m_DebugInfo = \<lparr>APIVersion = 0, GitHash = []\<rparr>,
      m_PRSMap' = [],
      m_RenderPassMap = [(''R'', \<lparr>Res_Offset = 104, Res_Size = 52, Cache = Some 5\<rparr>)],
      m_GraphicsPSOMap' = [(''P'', \<lparr>Res_Offset = 0, Res_Size = 52, Cache = Some 3\<rparr>)],
      m_ComputePSOMap' = [],
      m_TilePSOMap' = [(''T'', \<lparr>Res_Offset = 52, Res_Size = 52, Cache = Some 4\<rparr>)],
      m_RayTracingPSOMap' = [],
      m_Shaders' = [\<lparr>Shader_Offset = 0, Shader_Size = 0, Shader_Cache = Some 1\<rparr>,
                    \<lparr>Shader_Offset = 0, Shader_Size = 0, Shader_Cache = Some 2\<rparr>]\<rparr>"

text \<open>
  Three requests with overrides: the blend state of \<^verbatim>\<open>P\<close> (flag bit 2), the sample count of
  \<^verbatim>\<open>T\<close> (flag bit 1), the format of attachment 0 of \<^verbatim>\<open>R\<close> (flag bit 0).
\<close>

definition BlendOverride :: PipelineStateUnpackInfo where
  "BlendOverride =
     \<lparr>psu_Name = ''P'', psu_OverrideFlags = 4,
      psu_pGraphicsPipelineDesc =
        Some \<lparr>BlendDesc = 9, SampleMask = 0, RasterizerDesc = 0, DepthStencilDesc = 0, InputLayout = 0,
              PrimitiveTopology = 0, NumViewports = 1, NumRenderTargets = 0, SubpassIndex = 0,
              ShadingRateFlags = 0, RTVFormats = [], DSVFormat = 0, SmplDesc = 0, gp_pRenderPass = None\<rparr>,
      psu_pTilePipelineDesc = None,
      psu_SRBAllocationGranularity = 1, psu_ImmediateContextMask = 1\<rparr>"

definition SampleCountOverride :: PipelineStateUnpackInfo where
  "SampleCountOverride =
     \<lparr>psu_Name = ''T'', psu_OverrideFlags = 2,
      psu_pGraphicsPipelineDesc = None,
      psu_pTilePipelineDesc = Some \<lparr>tp_SampleCount = 4, tp_NumRenderTargets = 0, tp_RTVFormats = []\<rparr>,
      psu_SRBAllocationGranularity = 1, psu_ImmediateContextMask = 1\<rparr>"

definition FormatOverride :: RenderPassUnpackInfo where
  "FormatOverride =
     \<lparr>rpu_Name = ''R'', rpu_AttachmentCount = 1,
      rpu_pAttachments =
        [\<lparr>ovr_AttachmentIndex = 0, ovr_OverrideFlags = 1,
          ovr_AttachmentDesc =
            \<lparr>att_Format = 7, att_SampleCount = 1, att_LoadOp = 0, att_StoreOp = 0, att_StencilLoadOp = 0,
             att_StencilStoreOp = 0, att_InitialState = 0, att_FinalState = 0\<rparr>\<rparr>]\<rparr>"

section \<open>Properties\<close>

subsection \<open>Registry of resource signatures\<close>

lemma emplace_present: "map_of m k = Some v' \<Longrightarrow> emplace k v m = (m, False)"
  by (simp add: emplace_def)

lemma emplace_absent: "map_of m k = None \<Longrightarrow> emplace k v m = (m @ [(k, v)], True)"
  by (simp add: emplace_def)

lemma map_of_emplace_absent:
  "map_of m k = None \<Longrightarrow> map_of (fst (emplace k v m)) = (map_of m)(k \<mapsto> v)"
  by (auto simp: emplace_absent map_add_def fun_eq_iff split: option.splits)

text \<open>
  C2. For a non-null signature: a same-name entry holding the identical object makes the
  call a successful no-op; a same-name entry holding another object makes it fail and
  leaves the writer as it was; with no same-name entry the signature is inserted under
  its name and the call succeeds.
\<close>

theorem AddPipelineResourceSignature_registry:
  "(map_of (m_PRSMap w) (prs_Name p) = Some d \<and> prs_addr (pPRS d) = prs_addr p \<longrightarrow>
      AddPipelineResourceSignature eq (Some p) w = (True, w)) \<and>
   (map_of (m_PRSMap w) (prs_Name p) = Some d \<and> prs_addr (pPRS d) \<noteq> prs_addr p \<longrightarrow>
      AddPipelineResourceSignature eq (Some p) w = (False, w)) \<and>
   (map_of (m_PRSMap w) (prs_Name p) = None \<longrightarrow>
      fst (AddPipelineResourceSignature eq (Some p) w) \<and>
      map_of (m_PRSMap (snd (AddPipelineResourceSignature eq (Some p) w)))
        = (map_of (m_PRSMap w))(prs_Name p \<mapsto> \<lparr>pPRS = p\<rparr>) \<and>
      m_PRSMap (snd (AddPipelineResourceSignature eq (Some p) w)) = m_PRSMap w @ [(prs_Name p, \<lparr>pPRS = p\<rparr>)])"
proof (intro conjI impI)
  assume "map_of (m_PRSMap w) (prs_Name p) = Some d \<and> prs_addr (pPRS d) = prs_addr p"
  then show "AddPipelineResourceSignature eq (Some p) w = (True, w)"
    by (simp add: AddPipelineResourceSignature_def emplace_present)
next
  assume "map_of (m_PRSMap w) (prs_Name p) = Some d \<and> prs_addr (pPRS d) \<noteq> prs_addr p"
  then show "AddPipelineResourceSignature eq (Some p) w = (False, w)"
    by (simp add: AddPipelineResourceSignature_def emplace_present)
next
  assume a: "map_of (m_PRSMap w) (prs_Name p) = None"
  then show "fst (AddPipelineResourceSignature eq (Some p) w)"
    by (simp add: AddPipelineResourceSignature_def emplace_absent)
  from a show "m_PRSMap (snd (AddPipelineResourceSignature eq (Some p) w))
      = m_PRSMap w @ [(prs_Name p, \<lparr>pPRS = p\<rparr>)]"
    by (simp add: AddPipelineResourceSignature_def emplace_absent)
  from a show "map_of (m_PRSMap (snd (AddPipelineResourceSignature eq (Some p) w)))
      = (map_of (m_PRSMap w))(prs_Name p \<mapsto> \<lparr>pPRS = p\<rparr>)"
    using map_of_emplace_absent [OF a, of "\<lparr>pPRS = p\<rparr>"]
    by (simp add: AddPipelineResourceSignature_def emplace_absent)
qed

text \<open>
  The three cases on the archiver that holds the object \<^verbatim>\<open>A\<close> at address 1: the same object
  again, another object of that name, and an object of a new name.
\<close>

theorem AddPipelineResourceSignature_registry_witness:
  "map_of (m_PRSMap ArchiverWithA) (prs_Name sigA) = Some \<lparr>pPRS = sigA\<rparr> \<and>
   prs_addr (pPRS \<lparr>pPRS = sigA\<rparr>) = prs_addr sigA \<and>
   AddPipelineResourceSignature addr_eq (Some sigA) ArchiverWithA = (True, ArchiverWithA) \<and>
   map_of (m_PRSMap ArchiverWithA) (prs_Name sigA2) = Some \<lparr>pPRS = sigA\<rparr> \<and>
   prs_addr (pPRS \<lparr>pPRS = sigA\<rparr>) \<noteq> prs_addr sigA2 \<and>
   AddPipelineResourceSignature addr_eq (Some sigA2) ArchiverWithA = (False, ArchiverWithA) \<and>
   map_of (m_PRSMap ArchiverWithA) (prs_Name sigB) = None \<and>
   fst (AddPipelineResourceSignature addr_eq (Some sigB) ArchiverWithA) \<and>
   m_PRSMap (snd (AddPipelineResourceSignature addr_eq (Some sigB) ArchiverWithA))
     = [(''A'', \<lparr>pPRS = sigA\<rparr>), (''B'', \<lparr>pPRS = sigB\<rparr>)]"
proof -
  have h1: "map_of (m_PRSMap ArchiverWithA) (prs_Name sigA) = Some \<lparr>pPRS = sigA\<rparr>"
    by (simp add: ArchiverWithA_def sigA_def)
  have h2: "map_of (m_PRSMap ArchiverWithA) (prs_Name sigA2) = Some \<lparr>pPRS = sigA\<rparr>"
    by (simp add: ArchiverWithA_def sigA_def sigA2_def)
  have h3: "map_of (m_PRSMap ArchiverWithA) (prs_Name sigB) = None"
    by (simp add: ArchiverWithA_def sigB_def)
  have a1: "prs_addr (pPRS \<lparr>pPRS = sigA\<rparr>) = prs_addr sigA" by simp
  have a2: "prs_addr (pPRS \<lparr>pPRS = sigA\<rparr>) \<noteq> prs_addr sigA2" by (simp add: sigA_def sigA2_def)
  have m: "m_PRSMap ArchiverWithA = [(''A'', \<lparr>pPRS = sigA\<rparr>)]" by (simp add: ArchiverWithA_def)
  have B: "prs_Name sigB = ''B''" by (simp add: sigB_def)
  show ?thesis
    using AddPipelineResourceSignature_registry [of ArchiverWithA sigA "\<lparr>pPRS = sigA\<rparr>" addr_eq]
          AddPipelineResourceSignature_registry [of ArchiverWithA sigA2 "\<lparr>pPRS = sigA\<rparr>" addr_eq]
          AddPipelineResourceSignature_registry [of ArchiverWithA sigB "\<lparr>pPRS = sigA\<rparr>" addr_eq]
          h1 h2 h3 a1 a2
    by (simp add: m B)
qed

subsection \<open>Shader deduplication\<close>

lemma EmplaceShaderKey_present:
  "map_of (Shaders_Map S) k = Some i \<Longrightarrow> EmplaceShaderKey k S = (i, S)"
  by (simp add: EmplaceShaderKey_def emplace_def)

lemma EmplaceShaderKey_absent:
  "map_of (Shaders_Map S) k = None \<Longrightarrow>
   EmplaceShaderKey k S =
     (length (Shaders_List S),
      S\<lparr>Shaders_Map := Shaders_Map S @ [(k, length (Shaders_List S))],
        Shaders_List := Shaders_List S @ [k]\<rparr>)"
  by (simp add: EmplaceShaderKey_def emplace_def)

lemma consistent_map_iff:
  assumes "ShadersConsistent S"
  shows "(map_of (Shaders_Map S) k = None) = (k \<notin> set (Shaders_List S))"
proof
  assume n: "map_of (Shaders_Map S) k = None"
  show "k \<notin> set (Shaders_List S)"
  proof
    assume "k \<in> set (Shaders_List S)"
    then obtain i where "i < length (Shaders_List S)" "Shaders_List S ! i = k"
      by (auto simp: in_set_conv_nth)
    with assms have "map_of (Shaders_Map S) k = Some i"
      by (auto simp: ShadersConsistent_def list_all_iff)
    with n show False by simp
  qed
next
  assume n: "k \<notin> set (Shaders_List S)"
  show "map_of (Shaders_Map S) k = None"
  proof (rule ccontr)
    assume "map_of (Shaders_Map S) k \<noteq> None"
    then obtain i where "map_of (Shaders_Map S) k = Some i" by auto
    then have "(k, i) \<in> set (Shaders_Map S)" by (rule map_of_SomeD)
    with assms have "i < length (Shaders_List S) \<and> Shaders_List S ! i = k"
      by (auto simp: ShadersConsistent_def list_all_iff)
    with n show False by auto
  qed
qed

lemma consistent_lookup:
  assumes "ShadersConsistent S" "map_of (Shaders_Map S) k = Some i"
  shows "i < length (Shaders_List S) \<and> Shaders_List S ! i = k"
proof -
  from assms(2) have "(k, i) \<in> set (Shaders_Map S)" by (rule map_of_SomeD)
  with assms(1) show ?thesis by (auto simp: ShadersConsistent_def list_all_iff)
qed

lemma EmptyArchiver_consistent: "ShadersConsistent (m_Shaders EmptyArchiver d)"
  by (simp add: EmptyArchiver_def ShadersConsistent_def)

lemma EmplaceShaderKey_consistent:
  assumes c: "ShadersConsistent S"
  shows "ShadersConsistent (snd (EmplaceShaderKey k S))"
proof (cases "map_of (Shaders_Map S) k")
  case (Some i)
  with c show ?thesis by (simp add: EmplaceShaderKey_present)
next
  case None
  with c have nin: "k \<notin> set (Shaders_List S)" by (simp add: consistent_map_iff)
  from c have d: "distinct (Shaders_List S)"
    and a: "\<And>i. i < length (Shaders_List S) \<Longrightarrow> map_of (Shaders_Map S) (Shaders_List S ! i) = Some i"
    and b: "\<And>k' i. (k', i) \<in> set (Shaders_Map S) \<Longrightarrow> i < length (Shaders_List S) \<and> Shaders_List S ! i = k'"
    by (auto simp: ShadersConsistent_def list_all_iff)
  show ?thesis
    unfolding EmplaceShaderKey_absent [OF None] ShadersConsistent_def
    using d nin a b None
    by (auto simp: list_all_iff nth_append map_add_def split: option.splits)
qed

lemma EmplaceShaderKey_index:
  assumes c: "ShadersConsistent S"
  shows "fst (EmplaceShaderKey k S) < length (Shaders_List (snd (EmplaceShaderKey k S))) \<and>
         Shaders_List (snd (EmplaceShaderKey k S)) ! fst (EmplaceShaderKey k S) = k \<and>
         map_of (Shaders_Map (snd (EmplaceShaderKey k S))) k = Some (fst (EmplaceShaderKey k S))"
proof (cases "map_of (Shaders_Map S) k")
  case (Some i)
  with c show ?thesis by (simp add: EmplaceShaderKey_present consistent_lookup)
next
  case None
  then show ?thesis by (simp add: EmplaceShaderKey_absent map_add_def)
qed

lemma EmplaceShaderKey_list:
  assumes c: "ShadersConsistent S"
  shows "Shaders_List (snd (EmplaceShaderKey k S)) =
         (if k \<in> set (Shaders_List S) then Shaders_List S else Shaders_List S @ [k])"
proof (cases "map_of (Shaders_Map S) k")
  case (Some i)
  with c have "k \<in> set (Shaders_List S)" using consistent_map_iff [OF c, of k] by simp
  with Some show ?thesis by (simp add: EmplaceShaderKey_present)
next
  case None
  with c have "k \<notin> set (Shaders_List S)" by (simp add: consistent_map_iff)
  with None show ?thesis by (simp add: EmplaceShaderKey_absent)
qed

lemma EmplaceShaderKey_keeps:
  assumes c: "ShadersConsistent S" and m: "map_of (Shaders_Map S) k' = Some i"
  shows "map_of (Shaders_Map (snd (EmplaceShaderKey k S))) k' = Some i"
proof (cases "map_of (Shaders_Map S) k")
  case (Some j)
  then show ?thesis using m by (simp add: EmplaceShaderKey_present)
next
  case None
  then show ?thesis using m by (auto simp: EmplaceShaderKey_absent map_add_def)
qed

lemma serialize_shader_eq:
  "serialize_shader app I d p w =
     (I @ [fst (EmplaceShaderKey (content_key app p) (m_Shaders w d))],
      w\<lparr>m_Shaders := (m_Shaders w)(d := snd (EmplaceShaderKey (content_key app p) (m_Shaders w d)))\<rparr>)"
  by (cases p)
     (simp_all add: serialize_shader_def content_key_def SerializeShaderBytecode_def
        SerializeShaderSource_def Let_def)

lemma serialize_shaders_keeps:
  "ShadersConsistent (m_Shaders w d) \<Longrightarrow> map_of (Shaders_Map (m_Shaders w d)) k = Some i \<Longrightarrow>
   ShadersConsistent (m_Shaders (serialize_shaders app cs w) d) \<and>
   map_of (Shaders_Map (m_Shaders (serialize_shaders app cs w) d)) k = Some i"
proof (induction cs arbitrary: w)
  case Nil
  then show ?case by simp
next
  case (Cons c cs)
  obtain d' p where c: "c = (d', p)" by (cases c)
  let ?w = "snd (serialize_shader app [] d' p w)"
  have "ShadersConsistent (m_Shaders ?w d) \<and> map_of (Shaders_Map (m_Shaders ?w d)) k = Some i"
    using Cons.prems
    by (auto simp: serialize_shader_eq EmplaceShaderKey_consistent EmplaceShaderKey_keeps)
  then show ?case using Cons.IH [of ?w] by (simp add: c)
qed

lemma distinct_count_one: "distinct xs \<Longrightarrow> x \<in> set xs \<Longrightarrow> count_list xs x = 1"
  by (induction xs) auto

text \<open>
  C3. On a back-end whose map and list agree (as they do from the empty archiver on), take
  two shader calls with the same content key, any shader calls between them. Both return
  the same index; the second adds nothing to the list; the list holds the key exactly
  once, at the returned index; and the first call appends the key when the list did not
  hold it and leaves the list as it was otherwise. So two calls from a list without the
  key add exactly one entry.
\<close>

theorem serialize_shader_dedup:
  assumes c: "ShadersConsistent (m_Shaders w d)"
    and k: "content_key app p1 = content_key app p2"
  shows "let r1 = serialize_shader app I1 d p1 w;
             w2 = serialize_shaders app mid (snd r1);
             r2 = serialize_shader app I2 d p2 w2;
             L = Shaders_List (m_Shaders (snd r2) d)
         in last (fst r1) = last (fst r2) \<and>
            L = Shaders_List (m_Shaders w2 d) \<and>
            count_list L (content_key app p1) = 1 \<and>
            last (fst r2) < length L \<and> L ! last (fst r2) = content_key app p2 \<and>
            last (fst r1) < length (Shaders_List (m_Shaders (snd r1) d)) \<and>
            Shaders_List (m_Shaders (snd r1) d) ! last (fst r1) = content_key app p1 \<and>
            Shaders_List (m_Shaders (snd r1) d) =
              (if content_key app p1 \<in> set (Shaders_List (m_Shaders w d))
               then Shaders_List (m_Shaders w d)
               else Shaders_List (m_Shaders w d) @ [content_key app p1])"
proof -
  let ?k = "content_key app p1"
  let ?S1 = "snd (EmplaceShaderKey ?k (m_Shaders w d))"
  let ?i = "fst (EmplaceShaderKey ?k (m_Shaders w d))"
  let ?w1 = "snd (serialize_shader app I1 d p1 w)"
  let ?w2 = "serialize_shaders app mid ?w1"
  have w1: "m_Shaders ?w1 d = ?S1" by (simp add: serialize_shader_eq)
  have c1: "ShadersConsistent (m_Shaders ?w1 d)" using c by (simp add: w1 EmplaceShaderKey_consistent)
  have i1: "?i < length (Shaders_List ?S1) \<and> Shaders_List ?S1 ! ?i = ?k \<and>
            map_of (Shaders_Map ?S1) ?k = Some ?i"
    using EmplaceShaderKey_index [OF c] by simp
  have m1: "map_of (Shaders_Map (m_Shaders ?w1 d)) ?k = Some ?i" using i1 by (simp add: w1)
  have c2: "ShadersConsistent (m_Shaders ?w2 d)"
    and m2: "map_of (Shaders_Map (m_Shaders ?w2 d)) ?k = Some ?i"
    using serialize_shaders_keeps [OF c1 m1] by auto
  have e2: "EmplaceShaderKey (content_key app p2) (m_Shaders ?w2 d) = (?i, m_Shaders ?w2 d)"
    using m2 k by (simp add: EmplaceShaderKey_present)
  have l2: "?i < length (Shaders_List (m_Shaders ?w2 d)) \<and> Shaders_List (m_Shaders ?w2 d) ! ?i = ?k"
    using consistent_lookup [OF c2 m2] .
  have cnt: "count_list (Shaders_List (m_Shaders ?w2 d)) ?k = 1"
  proof (rule distinct_count_one)
    show "distinct (Shaders_List (m_Shaders ?w2 d))" using c2 by (simp add: ShadersConsistent_def)
    show "?k \<in> set (Shaders_List (m_Shaders ?w2 d))" using l2 by (metis nth_mem)
  qed
  have r2: "serialize_shader app I2 d p2 ?w2 = (I2 @ [?i], ?w2\<lparr>m_Shaders := (m_Shaders ?w2)(d := m_Shaders ?w2 d)\<rparr>)"
    by (simp add: serialize_shader_eq [of app I2 d p2 ?w2] e2)
  have r1: "fst (serialize_shader app I1 d p1 w) = I1 @ [?i]" by (simp add: serialize_shader_eq)
  show ?thesis
    unfolding Let_def
    using r1 r2 l2 cnt i1 k EmplaceShaderKey_list [OF c, of ?k] by (simp add: w1)
qed

text \<open>
  The same vertex shader source twice into the OpenGL list of the empty archiver: both calls
  return index 0 and the list has one entry.
\<close>

theorem serialize_shader_dedup_witness:
  "ShadersConsistent (m_Shaders EmptyArchiver OpenGL) \<and>
   content_key NoMacros (FromSource VoidMainShader) = content_key NoMacros (FromSource VoidMainShader) \<and>
   last (fst (serialize_shader NoMacros [] OpenGL (FromSource VoidMainShader) EmptyArchiver)) = 0 \<and>
   last (fst (serialize_shader NoMacros [] OpenGL (FromSource VoidMainShader)
               (snd (serialize_shader NoMacros [] OpenGL (FromSource VoidMainShader) EmptyArchiver)))) = 0 \<and>
   length (Shaders_List (m_Shaders
     (snd (serialize_shader NoMacros [] OpenGL (FromSource VoidMainShader)
               (snd (serialize_shader NoMacros [] OpenGL (FromSource VoidMainShader) EmptyArchiver)))) OpenGL)) = 1"
proof -
  have c: "ShadersConsistent (m_Shaders EmptyArchiver OpenGL)"
    by (simp add: EmptyArchiver_def ShadersConsistent_def)
  have e: "Shaders_List (m_Shaders EmptyArchiver OpenGL) = []" by (simp add: EmptyArchiver_def)
  have f: "fst (serialize_shader NoMacros [] OpenGL (FromSource VoidMainShader) EmptyArchiver) = [0]"
    by (simp add: serialize_shader_eq EmplaceShaderKey_def emplace_def EmptyArchiver_def)
  show ?thesis
    using serialize_shader_dedup [of EmptyArchiver OpenGL NoMacros "FromSource VoidMainShader"
            "FromSource VoidMainShader" "[]" "[]" "[]"]
    by (simp add: Let_def e f c)
qed


subsection \<open>A failing patcher\<close>

lemma update_entry_fresh:
  "map_of m k = None \<Longrightarrow> update_entry k v (m @ [(k, v0)]) = m @ [(k, v)]"
proof -
  assume n: "map_of m k = None"
  have "map_of m k = None \<Longrightarrow> map (\<lambda>(k', v'). if k' = k then (k', v) else (k', v')) m = m"
    by (induction m) (auto split: if_splits)
  with n show ?thesis by (simp add: update_entry_def)
qed

lemma SerializePSO_patch_failure:
  assumes v1: "ValidatePipelineStateArchiveInfo CI AI (ValidDeviceFlags dev)"
    and v2: "ValidatePSOCreateInfo dev CI"
    and n: "PSODesc_Name CI = Some Name"
    and fresh: "map_of PSOMap Name = None"
    and fail: "PatchRequested dev CI AI Name w = (False, CI', Data, DefPRS, w')"
  shows "SerializePSO dev PSOMap CI AI w = (False, PSOMap @ [(Name, Data)], w')"
  using v1 v2 n fresh fail
  by (simp add: SerializePSO_def emplace_def Let_def update_entry_fresh)

lemma DeviceBitsOf_40: "DeviceBitsOf 40 = [3, 5]"
  by (simp add: DeviceBitsOf_def upt_rec)

text \<open>
  C1 (as the code has it). For each of the four pipeline operations: when the create-info
  is valid, the name is new in the pipeline map and the patcher of a requested back-end
  fails, the call returns false and nothing is rolled back. The writer after the call is
  the writer as the patchers left it when the loop stopped (\<open>w'\<close>), and its pipeline map is
  the map before the call with one more entry, under the pipeline's name, that holds what
  the patchers stored in it before the failure (\<open>Data\<close>). Every other pipeline stays.
\<close>

theorem AddPipelineState_patch_failure_keeps_entry:
  "(ValidatePipelineStateArchiveInfo C AI (ValidDeviceFlags dev) \<and> ValidatePSOCreateInfo dev C \<and>
    PSODesc_Name C = Some Name \<and> map_of (m_ComputePSOMap w) Name = None \<and>
    PatchRequested dev C AI Name w = (False, C', Data, DefPRS, w') \<longrightarrow>
      AddComputePipelineState dev C AI w =
        (False, w'\<lparr>m_ComputePSOMap := m_ComputePSOMap w @ [(Name, Data)]\<rparr>)) \<and>
   (ValidatePipelineStateArchiveInfo C AI (ValidDeviceFlags dev) \<and> ValidatePSOCreateInfo dev C \<and>
    PSODesc_Name C = Some Name \<and> map_of (m_TilePSOMap w) Name = None \<and>
    PatchRequested dev C AI Name w = (False, C', Data, DefPRS, w') \<longrightarrow>
      AddTilePipelineState dev C AI w =
        (False, w'\<lparr>m_TilePSOMap := m_TilePSOMap w @ [(Name, Data)]\<rparr>)) \<and>
   (ValidatePipelineStateArchiveInfo C AI (ValidDeviceFlags dev) \<and> ValidatePSOCreateInfo dev C \<and>
    PSODesc_Name C = Some Name \<and> map_of (m_RayTracingPSOMap w) Name = None \<and>
    PatchRequested dev C AI Name w = (False, C', Data, DefPRS, w') \<longrightarrow>
      AddRayTracingPipelineState dev C AI w =
        (False, w'\<lparr>m_RayTracingPSOMap := m_RayTracingPSOMap w @ [(Name, Data)]\<rparr>)) \<and>
   (ValidatePipelineStateArchiveInfo G AI (ValidDeviceFlags gdev) \<and> ValidatePSOCreateInfo gdev G \<and>
    PSODesc_Name G = Some Name \<and> AddRenderPassOf G w = (True, w1) \<and>
    map_of (m_GraphicsPSOMap w1) Name = None \<and>
    PatchRequested gdev G AI Name w1 = (False, G', GData, GDefPRS, gw') \<longrightarrow>
      AddGraphicsPipelineState gdev G AI w =
        (False, gw'\<lparr>m_GraphicsPSOMap := m_GraphicsPSOMap w1 @ [(Name, GData)]\<rparr>))"
proof (intro conjI impI)
  assume a: "ValidatePipelineStateArchiveInfo C AI (ValidDeviceFlags dev) \<and> ValidatePSOCreateInfo dev C \<and>
    PSODesc_Name C = Some Name \<and> map_of (m_ComputePSOMap w) Name = None \<and>
    PatchRequested dev C AI Name w = (False, C', Data, DefPRS, w')"
  then have "SerializePSO dev (m_ComputePSOMap w) C AI w = (False, m_ComputePSOMap w @ [(Name, Data)], w')"
    by (intro SerializePSO_patch_failure) simp_all
  then show "AddComputePipelineState dev C AI w =
        (False, w'\<lparr>m_ComputePSOMap := m_ComputePSOMap w @ [(Name, Data)]\<rparr>)"
    by (simp add: AddComputePipelineState_def)
next
  assume a: "ValidatePipelineStateArchiveInfo C AI (ValidDeviceFlags dev) \<and> ValidatePSOCreateInfo dev C \<and>
    PSODesc_Name C = Some Name \<and> map_of (m_TilePSOMap w) Name = None \<and>
    PatchRequested dev C AI Name w = (False, C', Data, DefPRS, w')"
  then have "SerializePSO dev (m_TilePSOMap w) C AI w = (False, m_TilePSOMap w @ [(Name, Data)], w')"
    by (intro SerializePSO_patch_failure) simp_all
  then show "AddTilePipelineState dev C AI w =
        (False, w'\<lparr>m_TilePSOMap := m_TilePSOMap w @ [(Name, Data)]\<rparr>)"
    by (simp add: AddTilePipelineState_def)
next
  assume a: "ValidatePipelineStateArchiveInfo C AI (ValidDeviceFlags dev) \<and> ValidatePSOCreateInfo dev C \<and>
    PSODesc_Name C = Some Name \<and> map_of (m_RayTracingPSOMap w) Name = None \<and>
    PatchRequested dev C AI Name w = (False, C', Data, DefPRS, w')"
  then have "SerializePSO dev (m_RayTracingPSOMap w) C AI w =
               (False, m_RayTracingPSOMap w @ [(Name, Data)], w')"
    by (intro SerializePSO_patch_failure) simp_all
  then show "AddRayTracingPipelineState dev C AI w =
        (False, w'\<lparr>m_RayTracingPSOMap := m_RayTracingPSOMap w @ [(Name, Data)]\<rparr>)"
    by (simp add: AddRayTracingPipelineState_def)
next
  assume a: "ValidatePipelineStateArchiveInfo G AI (ValidDeviceFlags gdev) \<and> ValidatePSOCreateInfo gdev G \<and>
    PSODesc_Name G = Some Name \<and> AddRenderPassOf G w = (True, w1) \<and>
    map_of (m_GraphicsPSOMap w1) Name = None \<and>
    PatchRequested gdev G AI Name w1 = (False, G', GData, GDefPRS, gw')"
  then have "SerializePSO gdev (m_GraphicsPSOMap w1) G AI w1 =
               (False, m_GraphicsPSOMap w1 @ [(Name, GData)], gw')"
    by (intro SerializePSO_patch_failure) simp_all
  with a show "AddGraphicsPipelineState gdev G AI w =
        (False, gw'\<lparr>m_GraphicsPSOMap := m_GraphicsPSOMap w1 @ [(Name, GData)]\<rparr>)"
    by (simp add: AddGraphicsPipelineState_def)
qed

text \<open>
  The example: \<^verbatim>\<open>P\<close> is added to the writer that holds \<^verbatim>\<open>Q\<close>, for OpenGL and Vulkan. The
  OpenGL patcher runs first; it puts the shader into the OpenGL shader list of the writer
  (at index 0) and the index array into the pipeline's OpenGL data. Then the Vulkan patcher
  fails.
\<close>

lemma PatchShadersGL_example:
  "PatchShadersGL_impl NoMacros (\<lambda>_. [VoidMainShader]) CI TPSOData_empty DefPRS ArchiverWithQ =
     (True, CI, DataAfterGL, DefPRS, WriterAfterGL)"
  by (simp add: PatchShadersGL_impl_def SerializeShaderSource_def EmplaceShaderKey_def emplace_def
      Let_def ArchiverWithQ_def EmptyArchiver_def DataAfterGL_def WriterAfterGL_def)

lemma PatchRequested_failing:
  "\<exists>CI' DefPRS.
     PatchRequested FailingVkDevice CI ForOpenGLAndVulkan ''P'' ArchiverWithQ =
       (False, CI', DataAfterGL, DefPRS, WriterAfterGL)"
  by (simp add: PatchRequested_def ForOpenGLAndVulkan_def DeviceBitsOf_40 PatcherOf_def
      FailingVkDevice_def FailingPatcher_def PatchShadersGL_example)

lemma valid_P:
  "ValidatePipelineStateArchiveInfo PipelineP ForOpenGLAndVulkan (ValidDeviceFlags FailingVkDevice)"
  "ValidatePipelineStateArchiveInfo GraphicsPipelineP ForOpenGLAndVulkan (ValidDeviceFlags FailingVkDevice)"
  "ValidatePSOCreateInfo FailingVkDevice PipelineP"
  "ValidatePSOCreateInfo FailingVkDevice GraphicsPipelineP"
  "PSODesc_Name PipelineP = Some ''P''"
  "PSODesc_Name GraphicsPipelineP = Some ''P''"
  "AddRenderPassOf GraphicsPipelineP ArchiverWithQ = (True, ArchiverWithQ)"
  by (simp_all add: ValidatePipelineStateArchiveInfo_def PipelineP_def GraphicsPipelineP_def
      ForOpenGLAndVulkan_def FailingVkDevice_def AddRenderPassOf_def)

lemma fresh_P:
  "map_of (m_ComputePSOMap ArchiverWithQ) ''P'' = None"
  "map_of (m_TilePSOMap ArchiverWithQ) ''P'' = None"
  "map_of (m_RayTracingPSOMap ArchiverWithQ) ''P'' = None"
  "map_of (m_GraphicsPSOMap ArchiverWithQ) ''P'' = None"
  by (simp_all add: ArchiverWithQ_def EmptyArchiver_def)

lemma maps_Q:
  "m_ComputePSOMap ArchiverWithQ = [(''Q'', PipelineDataQ)]"
  "m_TilePSOMap ArchiverWithQ = [(''Q'', PipelineDataQ)]"
  "m_RayTracingPSOMap ArchiverWithQ = [(''Q'', PipelineDataQ)]"
  "m_GraphicsPSOMap ArchiverWithQ = [(''Q'', PipelineDataQ)]"
  by (simp_all add: ArchiverWithQ_def EmptyArchiver_def)

theorem AddPipelineState_patch_failure_keeps_entry_witness:
  "ValidatePipelineStateArchiveInfo PipelineP ForOpenGLAndVulkan (ValidDeviceFlags FailingVkDevice) \<and>
   ValidatePSOCreateInfo FailingVkDevice PipelineP \<and>
   PSODesc_Name PipelineP = Some ''P'' \<and>
   map_of (m_ComputePSOMap ArchiverWithQ) ''P'' = None \<and>
   map_of (m_TilePSOMap ArchiverWithQ) ''P'' = None \<and>
   map_of (m_RayTracingPSOMap ArchiverWithQ) ''P'' = None \<and>
   (\<exists>CI' DefPRS. PatchRequested FailingVkDevice PipelineP ForOpenGLAndVulkan ''P'' ArchiverWithQ =
      (False, CI', DataAfterGL, DefPRS, WriterAfterGL)) \<and>
   ValidatePipelineStateArchiveInfo GraphicsPipelineP ForOpenGLAndVulkan (ValidDeviceFlags FailingVkDevice) \<and>
   ValidatePSOCreateInfo FailingVkDevice GraphicsPipelineP \<and>
   PSODesc_Name GraphicsPipelineP = Some ''P'' \<and>
   AddRenderPassOf GraphicsPipelineP ArchiverWithQ = (True, ArchiverWithQ) \<and>
   map_of (m_GraphicsPSOMap ArchiverWithQ) ''P'' = None \<and>
   (\<exists>CI' DefPRS. PatchRequested FailingVkDevice GraphicsPipelineP ForOpenGLAndVulkan ''P'' ArchiverWithQ =
      (False, CI', DataAfterGL, DefPRS, WriterAfterGL)) \<and>
   AddComputePipelineState FailingVkDevice PipelineP ForOpenGLAndVulkan ArchiverWithQ =
     (False, WriterAfterGL\<lparr>m_ComputePSOMap := [(''Q'', PipelineDataQ), (''P'', DataAfterGL)]\<rparr>) \<and>
   AddTilePipelineState FailingVkDevice PipelineP ForOpenGLAndVulkan ArchiverWithQ =
     (False, WriterAfterGL\<lparr>m_TilePSOMap := [(''Q'', PipelineDataQ), (''P'', DataAfterGL)]\<rparr>) \<and>
   AddRayTracingPipelineState FailingVkDevice PipelineP ForOpenGLAndVulkan ArchiverWithQ =
     (False, WriterAfterGL\<lparr>m_RayTracingPSOMap := [(''Q'', PipelineDataQ), (''P'', DataAfterGL)]\<rparr>) \<and>
   AddGraphicsPipelineState FailingVkDevice GraphicsPipelineP ForOpenGLAndVulkan ArchiverWithQ =
     (False, WriterAfterGL\<lparr>m_GraphicsPSOMap := [(''Q'', PipelineDataQ), (''P'', DataAfterGL)]\<rparr>)"
proof -
  obtain C' D where
    c: "PatchRequested FailingVkDevice PipelineP ForOpenGLAndVulkan ''P'' ArchiverWithQ =
          (False, C', DataAfterGL, D, WriterAfterGL)"
    using PatchRequested_failing [of PipelineP] by blast
  obtain G' GD where
    g: "PatchRequested FailingVkDevice GraphicsPipelineP ForOpenGLAndVulkan ''P'' ArchiverWithQ =
          (False, G', DataAfterGL, GD, WriterAfterGL)"
    using PatchRequested_failing [of GraphicsPipelineP] by blast
  show ?thesis
    using AddPipelineState_patch_failure_keeps_entry
            [where C = PipelineP and AI = ForOpenGLAndVulkan and dev = FailingVkDevice
               and Name = "''P''" and w = ArchiverWithQ and C' = C' and Data = DataAfterGL
               and DefPRS = D and w' = WriterAfterGL
               and G = GraphicsPipelineP and gdev = FailingVkDevice and ?w1.0 = ArchiverWithQ
               and G' = G' and GData = DataAfterGL and GDefPRS = GD and gw' = WriterAfterGL]
    by (simp add: c g valid_P fresh_P maps_Q)
qed

text \<open>
  C1 as stated fails: after the failed call the compute pipeline map holds an entry under
  \<^verbatim>\<open>P\<close>, which it did not hold before, with the OpenGL data of the pipeline in it; and the
  writer is not as it was before the call, the map has grown and the OpenGL shader list
  has the shader of the pipeline.
\<close>

theorem AddPipelineState_patch_failure_not_rolled_back:
  "fst (AddComputePipelineState FailingVkDevice PipelineP ForOpenGLAndVulkan ArchiverWithQ) = False \<and>
   map_of (m_ComputePSOMap ArchiverWithQ) ''P'' = None \<and>
   map_of (m_ComputePSOMap
     (snd (AddComputePipelineState FailingVkDevice PipelineP ForOpenGLAndVulkan ArchiverWithQ))) ''P''
     = Some DataAfterGL \<and>
   PerDeviceData DataAfterGL OpenGL = SerializeShadersForPSO [0] \<and>
   Shaders_List (m_Shaders ArchiverWithQ OpenGL) = [] \<and>
   Shaders_List (m_Shaders
     (snd (AddComputePipelineState FailingVkDevice PipelineP ForOpenGLAndVulkan ArchiverWithQ)) OpenGL)
     = [SourceKey NoMacros VoidMainShader] \<and>
   snd (AddComputePipelineState FailingVkDevice PipelineP ForOpenGLAndVulkan ArchiverWithQ) \<noteq> ArchiverWithQ"
proof -
  obtain C' D where
    c: "PatchRequested FailingVkDevice PipelineP ForOpenGLAndVulkan ''P'' ArchiverWithQ =
          (False, C', DataAfterGL, D, WriterAfterGL)"
    using PatchRequested_failing [of PipelineP] by blast
  have e: "SerializePSO FailingVkDevice (m_ComputePSOMap ArchiverWithQ) PipelineP ForOpenGLAndVulkan ArchiverWithQ =
           (False, m_ComputePSOMap ArchiverWithQ @ [(''P'', DataAfterGL)], WriterAfterGL)"
    by (rule SerializePSO_patch_failure [OF valid_P(1) valid_P(3) valid_P(5) fresh_P(1) c])
  have r: "AddComputePipelineState FailingVkDevice PipelineP ForOpenGLAndVulkan ArchiverWithQ =
           (False, WriterAfterGL\<lparr>m_ComputePSOMap := [(''Q'', PipelineDataQ), (''P'', DataAfterGL)]\<rparr>)"
    using e by (simp add: AddComputePipelineState_def maps_Q)
  have n: "WriterAfterGL\<lparr>m_ComputePSOMap := [(''Q'', PipelineDataQ), (''P'', DataAfterGL)]\<rparr> \<noteq> ArchiverWithQ"
  proof
    assume "WriterAfterGL\<lparr>m_ComputePSOMap := [(''Q'', PipelineDataQ), (''P'', DataAfterGL)]\<rparr> = ArchiverWithQ"
    then have "m_ComputePSOMap (WriterAfterGL\<lparr>m_ComputePSOMap := [(''Q'', PipelineDataQ), (''P'', DataAfterGL)]\<rparr>)
               = m_ComputePSOMap ArchiverWithQ"
      by simp
    then show False by (simp add: maps_Q)
  qed
  have s0: "Shaders_List (m_Shaders ArchiverWithQ OpenGL) = []"
    by (simp add: ArchiverWithQ_def EmptyArchiver_def)
  have s1: "Shaders_List (m_Shaders WriterAfterGL OpenGL) = [SourceKey NoMacros VoidMainShader]"
    by (simp add: WriterAfterGL_def)
  have d: "PerDeviceData DataAfterGL OpenGL = SerializeShadersForPSO [0]"
    by (simp add: DataAfterGL_def)
  show ?thesis
    by (simp add: r n fresh_P s0 s1 d)
qed

subsection \<open>Tri-mode serializer\<close>

lemma length_le_bytes: "length (le_bytes w n) = w"
  by (induction w arbitrary: n) auto

lemma Serializer_Measure_sum:
  "(\<And>v. v \<in> set vs \<Longrightarrow> Serializer_Measure v = length (Serializer_Write v)) \<Longrightarrow>
   sum_list (map Serializer_Measure vs) = length (concat (map Serializer_Write vs))"
  by (induction vs) auto

text \<open>
  C4. For every value of every schema, Measure yields the number of bytes that Write emits.
\<close>

theorem Measure_eq_Write_size: "Serializer_Measure v = length (Serializer_Write v)"
proof (induction v)
  case (VInt w n)
  show ?case by (simp add: length_le_bytes)
next
  case (VStr s)
  show ?case by (simp add: length_le_bytes)
next
  case (VArr vs)
  then show ?case by (simp add: length_le_bytes Serializer_Measure_sum)
next
  case (VSeq vs)
  then show ?case by (simp add: Serializer_Measure_sum)
qed

lemma unat_byte_of_nat: "unat (of_nat (n mod 256) :: byte) = n mod 256"
  by (simp add: unat_of_nat)

lemma le_nat_le_bytes: "le_nat (le_bytes w n) = n mod 256 ^ w"
proof (induction w arbitrary: n)
  case 0
  show ?case by simp
next
  case (Suc w)
  have "n mod 256 + 256 * (n div 256 mod 256 ^ w) = n mod (256 * 256 ^ w)"
    by (simp add: mod_mult2_eq)
  then show ?case using Suc by (simp add: unat_of_nat)
qed

lemma take_le_bytes: "take w (le_bytes w n @ xs) = le_bytes w n"
  by (simp add: length_le_bytes)

lemma drop_le_bytes: "drop w (le_bytes w n @ xs) = xs"
  by (simp add: length_le_bytes)

lemma char_of_byte_of_char: "char_of_byte (byte_of_char c) = c"
  by (simp add: byte_of_char_def char_of_byte_def unat_of_nat)

lemma Read_int:
  "n < 256 ^ w \<Longrightarrow> Serializer_Read (SInt w) (le_bytes w n @ rest) = Some (VInt w n, rest)"
  by (simp add: length_le_bytes le_nat_le_bytes)

lemma Read_str:
  assumes "length t + 1 < 2 ^ 32"
  shows "Serializer_Read SStr (le_bytes 4 (length t + 1) @ map byte_of_char t @ [0] @ rest)
         = Some (VStr (Some t), rest)"
proof -
  have m: "(length t + 1) mod 256 ^ 4 = length t + 1" using assms by simp
  have l: "length (le_bytes 4 (length t + 1) @ map byte_of_char t @ [0] @ rest) \<ge> 4"
    by (simp add: length_le_bytes)
  have t4: "take 4 (le_bytes 4 (length t + 1) @ map byte_of_char t @ [0] @ rest) = le_bytes 4 (length t + 1)"
    by (rule take_le_bytes)
  have d4: "drop 4 (le_bytes 4 (length t + 1) @ map byte_of_char t @ [0] @ rest) = map byte_of_char t @ [0] @ rest"
    by (rule drop_le_bytes)
  have n: "(map byte_of_char t @ [0] @ rest) ! length t = 0"
    by (simp add: nth_append)
  have mm: "map char_of_byte (map byte_of_char t) = t"
    by (induction t) (simp_all add: char_of_byte_of_char)
  show ?thesis
    using l n mm
    by (simp only: Serializer_Read.simps t4 d4 le_nat_le_bytes m Let_def) (simp add: comp_def)
qed

lemma roundtrip_many:
  assumes "\<And>v s rest. v \<in> set vs \<Longrightarrow> fits s v \<Longrightarrow>
             Serializer_Read s (Serializer_Write v @ rest) = Some (preserved v, rest)"
    and "list_all (fits s) vs"
  shows "Read_many (length vs) s (concat (map Serializer_Write vs) @ rest) = Some (map preserved vs, rest)"
  using assms by (induction vs arbitrary: rest) auto

lemma roundtrip_seq:
  assumes "\<And>v s rest. v \<in> set vs \<Longrightarrow> fits s v \<Longrightarrow>
             Serializer_Read s (Serializer_Write v @ rest) = Some (preserved v, rest)"
    and "list_all2 fits ss vs"
  shows "Read_seq ss (concat (map Serializer_Write vs) @ rest) = Some (map preserved vs, rest)"
  using assms(2,1)
proof (induction ss vs arbitrary: rest rule: list_all2_induct)
  case Nil
  show ?case by simp
next
  case (Cons s ss v vs)
  then show ?case by simp
qed

lemma roundtrip_rest:
  "fits s v \<Longrightarrow> Serializer_Read s (Serializer_Write v @ rest) = Some (preserved v, rest)"
proof (induction v arbitrary: s rest)
  case (VInt w n)
  then show ?case by (cases s) (simp_all add: Read_int del: Serializer_Read.simps)
next
  case (VStr t)
  then have s: "s = SStr" and l: "length (c_str t) + 1 < 2 ^ 32" by (cases s; simp)+
  show ?case using Read_str [OF l, of rest] by (simp add: s del: Serializer_Read.simps)
next
  case (VArr vs)
  then obtain e where s: "s = SArr e" and l: "length vs < 2 ^ 32" and f: "list_all (fits e) vs"
    by (cases s) auto
  have m: "length vs mod 4294967296 = length vs" using l by simp
  have r: "Read_many (length vs) e (concat (map Serializer_Write vs) @ rest) = Some (map preserved vs, rest)"
    using VArr.IH f by (intro roundtrip_many) auto
  show ?case
    by (simp add: s length_le_bytes le_nat_le_bytes m r)
next
  case (VSeq vs)
  then obtain ss where s: "s = SSeq ss" and f: "list_all2 fits ss vs"
    by (cases s) auto
  have r: "Read_seq ss (concat (map Serializer_Write vs) @ rest) = Some (map preserved vs, rest)"
    using VSeq.IH f by (intro roundtrip_seq) auto
  show ?case by (simp add: s r)
qed

text \<open>
  C5. For every schema and every value that fits it: Write fills a buffer of the measured
  size exactly, and Read on that buffer yields the value as the format preserves it (a null
  string as the empty string), the cursor at the end of the buffer.
\<close>

theorem Write_Read_roundtrip:
  assumes "fits s v"
  shows "length (Serializer_Write v) = Serializer_Measure v \<and>
         Serializer_Read s (Serializer_Write v) = Some (preserved v, [])"
  using roundtrip_rest [OF assms, of "[]"] by (simp add: Measure_eq_Write_size)

text \<open>
  The resource signature of the seed scenario: two resources, one immutable sampler,
  binding index 2.
\<close>

lemma fits_SeedPRSDesc: "fits PRSDescSchema SeedPRSDesc"
  by (simp add: PRSDescSchema_def SeedPRSDesc_def ResourceSchema_def SamplerSchema_def c_str_def
      byte_of_char_def)

lemma preserved_SeedPRSDesc: "preserved SeedPRSDesc = SeedPRSDesc"
  by (simp add: SeedPRSDesc_def c_str_def)

theorem Measure_eq_Write_size_witness:
  "Serializer_Measure SeedPRSDesc = 52 \<and> length (Serializer_Write SeedPRSDesc) = 52"
proof -
  have "Serializer_Measure SeedPRSDesc = 52" by (simp add: SeedPRSDesc_def c_str_def)
  then show ?thesis using Measure_eq_Write_size [of SeedPRSDesc] by simp
qed

theorem Write_Read_roundtrip_witness:
  "fits PRSDescSchema SeedPRSDesc \<and>
   length (Serializer_Write SeedPRSDesc) = Serializer_Measure SeedPRSDesc \<and>
   Serializer_Read PRSDescSchema (Serializer_Write SeedPRSDesc) = Some (SeedPRSDesc, [])"
  using Write_Read_roundtrip [OF fits_SeedPRSDesc]
  by (simp add: fits_SeedPRSDesc preserved_SeedPRSDesc)

subsection \<open>Signatures in the macOS block\<close>

lemma Mem_Bytes_empty: "(Mem_Bytes m = []) = Mem_IsNull m"
  by (cases m) (auto simp: Mem_IsNull_def Mem_Size_def Mem_Bytes_def)

lemma length_Mem_Bytes: "length (Mem_Bytes m) = Mem_Size m"
  by (cases m) (auto simp: Mem_Size_def Mem_Bytes_def)

lemma Copy_blocks: "Blocks (snd (Copy (Mem_Bytes m) e)) = Blocks e @ CopiedBlocks m"
  by (simp add: Copy_def CopiedBlocks_def Mem_Bytes_empty)

lemma sum_CopiedBlocks: "sum_list (map Block_size (CopiedBlocks m)) = Mem_Size m"
  by (auto simp: CopiedBlocks_def length_Mem_Bytes Mem_IsNull_def)

lemma all_types: "t \<in> set AllDeviceTypes"
  by (cases t) (simp_all add: AllDeviceTypes_def)

lemma distinct_AllDeviceTypes: "distinct AllDeviceTypes"
  by (simp add: AllDeviceTypes_def)

text \<open>One per-device write.\<close>

lemma WritePerDeviceData_dev:
  "Blocks (Pending_PerDeviceData (WritePerDeviceData p T m T P) t) =
     Blocks (Pending_PerDeviceData P t) @ (if t = T then CopiedBlocks m else [])"
  by (simp add: WritePerDeviceData_def Copy_def CopiedBlocks_def Mem_Bytes_empty)

lemma WritePerDeviceData_reserved:
  "ReservedSize (Pending_PerDeviceData (WritePerDeviceData p T m T P) t) =
     ReservedSize (Pending_PerDeviceData P t)"
  by (simp add: WritePerDeviceData_def Copy_def)

lemma WritePerDeviceData_shared:
  "Pending_SharedData (WritePerDeviceData p T m T P) =
     (if Mem_IsNull m then Pending_SharedData P
      else UpdateHeader p (\<lambda>h. SetOffset T (of_nat (GetCurrentSize (Pending_PerDeviceData P T)))
                                 (SetSize T (of_nat (Mem_Size m)) h)) (Pending_SharedData P))"
  by (simp add: WritePerDeviceData_def Copy_def)

lemma WritePerDeviceData_chunks:
  "Pending_ChunkData (WritePerDeviceData p T m T P) = Pending_ChunkData P"
  by (simp add: WritePerDeviceData_def Copy_def)

text \<open>The per-device writes of one object, for the back-ends of a list.\<close>

lemma fold_Write_dev:
  "distinct ts \<Longrightarrow>
   Blocks (Pending_PerDeviceData (fold (\<lambda>type. WritePerDeviceData p type (f type) type) ts P) t) =
     Blocks (Pending_PerDeviceData P t) @ (if t \<in> set ts then CopiedBlocks (f t) else [])"
proof (induction ts arbitrary: P)
  case Nil
  show ?case by simp
next
  case (Cons a ts)
  from Cons.prems have d: "distinct ts" and n: "a \<notin> set ts" by auto
  show ?case
    using Cons.IH [OF d, of "WritePerDeviceData p a (f a) a P"] n
    by (auto simp: WritePerDeviceData_dev)
qed

lemma fold_Write_chunks:
  "Pending_ChunkData (fold (\<lambda>type. WritePerDeviceData p type (f type) type) ts P) = Pending_ChunkData P"
  by (induction ts arbitrary: P) (simp_all add: WritePerDeviceData_chunks)

lemma UpdateHeader_at:
  "p < length (Blocks e) \<Longrightarrow> Blocks e ! p = DataHeaderBlock h \<Longrightarrow>
   Blocks (UpdateHeader p f e) = (Blocks e)[p := DataHeaderBlock (f h)]"
  by (simp add: UpdateHeader_def)

lemma list_update_self: "xs ! p = x \<Longrightarrow> xs = xs[p := x]"
  by auto

lemma fold_Write_shared:
  assumes "distinct ts" and "p < length (Blocks (Pending_SharedData P))"
    and "Blocks (Pending_SharedData P) ! p = DataHeaderBlock h0"
  shows "\<exists>h. Blocks (Pending_SharedData (fold (\<lambda>type. WritePerDeviceData p type (f type) type) ts P)) =
               (Blocks (Pending_SharedData P))[p := DataHeaderBlock h] \<and>
             Header_Type h = Header_Type h0 \<and>
             (\<forall>t. DeviceSpecificDataSize h t =
                    (if t \<in> set ts \<and> \<not> Mem_IsNull (f t) then of_nat (Mem_Size (f t))
                     else DeviceSpecificDataSize h0 t)) \<and>
             (\<forall>t. DeviceSpecificDataOffset h t =
                    (if t \<in> set ts \<and> \<not> Mem_IsNull (f t)
                     then of_nat (GetCurrentSize (Pending_PerDeviceData P t))
                     else DeviceSpecificDataOffset h0 t))"
  using assms
proof (induction ts arbitrary: P h0)
  case Nil
  have "Blocks (Pending_SharedData P) = (Blocks (Pending_SharedData P))[p := DataHeaderBlock h0]"
    using Nil.prems(3) by (rule list_update_self)
  then show ?case by (intro exI [of _ h0]) simp
next
  case (Cons a ts)
  let ?P = "WritePerDeviceData p a (f a) a P"
  let ?h1 = "if Mem_IsNull (f a) then h0
             else SetOffset a (of_nat (GetCurrentSize (Pending_PerDeviceData P a)))
                    (SetSize a (of_nat (Mem_Size (f a))) h0)"
  from Cons.prems have d: "distinct ts" and n: "a \<notin> set ts" by auto
  have b1: "Blocks (Pending_SharedData ?P) = (Blocks (Pending_SharedData P))[p := DataHeaderBlock ?h1]"
    using Cons.prems(2,3) list_update_self [OF Cons.prems(3)]
    by (auto simp: WritePerDeviceData_shared UpdateHeader_at)
  then have l1: "p < length (Blocks (Pending_SharedData ?P))"
    and e1: "Blocks (Pending_SharedData ?P) ! p = DataHeaderBlock ?h1"
    using Cons.prems(2) by simp_all
  have dev: "\<And>t. t \<in> set ts \<Longrightarrow> GetCurrentSize (Pending_PerDeviceData ?P t) = GetCurrentSize (Pending_PerDeviceData P t)"
    using n by (auto simp: GetCurrentSize_def WritePerDeviceData_dev)
  from Cons.IH [OF d l1 e1] obtain h where
    h: "Blocks (Pending_SharedData (fold (\<lambda>type. WritePerDeviceData p type (f type) type) ts ?P)) =
          (Blocks (Pending_SharedData ?P))[p := DataHeaderBlock h]"
    and ty: "Header_Type h = Header_Type ?h1"
    and sz: "\<And>t. DeviceSpecificDataSize h t =
              (if t \<in> set ts \<and> \<not> Mem_IsNull (f t) then of_nat (Mem_Size (f t))
               else DeviceSpecificDataSize ?h1 t)"
    and off: "\<And>t. DeviceSpecificDataOffset h t =
              (if t \<in> set ts \<and> \<not> Mem_IsNull (f t)
               then of_nat (GetCurrentSize (Pending_PerDeviceData ?P t))
               else DeviceSpecificDataOffset ?h1 t)"
    by blast
  have "Blocks (Pending_SharedData (fold (\<lambda>type. WritePerDeviceData p type (f type) type) (a # ts) P)) =
          (Blocks (Pending_SharedData P))[p := DataHeaderBlock h]"
    using h b1 by simp
  moreover have "Header_Type h = Header_Type h0" using ty by (simp add: SetOffset_def SetSize_def)
  moreover have "\<forall>t. DeviceSpecificDataSize h t =
              (if t \<in> set (a # ts) \<and> \<not> Mem_IsNull (f t) then of_nat (Mem_Size (f t))
               else DeviceSpecificDataSize h0 t)"
    using n by (auto simp: sz SetOffset_def SetSize_def)
  moreover have "\<forall>t. DeviceSpecificDataOffset h t =
              (if t \<in> set (a # ts) \<and> \<not> Mem_IsNull (f t)
               then of_nat (GetCurrentSize (Pending_PerDeviceData P t))
               else DeviceSpecificDataOffset h0 t)"
    using n dev by (auto simp: off SetOffset_def SetSize_def)
  ultimately show ?case by blast
qed


text \<open>One object: its header, its shared bytes, then its per-device bytes.\<close>

lemma WriteHeader_result:
  "WriteHeader Type m j C D =
     (length (Blocks D),
      C\<lparr>DataOffsetArray := (DataOffsetArray C)[j := of_nat (GetCurrentSize D)],
        DataSizeArray := (DataSizeArray C)[j := DataSizeArray C ! j + of_nat sizeof_DataHeader]\<rparr>,
      D\<lparr>Blocks := Blocks D @ DataHeaderBlock (NewDataHeader Type) # CopiedBlocks m\<rparr>)"
  by (simp add: WriteHeader_def ConstructHeader_def Copy_def CopiedBlocks_def Mem_Bytes_empty)

lemma WriteObject_chunk:
  "fst (WriteObject Type G W obj j CP) =
     (fst CP)\<lparr>DataOffsetArray := (DataOffsetArray (fst CP))[j := of_nat (GetCurrentSize (Pending_SharedData (snd CP)))],
              DataSizeArray := (DataSizeArray (fst CP))[j := DataSizeArray (fst CP) ! j + of_nat sizeof_DataHeader]\<rparr>"
  by (simp add: WriteObject_def WriteHeader_result)

lemma WriteObject_dev:
  "Blocks (Pending_PerDeviceData
            (snd (WriteObject Type G (\<lambda>p T obj. WritePerDeviceData p T (f T obj) T) obj j CP)) t) =
     Blocks (Pending_PerDeviceData (snd CP) t) @ CopiedBlocks (f t obj)"
  by (simp add: WriteObject_def WriteHeader_result
        fold_Write_dev [where f = "\<lambda>t. f t obj", OF distinct_AllDeviceTypes] all_types)

lemma WriteObject_chunkdata:
  "Pending_ChunkData (snd (WriteObject Type G (\<lambda>p T obj. WritePerDeviceData p T (f T obj) T) obj j CP)) =
     Pending_ChunkData (snd CP)"
  by (simp add: WriteObject_def WriteHeader_result fold_Write_chunks [where f = "\<lambda>t. f t obj"])

lemma Mem_Size_null: "Mem_IsNull m \<Longrightarrow> Mem_Size m = 0"
  by (cases m) (auto simp: Mem_IsNull_def Mem_Size_def)

lemma WriteObject_shared:
  "\<exists>h. Blocks (Pending_SharedData
              (snd (WriteObject Type G (\<lambda>p T obj. WritePerDeviceData p T (f T obj) T) obj j CP))) =
          Blocks (Pending_SharedData (snd CP)) @ DataHeaderBlock h # CopiedBlocks (G obj) \<and>
        Header_Type h = Type \<and>
        (\<forall>t. DeviceSpecificDataSize h t = of_nat (Mem_Size (f t obj))) \<and>
        (\<forall>t. DeviceSpecificDataOffset h t =
               (if Mem_IsNull (f t obj) then InvalidOffset
                else of_nat (GetCurrentSize (Pending_PerDeviceData (snd CP) t))))"
proof -
  let ?D = "Pending_SharedData (snd CP)"
  let ?D1 = "?D\<lparr>Blocks := Blocks ?D @ DataHeaderBlock (NewDataHeader Type) # CopiedBlocks (G obj)\<rparr>"
  let ?P1 = "(snd CP)\<lparr>Pending_SharedData := ?D1\<rparr>"
  let ?p = "length (Blocks ?D)"
  have l: "?p < length (Blocks (Pending_SharedData ?P1))" by simp
  have e: "Blocks (Pending_SharedData ?P1) ! ?p = DataHeaderBlock (NewDataHeader Type)" by simp
  from fold_Write_shared [OF distinct_AllDeviceTypes l e, where f = "\<lambda>t. f t obj"]
  obtain h where
    b: "Blocks (Pending_SharedData (fold (\<lambda>type. WritePerDeviceData ?p type (f type obj) type) AllDeviceTypes ?P1)) =
          (Blocks (Pending_SharedData ?P1))[?p := DataHeaderBlock h]"
    and ty: "Header_Type h = Header_Type (NewDataHeader Type)"
    and sz: "\<And>t. DeviceSpecificDataSize h t =
               (if t \<in> set AllDeviceTypes \<and> \<not> Mem_IsNull (f t obj) then of_nat (Mem_Size (f t obj))
                else DeviceSpecificDataSize (NewDataHeader Type) t)"
    and off: "\<And>t. DeviceSpecificDataOffset h t =
               (if t \<in> set AllDeviceTypes \<and> \<not> Mem_IsNull (f t obj)
                then of_nat (GetCurrentSize (Pending_PerDeviceData ?P1 t))
                else DeviceSpecificDataOffset (NewDataHeader Type) t)"
    by blast
  have "Blocks (Pending_SharedData
              (snd (WriteObject Type G (\<lambda>p T obj. WritePerDeviceData p T (f T obj) T) obj j CP))) =
          Blocks ?D @ DataHeaderBlock h # CopiedBlocks (G obj)"
    using b by (simp add: WriteObject_def WriteHeader_result)
  moreover have "Header_Type h = Type" using ty by (simp add: NewDataHeader_def)
  moreover have "\<forall>t. DeviceSpecificDataSize h t = of_nat (Mem_Size (f t obj))"
    by (auto simp: sz all_types NewDataHeader_def Mem_Size_null)
  moreover have "\<forall>t. DeviceSpecificDataOffset h t =
               (if Mem_IsNull (f t obj) then InvalidOffset
                else of_nat (GetCurrentSize (Pending_PerDeviceData (snd CP) t)))"
    by (auto simp: off all_types NewDataHeader_def)
  ultimately show ?thesis by blast
qed

text \<open>The objects of a map, one after the other.\<close>

lemma WriteObjects_append:
  "WriteObjects Type G W (xs @ ys) j CP =
     WriteObjects Type G W ys (j + length xs) (WriteObjects Type G W xs j CP)"
  by (induction xs arbitrary: j CP) simp_all

lemma WriteObjects_dev:
  "Blocks (Pending_PerDeviceData
            (snd (WriteObjects Type G (\<lambda>p T obj. WritePerDeviceData p T (f T obj) T) objs j CP)) t) =
     Blocks (Pending_PerDeviceData (snd CP) t) @ concat (map (\<lambda>x. CopiedBlocks (f t (snd x))) objs)"
  by (induction objs arbitrary: j CP) (simp_all add: WriteObject_dev)

lemma WriteObjects_chunkdata:
  "Pending_ChunkData (snd (WriteObjects Type G (\<lambda>p T obj. WritePerDeviceData p T (f T obj) T) objs j CP)) =
     Pending_ChunkData (snd CP)"
  by (induction objs arbitrary: j CP) (simp_all add: WriteObject_chunkdata)

lemma WriteObjects_shared:
  "\<exists>S. Blocks (Pending_SharedData
              (snd (WriteObjects Type G (\<lambda>p T obj. WritePerDeviceData p T (f T obj) T) objs j CP))) =
          Blocks (Pending_SharedData (snd CP)) @ S"
proof (induction objs arbitrary: j CP)
  case Nil
  show ?case by simp
next
  case (Cons x objs)
  let ?W = "\<lambda>p T obj. WritePerDeviceData p T (f T obj) T"
  from WriteObject_shared [of Type G f "snd x" j CP] obtain h where
    h: "Blocks (Pending_SharedData (snd (WriteObject Type G ?W (snd x) j CP))) =
          Blocks (Pending_SharedData (snd CP)) @ DataHeaderBlock h # CopiedBlocks (G (snd x))"
    by blast
  from Cons.IH [of "Suc j" "WriteObject Type G ?W (snd x) j CP"] obtain S where
    "Blocks (Pending_SharedData (snd (WriteObjects Type G ?W objs (Suc j) (WriteObject Type G ?W (snd x) j CP)))) =
       Blocks (Pending_SharedData (snd (WriteObject Type G ?W (snd x) j CP))) @ S"
    by blast
  then show ?case using h by simp
qed

lemma WriteObjects_names:
  "Names (fst (WriteObjects Type G W objs j CP)) = Names (fst CP) \<and>
   length (DataOffsetArray (fst (WriteObjects Type G W objs j CP))) = length (DataOffsetArray (fst CP))"
  by (induction objs arbitrary: j CP) (simp_all add: WriteObject_chunk)

lemma WriteObjects_offsets_before:
  "k < j \<Longrightarrow> DataOffsetArray (fst (WriteObjects Type G W objs j CP)) ! k = DataOffsetArray (fst CP) ! k"
proof (induction objs arbitrary: j CP)
  case Nil
  show ?case by simp
next
  case (Cons x objs)
  have "DataOffsetArray (fst (WriteObjects Type G W objs (Suc j) (WriteObject Type G W (snd x) j CP))) ! k =
        DataOffsetArray (fst (WriteObject Type G W (snd x) j CP)) ! k"
    using Cons.prems by (intro Cons.IH) simp
  then show ?case using Cons.prems by (simp add: WriteObject_chunk)
qed


lemma WriteObjects_split:
  fixes f :: "DeviceType \<Rightarrow> 'v \<Rightarrow> SerializedMemory"
  assumes len: "length (DataOffsetArray (fst CP)) = length (pre @ x # post)"
  shows "\<exists>S_pre h S_post.
           Blocks (Pending_SharedData
             (snd (WriteObjects Type G (\<lambda>p T obj. WritePerDeviceData p T (f T obj) T) (pre @ x # post) 0 CP))) =
             (Blocks (Pending_SharedData (snd CP)) @ S_pre) @ DataHeaderBlock h # CopiedBlocks (G (snd x)) @ S_post \<and>
           DataOffsetArray
             (fst (WriteObjects Type G (\<lambda>p T obj. WritePerDeviceData p T (f T obj) T) (pre @ x # post) 0 CP)) !
             length pre = of_nat (sum_list (map Block_size (Blocks (Pending_SharedData (snd CP)) @ S_pre))) \<and>
           Header_Type h = Type \<and>
           (\<forall>t. DeviceSpecificDataSize h t = of_nat (Mem_Size (f t (snd x)))) \<and>
           (\<forall>t. DeviceSpecificDataOffset h t =
                  (if Mem_IsNull (f t (snd x)) then InvalidOffset
                   else of_nat (sum_list (map Block_size
                          (Blocks (Pending_PerDeviceData (snd CP) t) @
                           concat (map (\<lambda>y. CopiedBlocks (f t (snd y))) pre))))))"
proof -
  let ?W = "\<lambda>p T obj. WritePerDeviceData p T (f T obj) T"
  let ?R0 = "WriteObjects Type G ?W pre 0 CP"
  let ?R1 = "WriteObject Type G ?W (snd x) (length pre) ?R0"
  let ?R2 = "WriteObjects Type G ?W post (Suc (length pre)) ?R1"
  have R: "WriteObjects Type G ?W (pre @ x # post) 0 CP = ?R2"
    by (simp add: WriteObjects_append)
  from WriteObjects_shared [of Type G f pre 0 CP] obtain S_pre where
    s0: "Blocks (Pending_SharedData (snd ?R0)) = Blocks (Pending_SharedData (snd CP)) @ S_pre"
    by blast
  from WriteObject_shared [of Type G f "snd x" "length pre" ?R0] obtain h where
    s1: "Blocks (Pending_SharedData (snd ?R1)) =
           Blocks (Pending_SharedData (snd ?R0)) @ DataHeaderBlock h # CopiedBlocks (G (snd x))"
    and ty: "Header_Type h = Type"
    and sz: "\<forall>t. DeviceSpecificDataSize h t = of_nat (Mem_Size (f t (snd x)))"
    and off: "\<forall>t. DeviceSpecificDataOffset h t =
               (if Mem_IsNull (f t (snd x)) then InvalidOffset
                else of_nat (GetCurrentSize (Pending_PerDeviceData (snd ?R0) t)))"
    by blast
  from WriteObjects_shared [of Type G f post "Suc (length pre)" ?R1] obtain S_post where
    s2: "Blocks (Pending_SharedData (snd ?R2)) = Blocks (Pending_SharedData (snd ?R1)) @ S_post"
    by blast
  have l0: "length pre < length (DataOffsetArray (fst ?R0))"
    using len WriteObjects_names [of Type G ?W pre 0 CP] by simp
  have o1: "DataOffsetArray (fst ?R1) ! length pre = of_nat (GetCurrentSize (Pending_SharedData (snd ?R0)))"
    using l0 by (simp add: WriteObject_chunk)
  have o2: "DataOffsetArray (fst ?R2) ! length pre = DataOffsetArray (fst ?R1) ! length pre"
    by (rule WriteObjects_offsets_before) simp
  have a: "Blocks (Pending_SharedData (snd ?R2)) =
             (Blocks (Pending_SharedData (snd CP)) @ S_pre) @ DataHeaderBlock h # CopiedBlocks (G (snd x)) @ S_post"
    using s0 s1 s2 by simp
  have b: "DataOffsetArray (fst ?R2) ! length pre =
             of_nat (sum_list (map Block_size (Blocks (Pending_SharedData (snd CP)) @ S_pre)))"
    using o1 o2 s0 by (simp add: GetCurrentSize_def)
  have c: "\<forall>t. DeviceSpecificDataOffset h t =
                  (if Mem_IsNull (f t (snd x)) then InvalidOffset
                   else of_nat (sum_list (map Block_size
                          (Blocks (Pending_PerDeviceData (snd CP) t) @
                           concat (map (\<lambda>y. CopiedBlocks (f t (snd y))) pre)))))"
    using off by (simp add: GetCurrentSize_def WriteObjects_dev)
  show ?thesis
    unfolding R using a b ty sz c by blast
qed

text \<open>A whole map: \<^verbatim>\<open>WriteDeviceObjectData\<close>.\<close>

lemma WriteDeviceObjectData_dev:
  "Blocks (Pending_PerDeviceData
            (WriteDeviceObjectData Type G (\<lambda>p T obj. WritePerDeviceData p T (f T obj) T) Map P) t) =
     Blocks (Pending_PerDeviceData P t) @ concat (map (\<lambda>x. CopiedBlocks (f t (snd x))) Map)"
  by (simp add: WriteDeviceObjectData_def split_beta WriteObjects_dev)

lemma WriteDeviceObjectData_shared:
  "\<exists>S. Blocks (Pending_SharedData
              (WriteDeviceObjectData Type G (\<lambda>p T obj. WritePerDeviceData p T (f T obj) T) Map P)) =
          Blocks (Pending_SharedData P) @ S"
proof (cases "Map = []")
  case True
  then show ?thesis by (simp add: WriteDeviceObjectData_def)
next
  case False
  from WriteObjects_shared [of Type G f Map 0 "(InitNamedResourceArrayHeader G Map, P)"]
  show ?thesis using False by (simp add: WriteDeviceObjectData_def split_beta)
qed

lemma WriteDeviceObjectData_other_chunk:
  "T' \<noteq> Type \<Longrightarrow>
   Pending_ChunkData (WriteDeviceObjectData Type G (\<lambda>p T obj. WritePerDeviceData p T (f T obj) T) Map P) T' =
     Pending_ChunkData P T'"
  by (simp add: WriteDeviceObjectData_def split_beta WriteObjects_chunkdata)

lemma WriteDeviceObjectData_split:
  fixes f :: "DeviceType \<Rightarrow> 'v \<Rightarrow> SerializedMemory"
  assumes Map: "Map = pre @ x # post"
  shows "\<exists>chunk S_pre h S_post.
           Pending_ChunkData
             (WriteDeviceObjectData Type G (\<lambda>p T obj. WritePerDeviceData p T (f T obj) T) Map P) Type = Some chunk \<and>
           Names chunk = map fst Map \<and>
           Blocks (Pending_SharedData
             (WriteDeviceObjectData Type G (\<lambda>p T obj. WritePerDeviceData p T (f T obj) T) Map P)) =
             S_pre @ DataHeaderBlock h # CopiedBlocks (G (snd x)) @ S_post \<and>
           DataOffsetArray chunk ! length pre = of_nat (sum_list (map Block_size S_pre)) \<and>
           Header_Type h = Type \<and>
           (\<forall>t. DeviceSpecificDataSize h t = of_nat (Mem_Size (f t (snd x)))) \<and>
           (\<forall>t. DeviceSpecificDataOffset h t =
                  (if Mem_IsNull (f t (snd x)) then InvalidOffset
                   else of_nat (sum_list (map Block_size
                          (Blocks (Pending_PerDeviceData P t) @
                           concat (map (\<lambda>y. CopiedBlocks (f t (snd y))) pre))))))"
proof -
  let ?W = "\<lambda>p T obj. WritePerDeviceData p T (f T obj) T"
  let ?CP = "(InitNamedResourceArrayHeader G Map, P)"
  let ?R = "WriteObjects Type G ?W (pre @ x # post) 0 ?CP"
  have len: "length (DataOffsetArray (fst ?CP)) = length (pre @ x # post)"
    by (simp add: InitNamedResourceArrayHeader_def Map)
  from WriteObjects_split [OF len, of Type G f] obtain S_pre h S_post where
    a: "Blocks (Pending_SharedData (snd ?R)) =
          (Blocks (Pending_SharedData P) @ S_pre) @ DataHeaderBlock h # CopiedBlocks (G (snd x)) @ S_post"
    and b: "DataOffsetArray (fst ?R) ! length pre =
              of_nat (sum_list (map Block_size (Blocks (Pending_SharedData P) @ S_pre)))"
    and ty: "Header_Type h = Type"
    and sz: "\<forall>t. DeviceSpecificDataSize h t = of_nat (Mem_Size (f t (snd x)))"
    and off: "\<forall>t. DeviceSpecificDataOffset h t =
                  (if Mem_IsNull (f t (snd x)) then InvalidOffset
                   else of_nat (sum_list (map Block_size
                          (Blocks (Pending_PerDeviceData P t) @
                           concat (map (\<lambda>y. CopiedBlocks (f t (snd y))) pre)))))"
    by (simp only: fst_conv snd_conv) blast
  have W: "WriteDeviceObjectData Type G ?W Map P =
             (snd ?R)\<lparr>Pending_ChunkData := (Pending_ChunkData (snd ?R))(Type := Some (fst ?R))\<rparr>"
    by (simp add: WriteDeviceObjectData_def split_beta Map)
  have n: "Names (fst ?R) = map fst Map"
    using WriteObjects_names [of Type G ?W "pre @ x # post" 0 ?CP]
    by (simp add: InitNamedResourceArrayHeader_def)
  have c: "Pending_ChunkData (WriteDeviceObjectData Type G ?W Map P) Type = Some (fst ?R)"
    by (simp add: W)
  have s: "Blocks (Pending_SharedData (WriteDeviceObjectData Type G ?W Map P)) =
             (Blocks (Pending_SharedData P) @ S_pre) @ DataHeaderBlock h # CopiedBlocks (G (snd x)) @ S_post"
    using a by (simp add: W)
  show ?thesis
    using c n s b ty sz off by blast
qed

text \<open>The three per-device writers are of this form.\<close>

lemma WritePRSPerDeviceData_form:
  "WritePRSPerDeviceData =
     (\<lambda>p T obj. WritePerDeviceData p T (PRS_GetDeviceData obj (PRSDeviceTypeFor T)) T)"
  by (intro ext) (simp add: WritePRSPerDeviceData_def PRSDeviceTypeFor_def)

lemma WriteRPPerDeviceData_form:
  "WriteRPPerDeviceData = (\<lambda>p T obj. WritePerDeviceData p T None T)"
  by (intro ext) (simp add: WriteRPPerDeviceData_def WritePerDeviceData_def Mem_IsNull_def Mem_Size_def)

lemma WritePSOPerDeviceData_form:
  "WritePSOPerDeviceData = (\<lambda>p T obj. WritePerDeviceData p T (PerDeviceData obj T) T)"
  by (intro ext) (simp add: WritePSOPerDeviceData_def)

text \<open>\<^verbatim>\<open>ReserveSpace\<close>: what is added up for a back-end.\<close>

lemma fold_ReservePRS_reserved:
  "ReservedSize (Pending_PerDeviceData (fold (\<lambda>x. ReservePRS (snd x)) xs P) t) =
     ReservedSize (Pending_PerDeviceData P t) +
     sum_list (map (\<lambda>x. Mem_Size (PRS_GetDeviceData (snd x) (PRSDeviceTypeFor t))) xs)"
  by (induction xs arbitrary: P) (simp_all add: ReservePRS_def AddSpace_def)

lemma fold_ReserveRP_reserved:
  "Pending_PerDeviceData (fold (\<lambda>x. ReserveRP (snd x)) xs P) = Pending_PerDeviceData P"
  by (induction xs arbitrary: P) (simp_all add: ReserveRP_def)

lemma fold_ReserveSpaceForPSO_reserved:
  "ReservedSize (Pending_PerDeviceData (fold (\<lambda>x. ReserveSpaceForPSO (snd x)) xs P) t) =
     ReservedSize (Pending_PerDeviceData P t) +
     sum_list (map (\<lambda>x. Mem_Size (PerDeviceData (snd x) t)) xs)"
  by (induction xs arbitrary: P) (simp_all add: ReserveSpaceForPSO_def AddSpace_def)

lemma ReserveSpace_reserved:
  "ReservedSize (Pending_PerDeviceData (ReserveSpace w Pending) t) =
     ReservedSize (ReserveShaders w t NewDataElement) +
     sum_list (map (\<lambda>x. Mem_Size (PRS_GetDeviceData (snd x) (PRSDeviceTypeFor t))) (m_PRSMap w)) +
     sum_list (map (\<lambda>x. Mem_Size (PerDeviceData (snd x) t))
       (m_GraphicsPSOMap w @ m_ComputePSOMap w @ m_TilePSOMap w @ m_RayTracingPSOMap w))"
  by (simp add: ReserveSpace_def Let_def fold_ReserveSpaceForPSO_reserved fold_ReserveRP_reserved
        fold_ReservePRS_reserved)


lemma concat_no_blocks: "concat (map (\<lambda>x. CopiedBlocks None) xs) = []"
  by (induction xs) (simp_all add: CopiedBlocks_def Mem_IsNull_def Mem_Size_def)

text \<open>
  C9. Take any signature \<open>d\<close> of the writer's map, the signatures before it (\<open>pre\<close>) and after
  it (\<open>post\<close>) in the order of the loops. What \<^verbatim>\<open>ReserveSpace\<close> reserves for the macOS block is
  the space of the shaders, then for every signature the size of its iOS bytes (for \<open>d\<close> the
  size of the iOS bytes of \<open>d\<close>), then the macOS bytes of the pipelines. After the writes of
  \<^verbatim>\<open>SerializeToStream\<close> the macOS block is the shader block, then for every signature its iOS
  bytes (nothing for a signature that has none), those of \<open>d\<close> at its place, then the macOS
  bytes of the pipelines: the macOS bytes of a signature are nowhere in it. The signature's
  header is in the shared data, followed by the signature's shared bytes, at the offset that
  the chunk records for the signature; in its macOS slot it holds the size of the iOS bytes
  of \<open>d\<close> and the offset in the macOS block at which they were put (the sentinel when there
  are none).
\<close>

theorem PRS_MacOS_block_holds_iOS_bytes:
  assumes split: "m_PRSMap w = pre @ (Name, d) # post"
  shows "let ios = PRS_GetDeviceData d Metal_iOS;
             iosOf = (\<lambda>x. PRS_GetDeviceData (snd x) Metal_iOS);
             PSOs = m_GraphicsPSOMap w @ m_ComputePSOMap w @ m_TilePSOMap w @ m_RayTracingPSOMap w;
             B_pre = Blocks (Pending_PerDeviceData (WriteShaderData w (ReserveSpace w NewPendingData)) Metal_MacOS) @
                     concat (map (\<lambda>x. CopiedBlocks (iosOf x)) pre)
         in ReservedSize (Pending_PerDeviceData (ReserveSpace w Pending) Metal_MacOS) =
              ReservedSize (ReserveShaders w Metal_MacOS NewDataElement) +
              sum_list (map (\<lambda>x. Mem_Size (iosOf x)) pre) + Mem_Size ios +
              sum_list (map (\<lambda>x. Mem_Size (iosOf x)) post) +
              sum_list (map (\<lambda>x. Mem_Size (PerDeviceData (snd x) Metal_MacOS)) PSOs) \<and>
            Blocks (Pending_PerDeviceData (WritePending w) Metal_MacOS) =
              B_pre @ CopiedBlocks ios @ concat (map (\<lambda>x. CopiedBlocks (iosOf x)) post) @
              concat (map (\<lambda>x. CopiedBlocks (PerDeviceData (snd x) Metal_MacOS)) PSOs) \<and>
            (\<exists>chunk S_pre h S_post.
               Pending_ChunkData (WritePending w) ResourceSignature = Some chunk \<and>
               Names chunk = map fst (m_PRSMap w) \<and>
               Blocks (Pending_SharedData (WritePending w)) =
                 S_pre @ DataHeaderBlock h # CopiedBlocks (PRS_GetSharedData d) @ S_post \<and>
               DataOffsetArray chunk ! length pre = of_nat (sum_list (map Block_size S_pre)) \<and>
               Header_Type h = ResourceSignature \<and>
               DeviceSpecificDataSize h Metal_MacOS = of_nat (Mem_Size ios) \<and>
               DeviceSpecificDataOffset h Metal_MacOS =
                 (if Mem_IsNull ios then InvalidOffset else of_nat (sum_list (map Block_size B_pre))))"
proof -
  let ?fP = "\<lambda>T obj. PRS_GetDeviceData obj (PRSDeviceTypeFor T)"
  let ?fR = "\<lambda>(T :: DeviceType) (obj :: RPData). (None :: SerializedMemory)"
  let ?fS = "\<lambda>T obj. PerDeviceData obj T"
  let ?WP = "\<lambda>p T obj. WritePerDeviceData p T (?fP T obj) T"
  let ?WR = "\<lambda>p T obj. WritePerDeviceData p T (?fR T obj) T"
  let ?WS = "\<lambda>p T obj. WritePerDeviceData p T (?fS T obj) T"
  let ?P1 = "WriteShaderData w (ReserveSpace w NewPendingData)"
  let ?P2 = "WriteDeviceObjectData ResourceSignature PRS_GetSharedData ?WP (m_PRSMap w) ?P1"
  let ?P3 = "WriteDeviceObjectData RenderPass RP_GetSharedData ?WR (m_RPMap w) ?P2"
  let ?P4 = "WriteDeviceObjectData GraphicsPipelineStates SharedData ?WS (m_GraphicsPSOMap w) ?P3"
  let ?P5 = "WriteDeviceObjectData ComputePipelineStates SharedData ?WS (m_ComputePSOMap w) ?P4"
  let ?P6 = "WriteDeviceObjectData TilePipelineStates SharedData ?WS (m_TilePSOMap w) ?P5"
  let ?P7 = "WriteDeviceObjectData RayTracingPipelineStates SharedData ?WS (m_RayTracingPSOMap w) ?P6"
  have F: "WritePending w = ?P7"
    by (simp add: WritePending_def Let_def WritePRSPerDeviceData_form WriteRPPerDeviceData_form
          WritePSOPerDeviceData_form)
  have ios: "PRSDeviceTypeFor Metal_MacOS = Metal_iOS" by (simp add: PRSDeviceTypeFor_def)
  have res: "ReservedSize (Pending_PerDeviceData (ReserveSpace w Pending) Metal_MacOS) =
              ReservedSize (ReserveShaders w Metal_MacOS NewDataElement) +
              sum_list (map (\<lambda>x. Mem_Size (PRS_GetDeviceData (snd x) Metal_iOS)) pre) +
              Mem_Size (PRS_GetDeviceData d Metal_iOS) +
              sum_list (map (\<lambda>x. Mem_Size (PRS_GetDeviceData (snd x) Metal_iOS)) post) +
              sum_list (map (\<lambda>x. Mem_Size (PerDeviceData (snd x) Metal_MacOS))
                (m_GraphicsPSOMap w @ m_ComputePSOMap w @ m_TilePSOMap w @ m_RayTracingPSOMap w))"
    by (simp add: ReserveSpace_reserved ios split)
  have dev: "Blocks (Pending_PerDeviceData ?P7 Metal_MacOS) =
              (Blocks (Pending_PerDeviceData ?P1 Metal_MacOS) @
               concat (map (\<lambda>x. CopiedBlocks (PRS_GetDeviceData (snd x) Metal_iOS)) pre)) @
              CopiedBlocks (PRS_GetDeviceData d Metal_iOS) @
              concat (map (\<lambda>x. CopiedBlocks (PRS_GetDeviceData (snd x) Metal_iOS)) post) @
              concat (map (\<lambda>x. CopiedBlocks (PerDeviceData (snd x) Metal_MacOS))
                (m_GraphicsPSOMap w @ m_ComputePSOMap w @ m_TilePSOMap w @ m_RayTracingPSOMap w))"
    by (simp add: WriteDeviceObjectData_dev [where f = ?fP] WriteDeviceObjectData_dev [where f = ?fR]
          WriteDeviceObjectData_dev [where f = ?fS] ios split concat_no_blocks)
  from WriteDeviceObjectData_split [OF split, of ResourceSignature PRS_GetSharedData ?fP ?P1]
  obtain chunk S_pre h S_post where
    c2: "Pending_ChunkData ?P2 ResourceSignature = Some chunk"
    and n: "Names chunk = map fst (m_PRSMap w)"
    and s2: "Blocks (Pending_SharedData ?P2) =
               S_pre @ DataHeaderBlock h # CopiedBlocks (PRS_GetSharedData d) @ S_post"
    and o: "DataOffsetArray chunk ! length pre = of_nat (sum_list (map Block_size S_pre))"
    and ty: "Header_Type h = ResourceSignature"
    and sz: "\<forall>t. DeviceSpecificDataSize h t = of_nat (Mem_Size (PRS_GetDeviceData d (PRSDeviceTypeFor t)))"
    and off: "\<forall>t. DeviceSpecificDataOffset h t =
                (if Mem_IsNull (PRS_GetDeviceData d (PRSDeviceTypeFor t)) then InvalidOffset
                 else of_nat (sum_list (map Block_size
                        (Blocks (Pending_PerDeviceData ?P1 t) @
                         concat (map (\<lambda>y. CopiedBlocks (PRS_GetDeviceData (snd y) (PRSDeviceTypeFor t))) pre)))))"
    by (simp only: snd_conv) blast
  have c7: "Pending_ChunkData ?P7 ResourceSignature = Some chunk"
    using c2
    by (simp add: WriteDeviceObjectData_other_chunk [where f = ?fR]
          WriteDeviceObjectData_other_chunk [where f = ?fS])
  obtain S3 where s3: "Blocks (Pending_SharedData ?P3) = Blocks (Pending_SharedData ?P2) @ S3"
    using WriteDeviceObjectData_shared [of RenderPass RP_GetSharedData ?fR "m_RPMap w" ?P2] by blast
  obtain S4 where s4: "Blocks (Pending_SharedData ?P4) = Blocks (Pending_SharedData ?P3) @ S4"
    using WriteDeviceObjectData_shared [of GraphicsPipelineStates SharedData ?fS "m_GraphicsPSOMap w" ?P3] by blast
  obtain S5 where s5: "Blocks (Pending_SharedData ?P5) = Blocks (Pending_SharedData ?P4) @ S5"
    using WriteDeviceObjectData_shared [of ComputePipelineStates SharedData ?fS "m_ComputePSOMap w" ?P4] by blast
  obtain S6 where s6: "Blocks (Pending_SharedData ?P6) = Blocks (Pending_SharedData ?P5) @ S6"
    using WriteDeviceObjectData_shared [of TilePipelineStates SharedData ?fS "m_TilePSOMap w" ?P5] by blast
  obtain S7 where s7: "Blocks (Pending_SharedData ?P7) = Blocks (Pending_SharedData ?P6) @ S7"
    using WriteDeviceObjectData_shared [of RayTracingPipelineStates SharedData ?fS "m_RayTracingPSOMap w" ?P6] by blast
  have sh: "Blocks (Pending_SharedData ?P7) =
              S_pre @ DataHeaderBlock h # CopiedBlocks (PRS_GetSharedData d) @ (S_post @ S3 @ S4 @ S5 @ S6 @ S7)"
    by (simp only: s7 s6 s5 s4 s3 s2) simp
  have szM: "DeviceSpecificDataSize h Metal_MacOS = of_nat (Mem_Size (PRS_GetDeviceData d Metal_iOS))"
    using sz ios by simp
  have offM: "DeviceSpecificDataOffset h Metal_MacOS =
                (if Mem_IsNull (PRS_GetDeviceData d Metal_iOS) then InvalidOffset
                 else of_nat (sum_list (map Block_size
                        (Blocks (Pending_PerDeviceData ?P1 Metal_MacOS) @
                         concat (map (\<lambda>y. CopiedBlocks (PRS_GetDeviceData (snd y) Metal_iOS)) pre)))))"
    using off [rule_format, of Metal_MacOS] ios by simp
  have ex: "\<exists>chunk S_pre h S_post.
               Pending_ChunkData ?P7 ResourceSignature = Some chunk \<and>
               Names chunk = map fst (m_PRSMap w) \<and>
               Blocks (Pending_SharedData ?P7) =
                 S_pre @ DataHeaderBlock h # CopiedBlocks (PRS_GetSharedData d) @ S_post \<and>
               DataOffsetArray chunk ! length pre = of_nat (sum_list (map Block_size S_pre)) \<and>
               Header_Type h = ResourceSignature \<and>
               DeviceSpecificDataSize h Metal_MacOS = of_nat (Mem_Size (PRS_GetDeviceData d Metal_iOS)) \<and>
               DeviceSpecificDataOffset h Metal_MacOS =
                 (if Mem_IsNull (PRS_GetDeviceData d Metal_iOS) then InvalidOffset
                 else of_nat (sum_list (map Block_size
                        (Blocks (Pending_PerDeviceData ?P1 Metal_MacOS) @
                         concat (map (\<lambda>y. CopiedBlocks (PRS_GetDeviceData (snd y) Metal_iOS)) pre)))))"
    using c7 n sh o ty szM offM by blast
  show ?thesis
    unfolding Let_def F using res dev ex by (simp only: snd_conv)
qed


lemma ios_sigS: "PRS_GetDeviceData \<lparr>pPRS = sigS\<rparr> Metal_iOS = Some [7, 8, 9]"
  by (simp add: PRS_GetDeviceData_def sigS_def)

lemma ios_sigR: "PRS_GetDeviceData \<lparr>pPRS = sigR\<rparr> Metal_iOS = Some [4, 4]"
  by (simp add: PRS_GetDeviceData_def sigR_def)

lemma ArchiverWithRS_fields:
  "m_PRSMap ArchiverWithRS = [(''R'', \<lparr>pPRS = sigR\<rparr>)] @ (''S'', \<lparr>pPRS = sigS\<rparr>) # []"
  "m_GraphicsPSOMap ArchiverWithRS = [(''M'', PipelineDataM)]"
  "m_ComputePSOMap ArchiverWithRS = []"
  "m_TilePSOMap ArchiverWithRS = []"
  "m_RayTracingPSOMap ArchiverWithRS = []"
  "Shaders_List (m_Shaders ArchiverWithRS Metal_MacOS) = [[9, 9]]"
  by (simp_all add: ArchiverWithRS_def)

lemma ArchiverWithRS_shaders:
  "ReservedSize (ReserveShaders ArchiverWithRS Metal_MacOS NewDataElement) = 10"
  "Blocks (Pending_PerDeviceData (WriteShaderData ArchiverWithRS (ReserveSpace ArchiverWithRS NewPendingData))
     Metal_MacOS) = [OffsetAndSizeArray [\<lparr>Offset = 8, Size = 2\<rparr>], RawBytes [9, 9]]"
proof -
  show "ReservedSize (ReserveShaders ArchiverWithRS Metal_MacOS NewDataElement) = 10"
    by (simp add: ReserveShaders_def ArchiverWithRS_fields AddSpace_def NewDataElement_def
          sizeof_FileOffsetAndSize_def)
  have n: "\<not> list_all (\<lambda>type. Shaders_List (m_Shaders ArchiverWithRS type) = []) AllDeviceTypes"
    by (simp add: AllDeviceTypes_def ArchiverWithRS_fields)
  have b: "Blocks (Pending_PerDeviceData (ReserveSpace ArchiverWithRS NewPendingData) Metal_MacOS) = []"
    by (simp add: ReserveSpace_def ArchiverWithRS_def ReserveShaders_def ReservePRS_def
          ReserveSpaceForPSO_def AddSpace_def NewDataElement_def)
  show "Blocks (Pending_PerDeviceData (WriteShaderData ArchiverWithRS (ReserveSpace ArchiverWithRS NewPendingData))
     Metal_MacOS) = [OffsetAndSizeArray [\<lparr>Offset = 8, Size = 2\<rparr>], RawBytes [9, 9]]"
    using n by (simp add: WriteShaderData_def WriteShaderBlock_def ArchiverWithRS_fields b
          GetCurrentSize_def sizeof_FileOffsetAndSize_def Let_def)
qed

text \<open>
  A writer with a macOS shader of two bytes, the signatures \<open>R\<close> and \<open>S\<close> and a pipeline
  with one macOS byte. Signature \<open>S\<close> has iOS bytes 7, 8, 9 and macOS bytes 1: 16 bytes are
  reserved for the macOS block, 3 of them for \<open>S\<close>; the block receives 7, 8, 9 after the
  shader block and the two iOS bytes of \<open>R\<close>, and the macOS slot of the header of \<open>S\<close>
  records size 3 at offset 12.
\<close>

theorem PRS_MacOS_block_holds_iOS_bytes_witness:
  "m_PRSMap ArchiverWithRS = [(''R'', \<lparr>pPRS = sigR\<rparr>)] @ (''S'', \<lparr>pPRS = sigS\<rparr>) # [] \<and>
   PRS_GetDeviceData \<lparr>pPRS = sigS\<rparr> Metal_iOS = Some [7, 8, 9] \<and>
   PRS_GetDeviceData \<lparr>pPRS = sigS\<rparr> Metal_MacOS = Some [1] \<and>
   ReservedSize (Pending_PerDeviceData (ReserveSpace ArchiverWithRS NewPendingData) Metal_MacOS) =
     10 + 2 + 3 + 0 + 1 \<and>
   Blocks (Pending_PerDeviceData (WritePending ArchiverWithRS) Metal_MacOS) =
     [OffsetAndSizeArray [\<lparr>Offset = 8, Size = 2\<rparr>], RawBytes [9, 9], RawBytes [4, 4],
      RawBytes [7, 8, 9], RawBytes [6]] \<and>
   (\<exists>chunk S_pre h S_post.
      Pending_ChunkData (WritePending ArchiverWithRS) ResourceSignature = Some chunk \<and>
      Names chunk = [''R'', ''S''] \<and>
      Blocks (Pending_SharedData (WritePending ArchiverWithRS)) =
        S_pre @ DataHeaderBlock h # [RawBytes [5]] @ S_post \<and>
      DataOffsetArray chunk ! 1 = of_nat (sum_list (map Block_size S_pre)) \<and>
      Header_Type h = ResourceSignature \<and>
      DeviceSpecificDataSize h Metal_MacOS = 3 \<and>
      DeviceSpecificDataOffset h Metal_MacOS = 12)"
proof -
  have m: "PRS_GetDeviceData \<lparr>pPRS = sigS\<rparr> Metal_MacOS = Some [1]"
    by (simp add: PRS_GetDeviceData_def sigS_def)
  have sh: "PRS_GetSharedData \<lparr>pPRS = sigS\<rparr> = Some [5]"
    by (simp add: PRS_GetSharedData_def sigS_def)
  have p: "PerDeviceData PipelineDataM Metal_MacOS = Some [6]"
    by (simp add: PipelineDataM_def)
  show ?thesis
    using PRS_MacOS_block_holds_iOS_bytes [OF ArchiverWithRS_fields(1), where Pending = NewPendingData]
    by (simp add: Let_def ArchiverWithRS_fields ArchiverWithRS_shaders ios_sigS ios_sigR m sh p
          CopiedBlocks_def Mem_IsNull_def Mem_Size_def Mem_Bytes_def sizeof_FileOffsetAndSize_def)
qed

subsection \<open>Construction of the reader\<close>







lemma NewArchiveBase_chunks:
  assumes "sizeof_ArchiveHeader + sizeof_ChunkHeader * unat (NumChunks (HeaderOf bs)) \<le> length bs"
    and "\<not> HasBadMagic fmt bs" and "\<not> HasUnsupportedVersion fmt bs"
  shows "NewArchiveBase fmt (Some bs) dev =
         ReadChunks fmt (ChunksOf bs) []
           \<lparr>m_pArchive = bs, m_DevType = dev, m_BaseOffsets = BlockBaseOffsets (HeaderOf bs),
            m_DebugInfo = \<lparr>APIVersion = 0, GitHash = []\<rparr>,
            m_PRSMap' = [], m_RenderPassMap = [], m_GraphicsPSOMap' = [],
            m_ComputePSOMap' = [], m_TilePSOMap' = [], m_RayTracingPSOMap' = [],
            m_Shaders' = []\<rparr>"
  using assms
  by (simp add: NewArchiveBase_def Archive_Read_def HeaderOf_def ChunksOf_def Let_def
      HasBadMagic_def HasUnsupportedVersion_def)









text \<open>Sources for the examples: the header of the examples and one chunk header.\<close>

lemma ExampleFormat_simps:
  "HeaderMagicNumber ExampleFormat = 0x54415243"
  "HeaderVersion ExampleFormat = 1"
  "ChunkTypeOf ExampleFormat = ChunkTypeInSwitchOrder"
  by (simp_all add: ExampleFormat_def)

lemma HeaderOf_append:
  "length h = 36 \<Longrightarrow> HeaderOf (h @ rest) = decode_ArchiveHeader h"
  by (simp add: HeaderOf_def sizeof_ArchiveHeader_def)

lemma ChunksOf_append:
  "length h = 36 \<Longrightarrow> unat (NumChunks (decode_ArchiveHeader h)) = n \<Longrightarrow> length cb = 12 * n \<Longrightarrow>
   ChunksOf (h @ cb @ rest) = decode_ChunkHeaders cb n"
  by (simp add: ChunksOf_def HeaderOf_append sizeof_ArchiveHeader_def sizeof_ChunkHeader_def)

lemma HeaderOneChunk_length: "length HeaderOneChunk = 36"
  by (simp add: HeaderOneChunk_def)

lemma HeaderOneChunk_fields:
  "MagicNumber (decode_ArchiveHeader HeaderOneChunk) = 0x54415243"
  "Version (decode_ArchiveHeader HeaderOneChunk) = 1"
  "unat (NumChunks (decode_ArchiveHeader HeaderOneChunk)) = 1"
  by (simp_all add: decode_ArchiveHeader_def HeaderOneChunk_def u32_at_def)

lemma decode_one_chunk:
  "decode_ChunkHeaders [a0, a1, a2, a3, b0, b1, b2, b3, c0, c1, c2, c3] (Suc 0) =
     [\<lparr>Chunk_Type = u32_at [a0, a1, a2, a3] 0, Chunk_Size = u32_at [b0, b1, b2, b3] 0,
       Chunk_Offset = u32_at [c0, c1, c2, c3] 0\<rparr>]"
  by (simp add: decode_ChunkHeaders_def u32_at_def)




lemma OverflowArchive_chunks:
  "ChunksOf OverflowArchive = [\<lparr>Chunk_Type = 2, Chunk_Size = 18, Chunk_Offset = 48\<rparr>]"
proof -
  have "ChunksOf (HeaderOneChunk @ [2, 0, 0, 0, 18, 0, 0, 0, 48, 0, 0, 0] @
          [1, 0, 0, 0,  2, 0, 0, 0,  1, 0, 0, 0,  0xFF, 0xFF, 0xFF, 0xFF,  0x41, 0]) =
        decode_ChunkHeaders [2, 0, 0, 0, 18, 0, 0, 0, 48, 0, 0, 0] 1"
    by (rule ChunksOf_append) (simp_all add: HeaderOneChunk_length HeaderOneChunk_fields)
  then show ?thesis by (simp add: OverflowArchive_def decode_one_chunk u32_at_def)
qed

lemma OverflowArchive_body:
  "Archive_Read OverflowArchive 48 18 =
     Some [1, 0, 0, 0,  2, 0, 0, 0,  1, 0, 0, 0,  0xFF, 0xFF, 0xFF, 0xFF,  0x41, 0]"
  by (simp add: Archive_Read_def OverflowArchive_def HeaderOneChunk_def)

lemma char_A: "char_of_byte 0x41 = CHR ''A''" "char_of_byte 0x42 = CHR ''B''"
  by (simp_all add: char_of_byte_def char_of_def bit_0)

lemma OverflowArchive_names:
  "ReadNamedResources OverflowArchive \<lparr>Chunk_Type = 2, Chunk_Size = 18, Chunk_Offset = 48\<rparr> [] =
     Inr [(''A'', \<lparr>Res_Offset = 0xFFFFFFFF, Res_Size = 1, Cache = None\<rparr>)]"
proof -
  have l: "length OverflowArchive = 66" by (simp add: OverflowArchive_def HeaderOneChunk_def)
  show ?thesis
    by (simp add: ReadNamedResources_def OverflowArchive_body u32_opt_def u32_at_def l
        CStringAt_def emplace_def char_A)
qed

text \<open>
  C7, at the archive of 66 bytes whose one signature entry has data offset \<^verbatim>\<open>0xFFFFFFFF\<close> and
  data size 1: offset plus size is far past the end of the archive, the 32-bit sum is 0, and
  construction succeeds with the entry in the directory.
\<close>

theorem ReadNamedResources_accepts_wrapped_offset:
  "unat (0xFFFFFFFF :: Uint32) + unat (1 :: Uint32) > length OverflowArchive \<and>
   map_sum id m_PRSMap' (NewArchiveBase ExampleFormat (Some OverflowArchive) OpenGL) =
     Inr [(''A'', \<lparr>Res_Offset = 0xFFFFFFFF, Res_Size = 1, Cache = None\<rparr>)]"
proof -
  have l: "length OverflowArchive = 66" by (simp add: OverflowArchive_def HeaderOneChunk_def)
  have h: "HeaderOf OverflowArchive = decode_ArchiveHeader HeaderOneChunk"
    unfolding OverflowArchive_def by (rule HeaderOf_append) (rule HeaderOneChunk_length)
  have m: "\<not> HasBadMagic ExampleFormat OverflowArchive"
    by (simp add: HasBadMagic_def h HeaderOneChunk_fields ExampleFormat_simps)
  have v: "\<not> HasUnsupportedVersion ExampleFormat OverflowArchive"
    by (simp add: HasUnsupportedVersion_def h HeaderOneChunk_fields ExampleFormat_simps)
  have s: "sizeof_ArchiveHeader + sizeof_ChunkHeader * unat (NumChunks (HeaderOf OverflowArchive))
           \<le> length OverflowArchive"
    by (simp add: h HeaderOneChunk_fields l sizeof_ArchiveHeader_def sizeof_ChunkHeader_def)
  show ?thesis
    unfolding NewArchiveBase_chunks [OF s m v]
    by (simp add: OverflowArchive_chunks ReadChunk_def ExampleFormat_simps ChunkTypeInSwitchOrder_def
        OverflowArchive_names with_map_def l)
qed

text \<open>
  The second way past the buffer: both checks pass for the entry whose two name bytes hold no
  zero, and the read of the name runs off the end of the chunk, which ends the archive.
\<close>

lemma UnterminatedArchive_chunks:
  "ChunksOf UnterminatedArchive = [\<lparr>Chunk_Type = 2, Chunk_Size = 18, Chunk_Offset = 48\<rparr>]"
proof -
  have "ChunksOf (HeaderOneChunk @ [2, 0, 0, 0, 18, 0, 0, 0, 48, 0, 0, 0] @
          [1, 0, 0, 0,  2, 0, 0, 0,  1, 0, 0, 0,  0, 0, 0, 0,  0x41, 0x42]) =
        decode_ChunkHeaders [2, 0, 0, 0, 18, 0, 0, 0, 48, 0, 0, 0] 1"
    by (rule ChunksOf_append) (simp_all add: HeaderOneChunk_length HeaderOneChunk_fields)
  then show ?thesis by (simp add: UnterminatedArchive_def decode_one_chunk u32_at_def)
qed

lemma ReadNamedResources_unterminated_name:
  "NewArchiveBase ExampleFormat (Some UnterminatedArchive) OpenGL = Inl InvalidMemoryAccess"
proof -
  have l: "length UnterminatedArchive = 66" by (simp add: UnterminatedArchive_def HeaderOneChunk_def)
  have h: "HeaderOf UnterminatedArchive = decode_ArchiveHeader HeaderOneChunk"
    unfolding UnterminatedArchive_def by (rule HeaderOf_append) (rule HeaderOneChunk_length)
  have m: "\<not> HasBadMagic ExampleFormat UnterminatedArchive"
    by (simp add: HasBadMagic_def h HeaderOneChunk_fields ExampleFormat_simps)
  have v: "\<not> HasUnsupportedVersion ExampleFormat UnterminatedArchive"
    by (simp add: HasUnsupportedVersion_def h HeaderOneChunk_fields ExampleFormat_simps)
  have s: "sizeof_ArchiveHeader + sizeof_ChunkHeader * unat (NumChunks (HeaderOf UnterminatedArchive))
           \<le> length UnterminatedArchive"
    by (simp add: h HeaderOneChunk_fields l sizeof_ArchiveHeader_def sizeof_ChunkHeader_def)
  have b: "Archive_Read UnterminatedArchive 48 18 =
     Some [1, 0, 0, 0,  2, 0, 0, 0,  1, 0, 0, 0,  0, 0, 0, 0,  0x41, 0x42]"
    by (simp add: Archive_Read_def UnterminatedArchive_def HeaderOneChunk_def)
  have n: "ReadNamedResources UnterminatedArchive \<lparr>Chunk_Type = 2, Chunk_Size = 18, Chunk_Offset = 48\<rparr> [] =
     Inl InvalidMemoryAccess"
    by (simp add: ReadNamedResources_def b u32_opt_def u32_at_def l CStringAt_def)
  show ?thesis
    unfolding NewArchiveBase_chunks [OF s m v]
    by (simp add: UnterminatedArchive_chunks ReadChunk_def ExampleFormat_simps ChunkTypeInSwitchOrder_def
        n with_map_def)
qed











subsection \<open>Clearing the cache\<close>

text \<open>
  C10. \<^verbatim>\<open>ClearResourceCache\<close> releases the shader handles of the shader table and nothing else:
  the six named-resource directories with their weak references are as they were, as are the
  offsets and sizes of the shader table, the source, the device type, the base offsets and
  the debug info.
\<close>

theorem ClearResourceCache_releases_shaders_only:
  "m_PRSMap' (ClearResourceCache r) = m_PRSMap' r \<and>
   m_RenderPassMap (ClearResourceCache r) = m_RenderPassMap r \<and>
   m_GraphicsPSOMap' (ClearResourceCache r) = m_GraphicsPSOMap' r \<and>
   m_ComputePSOMap' (ClearResourceCache r) = m_ComputePSOMap' r \<and>
   m_TilePSOMap' (ClearResourceCache r) = m_TilePSOMap' r \<and>
   m_RayTracingPSOMap' (ClearResourceCache r) = m_RayTracingPSOMap' r \<and>
   m_pArchive (ClearResourceCache r) = m_pArchive r \<and>
   m_DevType (ClearResourceCache r) = m_DevType r \<and>
   m_BaseOffsets (ClearResourceCache r) = m_BaseOffsets r \<and>
   m_DebugInfo (ClearResourceCache r) = m_DebugInfo r \<and>
   map Shader_Offset (m_Shaders' (ClearResourceCache r)) = map Shader_Offset (m_Shaders' r) \<and>
   map Shader_Size (m_Shaders' (ClearResourceCache r)) = map Shader_Size (m_Shaders' r) \<and>
   map Shader_Cache (m_Shaders' (ClearResourceCache r)) = replicate (length (m_Shaders' r)) None"
  by (simp add: ClearResourceCache_def comp_def map_replicate_const)

subsection \<open>Unpacking with overrides\<close>

text \<open>
  Unpacking a signature, a render pass without overrides or the shaders reads and writes
  neither the directory of the graphics pipelines nor that of the tile pipelines: with other
  directories there, the same happens and they come back untouched.
\<close>

lemma map_of_WithCaches:
  "map_of (WithCaches c M) k = map_option (\<lambda>e. e\<lparr>Cache := c k\<rparr>) (map_of M k)"
  by (induction M) (auto simp add: WithCaches_def)

lemma LoadResourceData_WithCaches:
  "m_pArchive r' = m_pArchive r \<Longrightarrow>
   LoadResourceData (WithCaches c M) Name r' = LoadResourceData M Name r"
  by (simp add: LoadResourceData_def map_of_WithCaches split: option.splits)

lemma UnpackResourceSignatureImpl_frame:
  "UnpackResourceSignatureImpl fmt dev info (r\<lparr>m_GraphicsPSOMap' := G, m_TilePSOMap' := T\<rparr>) w =
     (case UnpackResourceSignatureImpl fmt dev info r w of
        (p, r', w') \<Rightarrow> (p, r'\<lparr>m_GraphicsPSOMap' := G, m_TilePSOMap' := T\<rparr>, w'))"
  by (simp add: UnpackResourceSignatureImpl_def LoadResourceData_def LoadDeviceSpecificData_def Let_def
           split: option.splits prod.splits)

lemma UnpackSignatures_frame:
  "UnpackSignatures fmt dev Ns Sigs (r\<lparr>m_GraphicsPSOMap' := G, m_TilePSOMap' := T\<rparr>) w =
     (case UnpackSignatures fmt dev Ns Sigs r w of
        (ok, S, r', w') \<Rightarrow> (ok, S, r'\<lparr>m_GraphicsPSOMap' := G, m_TilePSOMap' := T\<rparr>, w'))"
proof (induction Ns arbitrary: Sigs r w)
  case Nil
  show ?case by simp
next
  case (Cons Name rest)
  show ?case
    by (simp add: UnpackResourceSignatureImpl_frame Cons.IH split: prod.splits option.splits)
qed

lemma CreateResourceSignatures_frame:
  "CreateResourceSignatures fmt dev CI Ns (r\<lparr>m_GraphicsPSOMap' := G, m_TilePSOMap' := T\<rparr>) w =
     (case CreateResourceSignatures fmt dev CI Ns r w of
        (ok, CI', r', w') \<Rightarrow> (ok, CI', r'\<lparr>m_GraphicsPSOMap' := G, m_TilePSOMap' := T\<rparr>, w'))"
  by (simp add: CreateResourceSignatures_def UnpackSignatures_frame split: prod.splits)

lemma UnpackRenderPass_frame:
  "UnpackRenderPass fmt dev info p0 (r\<lparr>m_GraphicsPSOMap' := G, m_TilePSOMap' := T\<rparr>) w =
     (case UnpackRenderPass fmt dev info p0 r w of
        (p, r', w') \<Rightarrow> (p, r'\<lparr>m_GraphicsPSOMap' := G, m_TilePSOMap' := T\<rparr>, w'))"
  by (simp add: UnpackRenderPass_def LoadResourceData_def Let_def
           split: option.splits prod.splits)

lemma CreateRenderPassOf_frame:
  "CreateRenderPassOf fmt dev CI Name (r\<lparr>m_GraphicsPSOMap' := G, m_TilePSOMap' := T\<rparr>) w =
     (case CreateRenderPassOf fmt dev CI Name r w of
        (ok, CI', r', w') \<Rightarrow> (ok, CI', r'\<lparr>m_GraphicsPSOMap' := G, m_TilePSOMap' := T\<rparr>, w'))"
  by (simp add: CreateRenderPassOf_def UnpackRenderPass_frame split: prod.splits option.splits)

lemma Shaders_update_last:
  "r\<lparr>m_GraphicsPSOMap' := G, m_TilePSOMap' := T, m_Shaders' := X\<rparr> =
   r\<lparr>m_Shaders' := X, m_GraphicsPSOMap' := G, m_TilePSOMap' := T\<rparr>"
  by (cases r) simp

lemma LoadShaderList_frame:
  "LoadShaderList dev B Idxs L (r\<lparr>m_GraphicsPSOMap' := G, m_TilePSOMap' := T\<rparr>) w =
     (case LoadShaderList dev B Idxs L r w of
        (S, r', w') \<Rightarrow> (S, r'\<lparr>m_GraphicsPSOMap' := G, m_TilePSOMap' := T\<rparr>, w'))"
proof (induction Idxs arbitrary: L r w)
  case Nil
  show ?case by simp
next
  case (Cons Idx rest)
  have step: "LoadShaderList dev B rest L' (r\<lparr>m_GraphicsPSOMap' := G, m_TilePSOMap' := T, m_Shaders' := X\<rparr>) w' =
     (case LoadShaderList dev B rest L' (r\<lparr>m_Shaders' := X\<rparr>) w' of
        (S, r', w') \<Rightarrow> (S, r'\<lparr>m_GraphicsPSOMap' := G, m_TilePSOMap' := T\<rparr>, w'))" for L' X w'
    using Cons.IH [of L' "r\<lparr>m_Shaders' := X\<rparr>" w'] by (simp only: Shaders_update_last)
  show ?case
    by (simp add: Cons.IH step split: prod.splits option.splits)
qed

lemma LoadShaders_frame:
  "LoadShaders dev Ser (r\<lparr>m_GraphicsPSOMap' := G, m_TilePSOMap' := T\<rparr>) w =
     (case LoadShaders dev Ser r w of
        (S, r', w') \<Rightarrow> (S, r'\<lparr>m_GraphicsPSOMap' := G, m_TilePSOMap' := T\<rparr>, w'))"
  by (simp add: LoadShaders_def Let_def LoadShaderList_frame split: prod.splits)

lemma keeps_from_eq:
  "r' = r'\<lparr>m_GraphicsPSOMap' := A, m_TilePSOMap' := B\<rparr> \<Longrightarrow>
   m_GraphicsPSOMap' r' = A \<and> m_TilePSOMap' r' = B"
  by (cases r') simp

lemma CreateResourceSignatures_keeps:
  assumes "CreateResourceSignatures fmt dev CI Ns r w = (ok, CI', r', w')"
  shows "m_GraphicsPSOMap' r' = m_GraphicsPSOMap' r \<and> m_TilePSOMap' r' = m_TilePSOMap' r"
proof -
  have "r' = r'\<lparr>m_GraphicsPSOMap' := m_GraphicsPSOMap' r, m_TilePSOMap' := m_TilePSOMap' r\<rparr>"
    using CreateResourceSignatures_frame [where r = r and G = "m_GraphicsPSOMap' r" and T = "m_TilePSOMap' r" and w = w
            and fmt = fmt and dev = dev and CI = CI and Ns = Ns] assms
    by simp
  thus ?thesis by (rule keeps_from_eq)
qed

lemma CreateRenderPassOf_keeps:
  assumes "CreateRenderPassOf fmt dev CI Name r w = (ok, CI', r', w')"
  shows "m_GraphicsPSOMap' r' = m_GraphicsPSOMap' r \<and> m_TilePSOMap' r' = m_TilePSOMap' r"
proof -
  have "r' = r'\<lparr>m_GraphicsPSOMap' := m_GraphicsPSOMap' r, m_TilePSOMap' := m_TilePSOMap' r\<rparr>"
    using CreateRenderPassOf_frame [where r = r and G = "m_GraphicsPSOMap' r" and T = "m_TilePSOMap' r" and w = w
            and fmt = fmt and dev = dev and CI = CI and Name = Name] assms
    by simp
  thus ?thesis by (rule keeps_from_eq)
qed

lemma LoadShaders_keeps:
  assumes "LoadShaders dev Ser r w = (S, r', w')"
  shows "m_GraphicsPSOMap' r' = m_GraphicsPSOMap' r \<and> m_TilePSOMap' r' = m_TilePSOMap' r"
proof -
  have "r' = r'\<lparr>m_GraphicsPSOMap' := m_GraphicsPSOMap' r, m_TilePSOMap' := m_TilePSOMap' r\<rparr>"
    using LoadShaders_frame [where r = r and G = "m_GraphicsPSOMap' r" and T = "m_TilePSOMap' r" and w = w
            and dev = dev and Ser = Ser] assms
    by simp
  thus ?thesis by (rule keeps_from_eq)
qed

lemma LoadDeviceSpecificData_frame:
  "LoadDeviceSpecificData h (r\<lparr>m_GraphicsPSOMap' := G, m_TilePSOMap' := T\<rparr>) = LoadDeviceSpecificData h r"
  by (simp add: LoadDeviceSpecificData_def Let_def)

lemma ReadGraphicsPSOData_WithCaches:
  "ReadGraphicsPSOData fmt dev Name (r\<lparr>m_GraphicsPSOMap' := WithCaches c (m_GraphicsPSOMap' r), m_TilePSOMap' := T\<rparr>) =
   ReadGraphicsPSOData fmt dev Name r"
  by (simp add: ReadGraphicsPSOData_def LoadResourceData_WithCaches)

lemma ReadTilePSOData_WithCaches:
  "ReadTilePSOData fmt dev Name (r\<lparr>m_GraphicsPSOMap' := G, m_TilePSOMap' := WithCaches c (m_TilePSOMap' r)\<rparr>) =
   ReadTilePSOData fmt dev Name r"
  by (simp add: ReadTilePSOData_def LoadResourceData_WithCaches)

lemma UnpackGraphicsPSO_frame:
  assumes "psu_OverrideFlags info \<noteq> 0"
  shows "UnpackGraphicsPSO fmt dev info p0
           (r\<lparr>m_GraphicsPSOMap' := WithCaches c (m_GraphicsPSOMap' r), m_TilePSOMap' := T\<rparr>) w =
         (case UnpackGraphicsPSO fmt dev info p0 r w of
            (p, r', w') \<Rightarrow>
              (p, r'\<lparr>m_GraphicsPSOMap' := WithCaches c (m_GraphicsPSOMap' r), m_TilePSOMap' := T\<rparr>, w'))"
  using assms
  by (simp add: UnpackGraphicsPSO_def Let_def ReadGraphicsPSOData_WithCaches CreateRenderPassOf_frame
                CreateResourceSignatures_frame LoadShaders_frame LoadDeviceSpecificData_frame
           split: option.splits prod.splits bool.splits)

lemma UnpackTilePSO_frame:
  assumes "psu_OverrideFlags info \<noteq> 0"
  shows "UnpackTilePSO fmt dev info p0
           (r\<lparr>m_GraphicsPSOMap' := G, m_TilePSOMap' := WithCaches c (m_TilePSOMap' r)\<rparr>) w =
         (case UnpackTilePSO fmt dev info p0 r w of
            (p, r', w') \<Rightarrow>
              (p, r'\<lparr>m_GraphicsPSOMap' := G, m_TilePSOMap' := WithCaches c (m_TilePSOMap' r)\<rparr>, w'))"
  using assms
  by (simp add: UnpackTilePSO_def Let_def ReadTilePSOData_WithCaches
                CreateResourceSignatures_frame LoadShaders_frame LoadDeviceSpecificData_frame
           split: option.splits prod.splits bool.splits)

lemma UnpackRenderPass_overridden:
  assumes "rpu_AttachmentCount info \<noteq> 0"
  shows "UnpackRenderPass fmt dev info p0 (r\<lparr>m_RenderPassMap := WithCaches c (m_RenderPassMap r)\<rparr>) w =
         (case UnpackRenderPass fmt dev info p0 r w of
            (p, r', w') \<Rightarrow> (p, r\<lparr>m_RenderPassMap := WithCaches c (m_RenderPassMap r)\<rparr>, w'))"
  using assms
  by (simp add: UnpackRenderPass_def Let_def LoadResourceData_WithCaches
           split: option.splits prod.splits)

lemma UnpackRenderPass_keeps:
  assumes "rpu_AttachmentCount info \<noteq> 0"
  shows "fst (snd (UnpackRenderPass fmt dev info p0 r w)) = r"
  using assms
  by (simp add: UnpackRenderPass_def Let_def split: option.splits prod.splits)

lemma UnpackGraphicsPSO_keeps:
  assumes "psu_OverrideFlags info \<noteq> 0"
      and "UnpackGraphicsPSO fmt dev info p0 r w = (p, r', w')"
  shows "m_GraphicsPSOMap' r' = m_GraphicsPSOMap' r \<and> m_TilePSOMap' r' = m_TilePSOMap' r"
  using assms
  by (auto simp add: UnpackGraphicsPSO_def Let_def
           split: option.splits prod.splits bool.splits
           dest!: CreateRenderPassOf_keeps CreateResourceSignatures_keeps LoadShaders_keeps)

lemma UnpackTilePSO_keeps:
  assumes "psu_OverrideFlags info \<noteq> 0"
      and "UnpackTilePSO fmt dev info p0 r w = (p, r', w')"
  shows "m_GraphicsPSOMap' r' = m_GraphicsPSOMap' r \<and> m_TilePSOMap' r' = m_TilePSOMap' r"
  using assms
  by (auto simp add: UnpackTilePSO_def Let_def
           split: option.splits prod.splits bool.splits if_splits
           dest!: CreateResourceSignatures_keeps LoadShaders_keeps)

lemma Tile_update_same:
  "x\<lparr>m_GraphicsPSOMap' := G, m_TilePSOMap' := m_TilePSOMap' x\<rparr> = x\<lparr>m_GraphicsPSOMap' := G\<rparr>"
  by (cases x) simp

lemma Graphics_update_same:
  "x\<lparr>m_GraphicsPSOMap' := m_GraphicsPSOMap' x, m_TilePSOMap' := T\<rparr> = x\<lparr>m_TilePSOMap' := T\<rparr>"
  by (cases x) simp

lemma UnpackGraphicsPSO_overridden:
  assumes "psu_OverrideFlags info \<noteq> 0"
      and u: "UnpackGraphicsPSO fmt dev info p0 r w = (p, r', w')"
  shows "UnpackGraphicsPSO fmt dev info p0 (r\<lparr>m_GraphicsPSOMap' := WithCaches c (m_GraphicsPSOMap' r)\<rparr>) w =
         (p, r'\<lparr>m_GraphicsPSOMap' := WithCaches c (m_GraphicsPSOMap' r)\<rparr>, w')"
proof -
  from UnpackGraphicsPSO_keeps [OF assms]
  have k: "m_TilePSOMap' r' = m_TilePSOMap' r" by simp
  have a: "r\<lparr>m_GraphicsPSOMap' := X, m_TilePSOMap' := m_TilePSOMap' r\<rparr> = r\<lparr>m_GraphicsPSOMap' := X\<rparr>" for X
    by (rule Tile_update_same)
  have b: "r'\<lparr>m_GraphicsPSOMap' := X, m_TilePSOMap' := m_TilePSOMap' r\<rparr> = r'\<lparr>m_GraphicsPSOMap' := X\<rparr>" for X
    using Tile_update_same [where x = r' and G = X] k by simp
  from UnpackGraphicsPSO_frame [OF assms(1), where r = r and T = "m_TilePSOMap' r" and c = c
                                  and fmt = fmt and dev = dev and ?p0.0 = p0 and w = w]
  show ?thesis by (simp add: u a b)
qed

lemma UnpackTilePSO_overridden:
  assumes "psu_OverrideFlags info \<noteq> 0"
      and u: "UnpackTilePSO fmt dev info p0 r w = (p, r', w')"
  shows "UnpackTilePSO fmt dev info p0 (r\<lparr>m_TilePSOMap' := WithCaches c (m_TilePSOMap' r)\<rparr>) w =
         (p, r'\<lparr>m_TilePSOMap' := WithCaches c (m_TilePSOMap' r)\<rparr>, w')"
proof -
  from UnpackTilePSO_keeps [OF assms]
  have k: "m_GraphicsPSOMap' r' = m_GraphicsPSOMap' r" by simp
  have a: "r\<lparr>m_GraphicsPSOMap' := m_GraphicsPSOMap' r, m_TilePSOMap' := X\<rparr> = r\<lparr>m_TilePSOMap' := X\<rparr>" for X
    by (rule Graphics_update_same)
  have b: "r'\<lparr>m_GraphicsPSOMap' := m_GraphicsPSOMap' r, m_TilePSOMap' := X\<rparr> = r'\<lparr>m_TilePSOMap' := X\<rparr>" for X
    using Graphics_update_same [where x = r' and T = X] k by simp
  from UnpackTilePSO_frame [OF assms(1), where r = r and G = "m_GraphicsPSOMap' r" and c = c
                                  and fmt = fmt and dev = dev and ?p0.0 = p0 and w = w]
  show ?thesis by (simp add: u a b)
qed

text \<open>The example: what is read from the source, and what the three requests return.\<close>

lemma example_headers_length:
  "length GraphicsHeaderBytes = 52" "length TileHeaderBytes = 52" "length RenderPassHeaderBytes = 52"
  by (simp_all add: GraphicsHeaderBytes_def TileHeaderBytes_def RenderPassHeaderBytes_def)

lemma ReadHeaderOfKind_GraphicsHeaderBytes:
  "ReadHeaderOfKind ExampleFormat GraphicsPipelineStates GraphicsHeaderBytes =
     Some (decode_DataHeader GraphicsHeaderBytes, [])"
  by (simp add: ReadHeaderOfKind_def sizeof_DataHeader_def decode_DataHeader_def ExampleFormat_def
        ChunkTypeInSwitchOrder_def GraphicsHeaderBytes_def u32_at_def)

lemma ReadHeaderOfKind_TileHeaderBytes:
  "ReadHeaderOfKind ExampleFormat TilePipelineStates TileHeaderBytes =
     Some (decode_DataHeader TileHeaderBytes, [])"
  by (simp add: ReadHeaderOfKind_def sizeof_DataHeader_def decode_DataHeader_def ExampleFormat_def
        ChunkTypeInSwitchOrder_def TileHeaderBytes_def u32_at_def)

lemma ReadHeaderOfKind_RenderPassHeaderBytes:
  "ReadHeaderOfKind ExampleFormat RenderPass RenderPassHeaderBytes =
     Some (decode_DataHeader RenderPassHeaderBytes, [])"
  by (simp add: ReadHeaderOfKind_def sizeof_DataHeader_def decode_DataHeader_def ExampleFormat_def
        ChunkTypeInSwitchOrder_def RenderPassHeaderBytes_def u32_at_def)

lemma LoadResourceData_P:
  "LoadResourceData (m_GraphicsPSOMap' CachedReader) ''P'' CachedReader = Some GraphicsHeaderBytes"
  by (simp add: LoadResourceData_def CachedReader_def Archive_Read_def example_headers_length)

lemma LoadResourceData_T:
  "LoadResourceData (m_TilePSOMap' CachedReader) ''T'' CachedReader = Some TileHeaderBytes"
  by (simp add: LoadResourceData_def CachedReader_def Archive_Read_def example_headers_length)

lemma LoadResourceData_R:
  "LoadResourceData (m_RenderPassMap CachedReader) ''R'' CachedReader = Some RenderPassHeaderBytes"
  by (simp add: LoadResourceData_def CachedReader_def Archive_Read_def example_headers_length)

lemma LoadDeviceSpecificData_P:
  "LoadDeviceSpecificData (decode_DataHeader GraphicsHeaderBytes) CachedReader = Some [1]"
  by (simp add: LoadDeviceSpecificData_def Let_def CachedReader_def Archive_Read_def example_headers_length
        GetSize_def GetOffset_def GetEndOffset_def decode_DataHeader_def
        GraphicsHeaderBytes_def u32_at_def)

lemma LoadDeviceSpecificData_T:
  "LoadDeviceSpecificData (decode_DataHeader TileHeaderBytes) CachedReader = Some [0]"
  by (simp add: LoadDeviceSpecificData_def Let_def CachedReader_def Archive_Read_def example_headers_length
        GetSize_def GetOffset_def GetEndOffset_def decode_DataHeader_def
        TileHeaderBytes_def u32_at_def)

lemma LoadShaders_P:
  "LoadShaders ExampleDevice [1] CachedReader w = (Some [2], CachedReader, w)"
  by (simp add: LoadShaders_def Let_def CachedReader_def ExampleDevice_def example_headers_length)

lemma LoadShaders_T:
  "LoadShaders ExampleDevice [0] CachedReader w = (Some [1], CachedReader, w)"
  by (simp add: LoadShaders_def Let_def CachedReader_def ExampleDevice_def example_headers_length)

lemma ExampleDevice_fields:
  "IsAlive ExampleDevice w p = (0 < p \<and> p \<le> w)"
  "ShaderTypeOf ExampleDevice w p = (if p = 1 then SHADER_TYPE_TILE else SHADER_TYPE_VERTEX)"
  "CreateGraphicsPipelineState ExampleDevice GCI w = (Some (Suc w), Suc w)"
  "CreateTilePipelineState ExampleDevice TCI w = (Some (Suc w), Suc w)"
  "CreateRenderPass ExampleDevice Desc w = (Some (Suc w), Suc w)"
  "DeserializeGraphicsPSO ExampleDevice bs = (ExampleGraphicsCI, [], [])"
  "DeserializeTilePSO ExampleDevice bs = (ExampleTileCI, [])"
  "DeserializeRenderPass ExampleDevice bs = ExampleRenderPassDesc"
  by (simp_all add: ExampleDevice_def)

lemma OverrideBitsOf_4: "OverrideBitsOf 4 = [2]"
  by (simp add: OverrideBitsOf_def upt_rec)

lemma OverrideBitsOf_2: "OverrideBitsOf 2 = [1]"
  by (simp add: OverrideBitsOf_def upt_rec)

lemma OverrideBitsOf_1: "OverrideBitsOf 1 = [0]"
  by (simp add: OverrideBitsOf_def upt_rec)

lemma UnpackGraphicsPSO_P_overridden:
  "UnpackGraphicsPSO ExampleFormat ExampleDevice BlendOverride None CachedReader 5 = (Some 6, CachedReader, 6)"
  by (simp add: UnpackGraphicsPSO_def Let_def BlendOverride_def ReadGraphicsPSOData_def LoadResourceData_P ReadHeaderOfKind_GraphicsHeaderBytes
        CreateRenderPassOf_def CreateResourceSignatures_def LoadDeviceSpecificData_P LoadShaders_P ExampleDevice_fields OverrideBitsOf_4
        ApplyGraphicsOverride_def ExampleGraphicsCI_def)

text \<open>Without the override flag the same request is served from the cache.\<close>

lemma UnpackGraphicsPSO_P_cached:
  "UnpackGraphicsPSO ExampleFormat ExampleDevice (BlendOverride\<lparr>psu_OverrideFlags := 0\<rparr>) None CachedReader 5 =
     (Some 3, CachedReader, 5)"
  by (simp add: UnpackGraphicsPSO_def Let_def BlendOverride_def GetCachedResource_def CachedReader_def
        ExampleDevice_fields)

lemma UnpackTilePSO_T_overridden:
  "UnpackTilePSO ExampleFormat ExampleDevice SampleCountOverride None CachedReader 5 = (Some 6, CachedReader, 6)"
  by (simp add: UnpackTilePSO_def Let_def SampleCountOverride_def ReadTilePSOData_def LoadResourceData_T ReadHeaderOfKind_TileHeaderBytes
        CreateResourceSignatures_def LoadDeviceSpecificData_T LoadShaders_T ExampleDevice_fields OverrideBitsOf_2
        ApplyTileOverride_def ExampleTileCI_def)

lemma UnpackRenderPass_R_overridden:
  "UnpackRenderPass ExampleFormat ExampleDevice FormatOverride None CachedReader 5 = (Some 6, CachedReader, 6)"
  by (simp add: UnpackRenderPass_def Let_def FormatOverride_def LoadResourceData_R ReadHeaderOfKind_RenderPassHeaderBytes ExampleDevice_fields OverrideBitsOf_1
        ExampleRenderPassDesc_def)

text \<open>
  C8. A request with overrides goes past the weak references of its kind. For a graphics or
  tile pipeline unpacked with an override flag set, the directory of that kind is after the
  call what it was before, so nothing is installed and what was cached stays cached; and
  with any other weak references \<open>c\<close> in that directory the call returns the same object,
  leaves the device in the same state and the reader in the same state but for \<open>c\<close>, so no
  cached object is looked up. For a render pass the code skips the cache when the request
  has an attachment override, which a request that carries an override flag has; then the
  reader as a whole is unchanged. The objects that a request with overrides needs on the
  way (the signatures, the render pass and the shaders of a pipeline) are unpacked without
  overrides and go through the caches of their own kinds.
\<close>

theorem Unpack_with_overrides_skips_cache:
  assumes "psu_OverrideFlags GraphicsInfo \<noteq> 0"
      and "psu_OverrideFlags TileInfo \<noteq> 0"
      and "rpu_AttachmentCount RenderPassInfo \<noteq> 0"
  shows "(case UnpackGraphicsPSO fmt dev GraphicsInfo pPSO0 r w of
            (pPSO, r', w') \<Rightarrow>
              m_GraphicsPSOMap' r' = m_GraphicsPSOMap' r \<and>
              UnpackGraphicsPSO fmt dev GraphicsInfo pPSO0
                (r\<lparr>m_GraphicsPSOMap' := WithCaches c (m_GraphicsPSOMap' r)\<rparr>) w =
                (pPSO, r'\<lparr>m_GraphicsPSOMap' := WithCaches c (m_GraphicsPSOMap' r)\<rparr>, w')) \<and>
         (case UnpackTilePSO fmt dev TileInfo pPSO0 r w of
            (pPSO, r', w') \<Rightarrow>
              m_TilePSOMap' r' = m_TilePSOMap' r \<and>
              UnpackTilePSO fmt dev TileInfo pPSO0
                (r\<lparr>m_TilePSOMap' := WithCaches c (m_TilePSOMap' r)\<rparr>) w =
                (pPSO, r'\<lparr>m_TilePSOMap' := WithCaches c (m_TilePSOMap' r)\<rparr>, w')) \<and>
         (case UnpackRenderPass fmt dev RenderPassInfo pRP0 r w of
            (pRPObj, r', w') \<Rightarrow>
              r' = r \<and>
              UnpackRenderPass fmt dev RenderPassInfo pRP0
                (r\<lparr>m_RenderPassMap := WithCaches c (m_RenderPassMap r)\<rparr>) w =
                (pRPObj, r\<lparr>m_RenderPassMap := WithCaches c (m_RenderPassMap r)\<rparr>, w'))"
proof (intro conjI)
  obtain p r' w' where u: "UnpackGraphicsPSO fmt dev GraphicsInfo pPSO0 r w = (p, r', w')"
    by (cases "UnpackGraphicsPSO fmt dev GraphicsInfo pPSO0 r w") auto
  from UnpackGraphicsPSO_keeps [OF assms(1) u] UnpackGraphicsPSO_overridden [OF assms(1) u]
  show "case UnpackGraphicsPSO fmt dev GraphicsInfo pPSO0 r w of
            (pPSO, r', w') \<Rightarrow>
              m_GraphicsPSOMap' r' = m_GraphicsPSOMap' r \<and>
              UnpackGraphicsPSO fmt dev GraphicsInfo pPSO0
                (r\<lparr>m_GraphicsPSOMap' := WithCaches c (m_GraphicsPSOMap' r)\<rparr>) w =
                (pPSO, r'\<lparr>m_GraphicsPSOMap' := WithCaches c (m_GraphicsPSOMap' r)\<rparr>, w')"
    by (simp add: u)
next
  obtain p r' w' where u: "UnpackTilePSO fmt dev TileInfo pPSO0 r w = (p, r', w')"
    by (cases "UnpackTilePSO fmt dev TileInfo pPSO0 r w") auto
  from UnpackTilePSO_keeps [OF assms(2) u] UnpackTilePSO_overridden [OF assms(2) u]
  show "case UnpackTilePSO fmt dev TileInfo pPSO0 r w of
            (pPSO, r', w') \<Rightarrow>
              m_TilePSOMap' r' = m_TilePSOMap' r \<and>
              UnpackTilePSO fmt dev TileInfo pPSO0
                (r\<lparr>m_TilePSOMap' := WithCaches c (m_TilePSOMap' r)\<rparr>) w =
                (pPSO, r'\<lparr>m_TilePSOMap' := WithCaches c (m_TilePSOMap' r)\<rparr>, w')"
    by (simp add: u)
next
  show "case UnpackRenderPass fmt dev RenderPassInfo pRP0 r w of
            (pRPObj, r', w') \<Rightarrow>
              r' = r \<and>
              UnpackRenderPass fmt dev RenderPassInfo pRP0
                (r\<lparr>m_RenderPassMap := WithCaches c (m_RenderPassMap r)\<rparr>) w =
                (pRPObj, r\<lparr>m_RenderPassMap := WithCaches c (m_RenderPassMap r)\<rparr>, w')"
    using UnpackRenderPass_overridden [OF assms(3), where fmt = fmt and dev = dev and ?p0.0 = pRP0
                                         and r = r and c = c and w = w]
          UnpackRenderPass_keeps [OF assms(3), where fmt = fmt and dev = dev and ?p0.0 = pRP0
                                    and r = r and w = w]
    by (auto split: prod.splits)
qed

lemma example_requests_override:
  "psu_OverrideFlags BlendOverride \<noteq> 0"
  "psu_OverrideFlags SampleCountOverride \<noteq> 0"
  "rpu_AttachmentCount FormatOverride \<noteq> 0"
  by (simp_all add: BlendOverride_def SampleCountOverride_def FormatOverride_def)

theorem Unpack_with_overrides_skips_cache_witness:
  "psu_OverrideFlags BlendOverride \<noteq> 0 \<and>
   psu_OverrideFlags SampleCountOverride \<noteq> 0 \<and>
   rpu_AttachmentCount FormatOverride \<noteq> 0 \<and>
   UnpackGraphicsPSO ExampleFormat ExampleDevice BlendOverride None CachedReader 5 =
     (Some 6, CachedReader, 6) \<and>
   UnpackGraphicsPSO ExampleFormat ExampleDevice BlendOverride None
     (CachedReader\<lparr>m_GraphicsPSOMap' := WithCaches (\<lambda>Name. None) (m_GraphicsPSOMap' CachedReader)\<rparr>) 5 =
     (Some 6, CachedReader\<lparr>m_GraphicsPSOMap' := WithCaches (\<lambda>Name. None) (m_GraphicsPSOMap' CachedReader)\<rparr>, 6) \<and>
   UnpackTilePSO ExampleFormat ExampleDevice SampleCountOverride None CachedReader 5 =
     (Some 6, CachedReader, 6) \<and>
   UnpackTilePSO ExampleFormat ExampleDevice SampleCountOverride None
     (CachedReader\<lparr>m_TilePSOMap' := WithCaches (\<lambda>Name. None) (m_TilePSOMap' CachedReader)\<rparr>) 5 =
     (Some 6, CachedReader\<lparr>m_TilePSOMap' := WithCaches (\<lambda>Name. None) (m_TilePSOMap' CachedReader)\<rparr>, 6) \<and>
   UnpackRenderPass ExampleFormat ExampleDevice FormatOverride None CachedReader 5 =
     (Some 6, CachedReader, 6) \<and>
   UnpackRenderPass ExampleFormat ExampleDevice FormatOverride None
     (CachedReader\<lparr>m_RenderPassMap := WithCaches (\<lambda>Name. None) (m_RenderPassMap CachedReader)\<rparr>) 5 =
     (Some 6, CachedReader\<lparr>m_RenderPassMap := WithCaches (\<lambda>Name. None) (m_RenderPassMap CachedReader)\<rparr>, 6)"
  using Unpack_with_overrides_skips_cache
          [where GraphicsInfo = BlendOverride and TileInfo = SampleCountOverride
             and RenderPassInfo = FormatOverride and fmt = ExampleFormat and dev = ExampleDevice
             and ?pPSO0.0 = None and ?pRP0.0 = None and r = CachedReader and w = 5
             and c = "\<lambda>Name. None"]
  by (simp add: example_requests_override UnpackGraphicsPSO_P_overridden UnpackTilePSO_T_overridden UnpackRenderPass_R_overridden)


end
